theory Spec2Isabelle
  imports Main "HOL-Library.Sublist"
begin

section \<open>Go strings, runes and white space\<close>

text \<open>
  A Go string is a byte sequence; it is modelled by \<^typ>\<open>string\<close>, whose characters are
  bytes. A \<open>for _, r := range s\<close> loop decodes the bytes as UTF-8, one rune per step; an
  invalid or truncated sequence yields the replacement rune \<open>U+FFFD\<close> and consumes one byte.
\<close>

type_synonym rune = nat

definition RuneError :: rune where
  "RuneError = 0xFFFD"

definition isCont :: "nat \<Rightarrow> bool" where
  "isCont b = (0x80 \<le> b \<and> b \<le> 0xBF)"

text \<open>
  \<open>utf8.DecodeRuneInString\<close>: the first rune of a byte sequence and its width. The
  two-, three- and four-byte forms are decoded by \<open>decode2\<close>, \<open>decode3\<close> and \<open>decode4\<close>.
\<close>

definition decode2 :: "nat \<Rightarrow> nat list \<Rightarrow> rune \<times> nat" where
  "decode2 b0 r =
     (case r of
        b1 # _ \<Rightarrow> if isCont b1 then ((b0 mod 32) * 64 + b1 mod 64, 2) else (RuneError, 1)
      | _ \<Rightarrow> (RuneError, 1))"

definition decode3 :: "nat \<Rightarrow> nat list \<Rightarrow> rune \<times> nat" where
  "decode3 b0 r =
     (case r of
        b1 # b2 # _ \<Rightarrow>
          if (if b0 = 0xE0 then 0xA0 else 0x80) \<le> b1
             \<and> b1 \<le> (if b0 = 0xED then 0x9F else 0xBF) \<and> isCont b2
          then ((b0 mod 16) * 4096 + (b1 mod 64) * 64 + b2 mod 64, 3)
          else (RuneError, 1)
      | _ \<Rightarrow> (RuneError, 1))"

definition decode4 :: "nat \<Rightarrow> nat list \<Rightarrow> rune \<times> nat" where
  "decode4 b0 r =
     (case r of
        b1 # b2 # b3 # _ \<Rightarrow>
          if (if b0 = 0xF0 then 0x90 else 0x80) \<le> b1
             \<and> b1 \<le> (if b0 = 0xF4 then 0x8F else 0xBF) \<and> isCont b2 \<and> isCont b3
          then ((b0 mod 8) * 262144 + (b1 mod 64) * 4096 + (b2 mod 64) * 64 + b3 mod 64, 4)
          else (RuneError, 1)
      | _ \<Rightarrow> (RuneError, 1))"

definition DecodeRune :: "nat list \<Rightarrow> rune \<times> nat" where
  "DecodeRune bs =
     (case bs of
        [] \<Rightarrow> (RuneError, 0)
      | b0 # r \<Rightarrow>
          if b0 < 0x80 then (b0, 1)
          else if 0xC2 \<le> b0 \<and> b0 \<le> 0xDF then decode2 b0 r
          else if 0xE0 \<le> b0 \<and> b0 \<le> 0xEF then decode3 b0 r
          else if 0xF0 \<le> b0 \<and> b0 \<le> 0xF4 then decode4 b0 r
          else (RuneError, 1))"

text \<open>The runes a \<open>range\<close> loop over the string visits, in order.\<close>

fun rangeRunes :: "nat list \<Rightarrow> rune list" where
  "rangeRunes [] = []"
| "rangeRunes (b # bs) =
     fst (DecodeRune (b # bs)) # rangeRunes (drop (snd (DecodeRune (b # bs)) - 1) bs)"

definition bytes :: "string \<Rightarrow> nat list" where
  "bytes s = map of_char s"

text \<open>
  \<open>unicode.IsLetter\<close> and \<open>unicode.IsDigit\<close>. Below \<open>U+0100\<close> Go answers from a fixed
  property table, which is written out here; above it the answer comes from the Unicode
  range tables of the standard library, which are parameters (\<open>Letter\<close>, \<open>Digit\<close>) of
  the environment.
\<close>

record unicodeTables =
  Letter :: "rune \<Rightarrow> bool"
  Digit :: "rune \<Rightarrow> bool"

definition IsLetter :: "('a unicodeTables_scheme) \<Rightarrow> rune \<Rightarrow> bool" where
  "IsLetter u r =
     (if r \<le> 0xFF then
        (0x41 \<le> r \<and> r \<le> 0x5A) \<or> (0x61 \<le> r \<and> r \<le> 0x7A)
        \<or> r = 0xAA \<or> r = 0xB5 \<or> r = 0xBA
        \<or> (0xC0 \<le> r \<and> r \<le> 0xD6) \<or> (0xD8 \<le> r \<and> r \<le> 0xF6) \<or> 0xF8 \<le> r
      else Letter u r)"

definition IsDigit :: "('a unicodeTables_scheme) \<Rightarrow> rune \<Rightarrow> bool" where
  "IsDigit u r = (if r \<le> 0xFF then 0x30 \<le> r \<and> r \<le> 0x39 else Digit u r)"

text \<open>
  \<open>strings.TrimSpace\<close> removes leading and trailing white space as Unicode defines it.
  The white-space runes are \<open>\t \n \v \f \r\<close>, space, \<open>U+0085\<close>, \<open>U+00A0\<close>, \<open>U+1680\<close>,
  \<open>U+2000\<close> to \<open>U+200A\<close>, \<open>U+2028\<close>, \<open>U+2029\<close>, \<open>U+202F\<close>, \<open>U+205F\<close> and \<open>U+3000\<close>;
  \<open>spaceSeqs\<close> lists their UTF-8 encodings.
\<close>

definition spaceSeqs :: "string list" where
  "spaceSeqs =
     [[CHR 0x09], [CHR 0x0A], [CHR 0x0B], [CHR 0x0C], [CHR 0x0D], [CHR 0x20],
      [CHR 0xC2, CHR 0x85], [CHR 0xC2, CHR 0xA0], [CHR 0xE1, CHR 0x9A, CHR 0x80],
      [CHR 0xE2, CHR 0x80, CHR 0x80], [CHR 0xE2, CHR 0x80, CHR 0x81],
      [CHR 0xE2, CHR 0x80, CHR 0x82], [CHR 0xE2, CHR 0x80, CHR 0x83],
      [CHR 0xE2, CHR 0x80, CHR 0x84], [CHR 0xE2, CHR 0x80, CHR 0x85],
      [CHR 0xE2, CHR 0x80, CHR 0x86], [CHR 0xE2, CHR 0x80, CHR 0x87],
      [CHR 0xE2, CHR 0x80, CHR 0x88], [CHR 0xE2, CHR 0x80, CHR 0x89],
      [CHR 0xE2, CHR 0x80, CHR 0x8A], [CHR 0xE2, CHR 0x80, CHR 0xA8],
      [CHR 0xE2, CHR 0x80, CHR 0xA9], [CHR 0xE2, CHR 0x80, CHR 0xAF],
      [CHR 0xE2, CHR 0x81, CHR 0x9F], [CHR 0xE3, CHR 0x80, CHR 0x80]]"

function stripLeading :: "string list \<Rightarrow> string \<Rightarrow> string" where
  "stripLeading seqs s =
     (case find (\<lambda>q. q \<noteq> [] \<and> prefix q s) seqs of
        None \<Rightarrow> s
      | Some q \<Rightarrow> stripLeading seqs (drop (length q) s))"
  by pat_completeness auto
termination
proof (relation "measure (\<lambda>(seqs, s). length s)")
  show "wf (measure (\<lambda>(seqs, s). length s))" by simp
next
  fix seqs :: "string list" and s q :: string
  assume "find (\<lambda>q. q \<noteq> [] \<and> prefix q s) seqs = Some q"
  then have "q \<noteq> []" and "prefix q s"
    by (auto simp: find_Some_iff)
  then have "0 < length q" and "length q \<le> length s"
    by (auto simp: prefix_length_le)
  then have "length s - length q < length s"
    by arith
  then show "((seqs, drop (length q) s), (seqs, s)) \<in> measure (\<lambda>(seqs, s). length s)"
    by simp
qed

definition TrimSpace :: "string \<Rightarrow> string" where
  "TrimSpace s = rev (stripLeading (map rev spaceSeqs) (rev (stripLeading spaceSeqs s)))"

text \<open>\<open>strings.Fields\<close>: the maximal runs of non-white-space bytes.\<close>

function fieldsFrom :: "string \<Rightarrow> string \<Rightarrow> string list" where
  "fieldsFrom cur [] = (if cur = [] then [] else [cur])"
| "fieldsFrom cur (c # cs) =
     (case find (\<lambda>q. q \<noteq> [] \<and> prefix q (c # cs)) spaceSeqs of
        Some q \<Rightarrow> (if cur = [] then [] else [cur]) @ fieldsFrom [] (drop (length q) (c # cs))
      | None \<Rightarrow> fieldsFrom (cur @ [c]) cs)"
  by pat_completeness auto
termination
proof (relation "measure (\<lambda>(cur, s). length s)")
  show "wf (measure (\<lambda>(cur, s). length s))" by simp
next
  fix cur :: string and c :: char and cs q :: string
  assume "find (\<lambda>q. q \<noteq> [] \<and> prefix q (c # cs)) spaceSeqs = Some q"
  then have "q \<noteq> []"
    by (auto simp: find_Some_iff)
  then have "0 < length q"
    by simp
  then have "length (c # cs) - length q < length (c # cs)"
    by simp
  then show "(([], drop (length q) (c # cs)), (cur, c # cs)) \<in> measure (\<lambda>(cur, s). length s)"
    by simp
next
  fix cur :: string and c :: char and cs :: string
  show "((cur @ [c], cs), (cur, c # cs)) \<in> measure (\<lambda>(cur, s). length s)"
    by simp
qed

definition Fields :: "string \<Rightarrow> string list" where
  "Fields s = fieldsFrom [] s"

text \<open>
  \<open>strconv.Atoi\<close> on a 64-bit platform: an optional sign, then decimal digits only, and
  the value must fit an \<open>int\<close>.
\<close>

definition isDecimal :: "char \<Rightarrow> bool" where
  "isDecimal ch = (0x30 \<le> (of_char ch :: nat) \<and> (of_char ch :: nat) \<le> 0x39)"

definition digitsValue :: "string \<Rightarrow> int" where
  "digitsValue ds = foldl (\<lambda>n ch. n * 10 + (int (of_char ch) - 0x30)) 0 ds"

definition Atoi :: "string \<Rightarrow> int option" where
  "Atoi s =
     (let neg = (s \<noteq> [] \<and> hd s = CHR ''-'');
          ds = (if s \<noteq> [] \<and> (hd s = CHR ''-'' \<or> hd s = CHR ''+'') then tl s else s)
      in if ds = [] \<or> \<not> list_all isDecimal ds then None
         else let n = (if neg then - digitsValue ds else digitsValue ds)
              in if - (2 ^ 63) \<le> n \<and> n < 2 ^ 63 then Some n else None)"

section \<open>The query engine client (package osquery)\<close>

text \<open>
  Values stored in the telemetry bag are Go \<open>interface{}\<close> values that are later
  marshalled to JSON. A row of an osquery result is a \<open>map[string]interface{}\<close>, modelled
  by an association list; \<open>None\<close> is the nil map.
\<close>

datatype jv = JNull | JBool bool | JNum int | JStr string | JArr "jv list"
  | JObj "(string \<times> jv) list"

type_synonym row = "(string \<times> jv) list"

datatype error = Error string

text \<open>
  The outcome of \<open>exec.Command(...).Output()\<close>: the standard output, an \<open>*exec.ExitError\<close>
  carrying the standard error text, or another error with its message.
\<close>

datatype execres = Output string | ExitError string | ExecFailure string

type_synonym invocation = "string \<times> string list"

type_synonym Platform = string

definition PlatformMacOS :: Platform where
  "PlatformMacOS = ''MACOS''"

definition PlatformWindows :: Platform where
  "PlatformWindows = ''WINDOWS''"

definition PlatformLinux :: Platform where
  "PlatformLinux = ''LINUX''"

record Client =
  binaryPath :: string
  platform :: Platform
  verbose :: bool

text \<open>
  The host as the client sees it during one collection: the process environment, which
  paths \<open>os.Stat\<close> finds, what each external process answers, how \<open>json.Unmarshal\<close>
  decodes osquery's output, and \<open>filepath.Join\<close>. The host does not change while one
  snapshot is collected, so each is a function of its arguments. Every process started is
  appended to a list of invocations that the operations pass along.
\<close>

record osenv = unicodeTables +
  getenv :: "string \<Rightarrow> string"
  stat :: "string \<Rightarrow> bool"
  exec :: "string \<Rightarrow> string list \<Rightarrow> execres"
  unmarshal :: "string \<Rightarrow> row option list option"
  Join :: "string list \<Rightarrow> string"

definition commandLine :: "Client \<Rightarrow> string \<Rightarrow> invocation" where
  "commandLine c command =
     (if platform c = PlatformWindows
      then (''cmd'', [''/c'', ''cmd /c chcp 65001>nul && '' @ command])
      else (''sh'', [''-c'', command]))"

definition RunCommand ::
  "('a osenv_scheme) \<Rightarrow> Client \<Rightarrow> string \<Rightarrow> invocation list
     \<Rightarrow> (error + string) \<times> invocation list" where
  "RunCommand env c command ivs =
     (let (prog, args) = commandLine c command
      in (case exec env prog args of
            ExitError stderr \<Rightarrow> Inl (Error (''command error: '' @ stderr))
          | ExecFailure msg \<Rightarrow> Inl (Error msg)
          | Output out \<Rightarrow> Inr (TrimSpace out),
          ivs @ [(prog, args)]))"

definition RunQuery ::
  "('a osenv_scheme) \<Rightarrow> Client \<Rightarrow> string \<Rightarrow> invocation list
     \<Rightarrow> (error + row option list) \<times> invocation list" where
  "RunQuery env c query ivs =
     (case exec env (binaryPath c) [''--json'', query] of
        ExitError stderr \<Rightarrow> Inl (Error (''osquery error: '' @ stderr))
      | ExecFailure msg \<Rightarrow> Inl (Error msg)
      | Output out \<Rightarrow>
          (case unmarshal env out of
             None \<Rightarrow> Inl (Error ''failed to parse osquery output'')
           | Some rows \<Rightarrow> Inr rows),
      ivs @ [(binaryPath c, [''--json'', query])])"

definition queryFirst ::
  "('a osenv_scheme) \<Rightarrow> Client \<Rightarrow> string \<Rightarrow> invocation list
     \<Rightarrow> (error + row option) \<times> invocation list" where
  "queryFirst env c query ivs =
     (case RunQuery env c query ivs of
        (Inl e, ivs') \<Rightarrow> (Inl e, ivs')
      | (Inr rows, ivs') \<Rightarrow> (case rows of r # _ \<Rightarrow> (Inr r, ivs') | [] \<Rightarrow> (Inr None, ivs')))"

subsection \<open>The desktop session user\<close>

fun allowedRunes :: "('a unicodeTables_scheme) \<Rightarrow> rune list \<Rightarrow> bool" where
  "allowedRunes u [] = True"
| "allowedRunes u (r # rs) =
     (if \<not> (IsLetter u r \<or> IsDigit u r \<or> r = 0x2D \<or> r = 0x5F) then False
      else allowedRunes u rs)"

definition isValidSessionUser :: "('a unicodeTables_scheme) \<Rightarrow> string \<Rightarrow> bool" where
  "isValidSessionUser u user =
     (if user = [] \<or> user = ''root'' then False
      else allowedRunes u (rangeRunes (bytes user)))"

fun firstValidCandidate :: "('a unicodeTables_scheme) \<Rightarrow> string list \<Rightarrow> string option" where
  "firstValidCandidate u [] = None"
| "firstValidCandidate u (candidate # rest) =
     (if isValidSessionUser u (TrimSpace candidate) then Some (TrimSpace candidate)
      else firstValidCandidate u rest)"

definition getDesktopSessionUser ::
  "('a osenv_scheme) \<Rightarrow> Client \<Rightarrow> invocation list \<Rightarrow> string \<times> invocation list" where
  "getDesktopSessionUser env c ivs =
     (case firstValidCandidate env
             [getenv env ''SUDO_USER'', getenv env ''LOGNAME'', getenv env ''USER''] of
        Some candidate \<Rightarrow> (candidate, ivs)
      | None \<Rightarrow>
          (case RunCommand env c ''logname'' ivs of
             (Inr output, ivs') \<Rightarrow>
               if isValidSessionUser env (TrimSpace output) then (TrimSpace output, ivs')
               else ([], ivs')
           | (Inl _, ivs') \<Rightarrow> ([], ivs')))"

definition runGsettingsCommand ::
  "('a osenv_scheme) \<Rightarrow> Client \<Rightarrow> string \<Rightarrow> invocation list
     \<Rightarrow> (error + string) \<times> invocation list" where
  "runGsettingsCommand env c args ivs =
     (let baseCmd = ''gsettings '' @ args;
          (user, ivs1) = getDesktopSessionUser env c ivs
      in if user = [] then RunCommand env c baseCmd ivs1
         else
           let userCmd = ''uid=$(id -u '' @ user @ '') && sudo -u '' @ user
                 @ '' env XDG_RUNTIME_DIR=/run/user/$uid DBUS_SESSION_BUS_ADDRESS=unix:path=/run/user/$uid/bus ''
                 @ baseCmd
           in (case RunCommand env c userCmd ivs1 of
                 (Inr output, ivs2) \<Rightarrow> (Inr output, ivs2)
               | (Inl _, ivs2) \<Rightarrow> RunCommand env c baseCmd ivs2))"

definition parseGsettingsUint :: "string \<Rightarrow> error + int" where
  "parseGsettingsUint output =
     (let v = TrimSpace output
      in if v = [] then Inl (Error ''empty gsettings output'')
         else
           let parts = Fields v
           in if parts = [] then Inl (Error (''invalid gsettings output: '' @ output))
              else (case Atoi (last parts) of
                      None \<Rightarrow> Inl (Error ''strconv.Atoi'')
                    | Some n \<Rightarrow> Inr n))"

subsection \<open>Distribution family\<close>

definition isRPMBasedDistro :: "('a osenv_scheme) \<Rightarrow> bool" where
  "isRPMBasedDistro env =
     (if stat env ''/etc/redhat-release'' then True
      else if stat env ''/etc/fedora-release'' then True
      else if stat env ''/usr/bin/dnf'' then True
      else if stat env ''/usr/bin/yum'' then True
      else False)"

subsection \<open>A host on which a privileged process was started by \<open>alice\<close> through sudo\<close>

definition sessionHost :: osenv where
  "sessionHost =
     \<lparr>Letter = (\<lambda>_. False), Digit = (\<lambda>_. False),
      getenv = (\<lambda>k. if k = ''SUDO_USER'' then ''root''
                     else if k = ''LOGNAME'' then ''alice'' else []),
      stat = (\<lambda>_. False), exec = (\<lambda>_ _. ExecFailure ''not found''),
      unmarshal = (\<lambda>_. None), Join = concat\<rparr>"

definition linuxClient :: Client where
  "linuxClient = \<lparr>binaryPath = ''/usr/bin/osqueryi'', platform = PlatformLinux, verbose = False\<rparr>"


section \<open>Linux telemetry collection (\<open>getLinuxSystemInfo\<close>)\<close>

text \<open>
  The function fills a \<open>map[string]interface{}\<close> probe by probe. The model passes along the
  map together with the list of processes started so far. A probe that fails leaves its
  key unset and never aborts the collection.
\<close>

record collection =
  rawResults :: "string \<Rightarrow> jv option"
  invoked :: "invocation list"

record QueryResult =
  DrataAgentVersion :: string
  Platform :: Platform
  ManualRun :: bool
  RawQueryResults :: "string \<Rightarrow> jv option"

definition rowValue :: "row option \<Rightarrow> jv" where
  "rowValue r = (case r of None \<Rightarrow> JNull | Some m \<Rightarrow> JObj m)"

definition field :: "row \<Rightarrow> string \<Rightarrow> jv" where
  "field m k = (case map_of m k of None \<Rightarrow> JNull | Some v \<Rightarrow> v)"

fun setKey :: "string \<Rightarrow> jv \<Rightarrow> (string \<times> jv) list \<Rightarrow> (string \<times> jv) list" where
  "setKey k v [] = [(k, v)]"
| "setKey k v ((k', v') # m) = (if k' = k then (k, v) # m else (k', v') # setKey k v m)"

text \<open>
  \<open>if result, err := c.queryFirst(q); err == nil && result != nil { rawResults[key] = result }\<close>
\<close>

definition storeFirst ::
  "('a osenv_scheme) \<Rightarrow> Client \<Rightarrow> string \<Rightarrow> string \<Rightarrow> collection \<Rightarrow> collection" where
  "storeFirst env c key query st =
     (case queryFirst env c query (invoked st) of
        (Inr (Some r), ivs) \<Rightarrow>
          st\<lparr>rawResults := (rawResults st)(key \<mapsto> JObj r), invoked := ivs\<rparr>
      | (_, ivs) \<Rightarrow> st\<lparr>invoked := ivs\<rparr>)"

definition systemInformation ::
  "('a osenv_scheme) \<Rightarrow> Client \<Rightarrow> collection \<Rightarrow> collection" where
  "systemInformation env c st =
     (case queryFirst env c
             ''SELECT board_serial, board_model, computer_name, hostname, local_hostname FROM system_info''
             (invoked st) of
        (Inr (Some r), ivs) \<Rightarrow>
          st\<lparr>rawResults := (rawResults st)
                 (''boardSerial'' \<mapsto> field r ''board_serial'',
                  ''boardModel'' \<mapsto> field r ''board_model'',
                  ''computerName'' \<mapsto> field r ''computer_name'',
                  ''hostName'' \<mapsto> field r ''hostname'',
                  ''localHostName'' \<mapsto> field r ''local_hostname''),
             invoked := ivs\<rparr>
      | (_, ivs) \<Rightarrow> st\<lparr>invoked := ivs\<rparr>)"

definition ufwQuery :: string where
  "ufwQuery = ''SELECT COUNT(*) AS passed FROM augeas WHERE path = '/etc/ufw/ufw.conf' AND label = 'ENABLED' AND value = 'yes'' @ [CHR 0x27]"

definition firewallStatus ::
  "('a osenv_scheme) \<Rightarrow> Client \<Rightarrow> collection \<Rightarrow> collection" where
  "firewallStatus env c st =
     (if isRPMBasedDistro env then
        (case RunCommand env c ''systemctl is-active firewalld'' (invoked st) of
           (Inr output, ivs) \<Rightarrow>
             st\<lparr>rawResults := (rawResults st)
                    (''firewallStatus'' \<mapsto>
                       JObj [(''passed'', JBool (output = ''active'')),
                             (''type'', JStr ''firewalld''), (''status'', JStr output)]),
                invoked := ivs\<rparr>
         | (Inl e, ivs) \<Rightarrow> st\<lparr>invoked := ivs\<rparr>)
      else storeFirst env c ''firewallStatus'' ufwQuery st)"

definition applicationList ::
  "('a osenv_scheme) \<Rightarrow> Client \<Rightarrow> collection \<Rightarrow> collection" where
  "applicationList env c st =
     (case RunQuery env c
             (if isRPMBasedDistro env then ''SELECT name, version FROM rpm_packages''
              else ''SELECT name, version FROM deb_packages'')
             (invoked st) of
        (Inr rows, ivs) \<Rightarrow>
          st\<lparr>rawResults := (rawResults st)(''appList'' \<mapsto> JArr (map rowValue rows)),
             invoked := ivs\<rparr>
      | (Inl e, ivs) \<Rightarrow> st\<lparr>invoked := ivs\<rparr>)"

subsection \<open>Antivirus\<close>

text \<open>
  \<open>if output, err := c.RunCommand(cmd); err == nil && output != "" { status[key] = {...};
  status["passed"] = true }\<close>, for a package-manager probe.
\<close>

definition packageProbe ::
  "('a osenv_scheme) \<Rightarrow> Client \<Rightarrow> string \<Rightarrow> string
     \<Rightarrow> (string \<times> jv) list \<times> invocation list \<Rightarrow> (string \<times> jv) list \<times> invocation list" where
  "packageProbe env c key command s =
     (case RunCommand env c command (snd s) of
        (Inr output, ivs) \<Rightarrow>
          if output \<noteq> [] then
            (setKey ''passed'' (JBool True)
               (setKey key (JObj [(''installed'', JBool True), (''version'', JStr output)])
                  (fst s)), ivs)
          else (fst s, ivs)
      | (Inl e, ivs) \<Rightarrow> (fst s, ivs))"

definition dpkgClamav :: string where
  "dpkgClamav = ''dpkg -l clamav | grep -E '^ii'' @ [CHR 0x27]"

definition dpkgClamtk :: string where
  "dpkgClamtk = ''dpkg -l clamtk | grep -E '^ii'' @ [CHR 0x27]"

definition flatpakScopes :: "(string \<times> string) list" where
  "flatpakScopes =
     [(''system'', ''flatpak list --app --system | grep -i clam''),
      (''user'', ''flatpak list --app --user | grep -i clam'')]"

text \<open>The loop over the Flatpak scopes stops at the first scope that lists a product.\<close>

fun flatpakLoop ::
  "('a osenv_scheme) \<Rightarrow> Client \<Rightarrow> (string \<times> string) list
     \<Rightarrow> (string \<times> jv) list \<times> invocation list \<Rightarrow> (string \<times> jv) list \<times> invocation list" where
  "flatpakLoop env c [] s = s"
| "flatpakLoop env c ((label, command) # rest) s =
     (case RunCommand env c command (snd s) of
        (Inr output, ivs) \<Rightarrow>
          if output \<noteq> [] then
            (setKey ''passed'' (JBool True)
               (setKey ''flatpak''
                  (JObj [(''installed'', JBool True), (''scope'', JStr label),
                         (''details'', JStr output)])
                  (fst s)), ivs)
          else flatpakLoop env c rest (fst s, ivs)
      | (Inl e, ivs) \<Rightarrow> flatpakLoop env c rest (fst s, ivs))"

definition antivirusCheck ::
  "('a osenv_scheme) \<Rightarrow> Client \<Rightarrow> collection \<Rightarrow> collection" where
  "antivirusCheck env c st =
     (let s0 = ([(''passed'', JBool False)], invoked st);
          s1 = (if isRPMBasedDistro env then packageProbe env c ''clamav'' ''rpm -q clamav'' s0
                else packageProbe env c ''clamav'' dpkgClamav s0);
          s2 = flatpakLoop env c flatpakScopes s1
      in st\<lparr>rawResults := (rawResults st)(''antivirusStatus'' \<mapsto> JObj (fst s2)),
            invoked := snd s2\<rparr>)"

text \<open>
  The other variant of the function in the repository probes both \<open>clamtk\<close> and \<open>clamav\<close>
  through the package manager and asks Flatpak once, without a scope.
\<close>

definition flatpakProbe_v1 ::
  "('a osenv_scheme) \<Rightarrow> Client
     \<Rightarrow> (string \<times> jv) list \<times> invocation list \<Rightarrow> (string \<times> jv) list \<times> invocation list" where
  "flatpakProbe_v1 env c s =
     (case RunCommand env c ''flatpak list --app | grep -i clam'' (snd s) of
        (Inr output, ivs) \<Rightarrow>
          if output \<noteq> [] then
            (setKey ''passed'' (JBool True)
               (setKey ''flatpak'' (JObj [(''installed'', JBool True), (''version'', JStr output)])
                  (fst s)), ivs)
          else (fst s, ivs)
      | (Inl e, ivs) \<Rightarrow> (fst s, ivs))"

definition antivirusCheck_v1 ::
  "('a osenv_scheme) \<Rightarrow> Client \<Rightarrow> collection \<Rightarrow> collection" where
  "antivirusCheck_v1 env c st =
     (let s0 = ([(''passed'', JBool False)], invoked st);
          s1 = (if isRPMBasedDistro env
                then packageProbe env c ''clamav'' ''rpm -q clamav''
                       (packageProbe env c ''clamtk'' ''rpm -q clamtk'' s0)
                else packageProbe env c ''clamav'' dpkgClamav
                       (packageProbe env c ''clamtk'' dpkgClamtk s0));
          s2 = flatpakProbe_v1 env c s1
      in st\<lparr>rawResults := (rawResults st)(''antivirusStatus'' \<mapsto> JObj (fst s2)),
            invoked := snd s2\<rparr>)"

subsection \<open>Browser extensions\<close>

definition extensionsOf ::
  "('a osenv_scheme) \<Rightarrow> Client \<Rightarrow> string list \<Rightarrow> string
     \<Rightarrow> jv list \<times> invocation list \<Rightarrow> jv list \<times> invocation list" where
  "extensionsOf env c dir query s =
     (if stat env (Join env dir) then
        (case RunQuery env c query (snd s) of
           (Inr rows, ivs) \<Rightarrow> (fst s @ map rowValue rows, ivs)
         | (Inl e, ivs) \<Rightarrow> (fst s, ivs))
      else s)"

definition browserExtensions ::
  "('a osenv_scheme) \<Rightarrow> Client \<Rightarrow> collection \<Rightarrow> collection" where
  "browserExtensions env c st =
     (let homeDir = (if getenv env ''HOME'' = [] then ''/root'' else getenv env ''HOME'');
          s1 = extensionsOf env c [homeDir, ''.mozilla'', ''firefox'']
                 ''SELECT name FROM firefox_addons'' ([], invoked st);
          s2 = extensionsOf env c [homeDir, ''.config'', ''google-chrome'']
                 ''SELECT name FROM chrome_extensions'' s1
      in st\<lparr>rawResults := (rawResults st)(''browserExtensions'' \<mapsto> JArr (fst s2)),
            invoked := snd s2\<rparr>)"

definition macQuery :: string where
  "macQuery = ''SELECT mac FROM interface_details WHERE interface in (SELECT DISTINCT interface FROM interface_addresses WHERE interface NOT IN ('lo')) LIMIT 1''"

subsection \<open>Automatic updates\<close>

text \<open>
  \<open>if output, err := c.RunCommand(cmd); err == nil { settings = append(settings,
  map[string]string{key: output}) }\<close>, for each diagnostic command in turn.
\<close>

fun diagnostics ::
  "('a osenv_scheme) \<Rightarrow> Client \<Rightarrow> (string \<times> string) list
     \<Rightarrow> jv list \<times> invocation list \<Rightarrow> jv list \<times> invocation list" where
  "diagnostics env c [] s = s"
| "diagnostics env c ((key, command) # rest) s =
     (case RunCommand env c command (snd s) of
        (Inr output, ivs) \<Rightarrow> diagnostics env c rest (fst s @ [JObj [(key, JStr output)]], ivs)
      | (Inl e, ivs) \<Rightarrow> diagnostics env c rest (fst s, ivs))"

definition updateService :: "string \<times> string" where
  "updateService =
     (''autoUpdateService'',
      ''systemctl is-enabled dnf-automatic.timer || systemctl is-enabled yum-cron'')"

definition rpmHistory :: "(string \<times> string) list" where
  "rpmHistory =
     [(''recentUpdates'', ''dnf history list --last 10 || yum history list last 10''),
      (''autoUpdateConfig'', ''cat /etc/dnf/automatic.conf || cat /etc/yum/yum-cron.conf''),
      (''recentPackages'', ''rpm -q --last | head -20'')]"

definition aptDiagnostics :: "(string \<times> string) list" where
  "aptDiagnostics =
     [(''aptConfig'',
       ''apt-config dump | grep -E '^(APT::Periodic|Unattended-Upgrade)::'' @ [CHR 0x27]),
      (''aptDailyStatus'',
       ''systemctl show apt-daily* --property=NextElapseUSecMonotonic,NextElapseUSecRealtime,Unit,Description,UnitFileState,LastTriggerUSec''),
      (''aptDailyLogs'',
       ''journalctl --user -u apt-daily.service -u apt-daily-upgrade.service --since -7day -n 10 --no-pager --quiet || journalctl -u apt-daily.service -u apt-daily-upgrade.service --since -7day -n 10 --no-pager --quiet'')]"

text \<open>
  The GNOME Software probe: its output is appended to the settings, and the value
  \<open>true\<close> sets \<open>autoUpdateEnabled\<close> to \<open>{"passed": 1}\<close>.
\<close>

definition recordGnomeSetting ::
  "error + string \<Rightarrow> (string \<Rightarrow> jv option) \<times> jv list \<Rightarrow> (string \<Rightarrow> jv option) \<times> jv list" where
  "recordGnomeSetting r s =
     (case r of
        Inr output \<Rightarrow>
          (if output = ''true''
           then (fst s)(''autoUpdateEnabled'' \<mapsto> JObj [(''passed'', JNum 1)]) else fst s,
           snd s @ [JObj [(''gnomeSoftwareDownloadUpdates'', JStr output)]])
      | Inl e \<Rightarrow> s)"

definition autoUpdate ::
  "('a osenv_scheme) \<Rightarrow> Client \<Rightarrow> collection \<Rightarrow> collection" where
  "autoUpdate env c st =
     (let g = runGsettingsCommand env c ''get org.gnome.software download-updates'' (invoked st);
          s1 = recordGnomeSetting (fst g) (rawResults st, []);
          s2 = diagnostics env c
                 (if isRPMBasedDistro env then updateService # rpmHistory else aptDiagnostics)
                 (snd s1, snd g)
      in st\<lparr>rawResults := (fst s1)(''autoUpdateSettings'' \<mapsto> JArr (fst s2)),
            invoked := snd s2\<rparr>)"

definition aptFileQuery :: string where
  "aptFileQuery = ''SELECT COUNT(*) AS passed FROM file WHERE path = '/etc/apt/apt.conf.d/50unattended-upgrades'' @ [CHR 0x27]"

text \<open>
  The other variant asks GNOME Software on RPM-family hosts only; on Debian-family hosts
  it keeps the earlier behaviour and takes \<open>autoUpdateEnabled\<close> from an osquery file check.
\<close>

definition autoUpdate_v1 ::
  "('a osenv_scheme) \<Rightarrow> Client \<Rightarrow> collection \<Rightarrow> collection" where
  "autoUpdate_v1 env c st =
     (if isRPMBasedDistro env then
        let s1 = diagnostics env c [updateService] ([], invoked st);
            g = RunCommand env c ''gsettings get org.gnome.software download-updates'' (snd s1);
            s2 = recordGnomeSetting (fst g) (rawResults st, fst s1);
            s3 = diagnostics env c rpmHistory (snd s2, snd g)
        in st\<lparr>rawResults := (fst s2)(''autoUpdateSettings'' \<mapsto> JArr (fst s3)),
              invoked := snd s3\<rparr>
      else
        let st1 = storeFirst env c ''autoUpdateEnabled'' aptFileQuery st;
            s1 = diagnostics env c aptDiagnostics ([], invoked st1)
        in st1\<lparr>rawResults := (rawResults st1)(''autoUpdateSettings'' \<mapsto> JArr (fst s1)),
               invoked := snd s1\<rparr>)"

subsection \<open>Screen lock and location\<close>

definition delaySetting ::
  "('a osenv_scheme) \<Rightarrow> Client \<Rightarrow> string \<Rightarrow> string \<Rightarrow> string
     \<Rightarrow> jv list \<times> invocation list \<Rightarrow> jv list \<times> invocation list" where
  "delaySetting env c args secondsKey textKey s =
     (case runGsettingsCommand env c args (snd s) of
        (Inr output, ivs) \<Rightarrow>
          (case parseGsettingsUint output of
             Inr seconds \<Rightarrow> (fst s @ [JObj [(secondsKey, JNum seconds)]], ivs)
           | Inl e \<Rightarrow> (fst s @ [JObj [(textKey, JStr output)]], ivs))
      | (Inl e, ivs) \<Rightarrow> (fst s, ivs))"

definition screenLockStatus ::
  "('a osenv_scheme) \<Rightarrow> Client \<Rightarrow> collection \<Rightarrow> collection" where
  "screenLockStatus env c st =
     (let s1 = delaySetting env c ''get org.gnome.desktop.session idle-delay''
                 ''idleDelaySeconds'' ''idleDelay'' ([], invoked st);
          s2 = delaySetting env c ''get org.gnome.desktop.screensaver lock-delay''
                 ''lockDelaySeconds'' ''lockDelay'' s1
      in st\<lparr>rawResults := (rawResults st)(''screenLockStatus'' \<mapsto> JArr (fst s2)),
            invoked := snd s2\<rparr>)"

definition screenLockStatus_v1 ::
  "('a osenv_scheme) \<Rightarrow> Client \<Rightarrow> collection \<Rightarrow> collection" where
  "screenLockStatus_v1 env c st =
     (let s1 = diagnostics env c
                 [(''idleDelay'', ''gsettings get org.gnome.desktop.session idle-delay'')]
                 ([], invoked st)
      in st\<lparr>rawResults := (rawResults st)(''screenLockStatus'' \<mapsto> JArr (fst s1)),
            invoked := snd s1\<rparr>)"

text \<open>
  The remaining desktop settings are read through a runner: the session-aware
  \<open>runGsettingsCommand\<close> in one variant, the bare \<open>gsettings\<close> command in the other.
\<close>

type_synonym runner = "string \<Rightarrow> invocation list \<Rightarrow> (error + string) \<times> invocation list"

definition bareGsettings :: "('a osenv_scheme) \<Rightarrow> Client \<Rightarrow> runner" where
  "bareGsettings env c args ivs = RunCommand env c (''gsettings '' @ args) ivs"

definition locationServices :: "runner \<Rightarrow> collection \<Rightarrow> collection" where
  "locationServices run st =
     (case run ''get org.gnome.system.location enabled'' (invoked st) of
        (Inr output, ivs) \<Rightarrow>
          st\<lparr>rawResults := (rawResults st)
                 (''locationServices'' \<mapsto> JObj [(''gnomeLocation'', JStr output)]),
             invoked := ivs\<rparr>
      | (Inl e, ivs) \<Rightarrow>
          st\<lparr>rawResults := (rawResults st)(''locationServices'' \<mapsto> JObj []),
             invoked := ivs\<rparr>)"

fun settingsDump ::
  "runner \<Rightarrow> (string \<times> string) list
     \<Rightarrow> (string \<times> jv) list \<times> invocation list \<Rightarrow> (string \<times> jv) list \<times> invocation list" where
  "settingsDump run [] s = s"
| "settingsDump run ((key, args) # rest) s =
     (case run args (snd s) of
        (Inr output, ivs) \<Rightarrow>
          settingsDump run rest
            (if output \<noteq> [] then setKey key (JStr output) (fst s) else fst s, ivs)
      | (Inl e, ivs) \<Rightarrow> settingsDump run rest (fst s, ivs))"

definition screenLockSettings :: "runner \<Rightarrow> collection \<Rightarrow> collection" where
  "screenLockSettings run st =
     (let s1 = settingsDump run
                 [(''powerSettings'', ''list-recursively org.gnome.settings-daemon.plugins.power''),
                  (''screenSettings'', ''list-recursively org.gnome.desktop.screensaver''),
                  (''sessionSettings'', ''list-recursively org.gnome.desktop.session'')]
                 ([], invoked st)
      in st\<lparr>rawResults := (rawResults st)(''screenLockSettings'' \<mapsto> JObj (fst s1)),
            invoked := snd s1\<rparr>)"

subsection \<open>The whole collection\<close>

definition identityProbes ::
  "('a osenv_scheme) \<Rightarrow> Client \<Rightarrow> collection \<Rightarrow> collection" where
  "identityProbes env c st =
     systemInformation env c
       (storeFirst env c ''hwModel'' ''SELECT hardware_model FROM system_info''
          (storeFirst env c ''hwSerial'' ''SELECT hardware_serial FROM system_info''
             (storeFirst env c ''osVersion'' ''SELECT name, version, platform FROM os_version''
                st)))"

definition collectLinux ::
  "('a osenv_scheme) \<Rightarrow> Client \<Rightarrow> collection \<Rightarrow> collection" where
  "collectLinux env c st =
     screenLockSettings (runGsettingsCommand env c)
       (locationServices (runGsettingsCommand env c)
          (screenLockStatus env c
             (autoUpdate env c
                (storeFirst env c ''macAddress'' macQuery
                   (browserExtensions env c
                      (antivirusCheck env c
                         (applicationList env c
                            (firewallStatus env c
                               (identityProbes env c st)))))))))"

definition collectLinux_v1 ::
  "('a osenv_scheme) \<Rightarrow> Client \<Rightarrow> collection \<Rightarrow> collection" where
  "collectLinux_v1 env c st =
     screenLockSettings (bareGsettings env c)
       (locationServices (bareGsettings env c)
          (screenLockStatus_v1 env c
             (autoUpdate_v1 env c
                (storeFirst env c ''macAddress'' macQuery
                   (browserExtensions env c
                      (antivirusCheck_v1 env c
                         (applicationList env c
                            (firewallStatus env c
                               (identityProbes env c st)))))))))"

definition getLinuxSystemInfo ::
  "('a osenv_scheme) \<Rightarrow> Client \<Rightarrow> string \<Rightarrow> invocation list
     \<Rightarrow> (error + QueryResult) \<times> invocation list" where
  "getLinuxSystemInfo env c version ivs =
     (let st = collectLinux env c \<lparr>rawResults = Map.empty, invoked = ivs\<rparr>
      in (Inr \<lparr>DrataAgentVersion = version, Platform = PlatformLinux, ManualRun = False,
                RawQueryResults = rawResults st\<rparr>,
          invoked st))"

definition getLinuxSystemInfo_v1 ::
  "('a osenv_scheme) \<Rightarrow> Client \<Rightarrow> string \<Rightarrow> invocation list
     \<Rightarrow> (error + QueryResult) \<times> invocation list" where
  "getLinuxSystemInfo_v1 env c version ivs =
     (let st = collectLinux_v1 env c \<lparr>rawResults = Map.empty, invoked = ivs\<rparr>
      in (Inr \<lparr>DrataAgentVersion = version, Platform = PlatformLinux, ManualRun = False,
                RawQueryResults = rawResults st\<rparr>,
          invoked st))"

subsection \<open>Probes that belong to one distribution family\<close>

definition osq :: "Client \<Rightarrow> string \<Rightarrow> invocation" where
  "osq c query = (binaryPath c, [''--json'', query])"

definition rpmCommands :: "string list" where
  "rpmCommands =
     [''systemctl is-active firewalld'', ''rpm -q clamtk'', ''rpm -q clamav'', snd updateService]
     @ map snd rpmHistory"

definition debianCommands :: "string list" where
  "debianCommands = dpkgClamtk # dpkgClamav # map snd aptDiagnostics"

definition rpmQueries :: "string list" where
  "rpmQueries = [''SELECT name, version FROM rpm_packages'']"

definition debianQueries :: "string list" where
  "debianQueries = [ufwQuery, ''SELECT name, version FROM deb_packages'', aptFileQuery]"

definition familyProbe :: "Client \<Rightarrow> invocation \<Rightarrow> bool" where
  "familyProbe c i =
     (i \<in> set (map (commandLine c) (rpmCommands @ debianCommands))
      \<or> i \<in> set (map (osq c) (rpmQueries @ debianQueries)))"

definition rpmProbes :: "Client \<Rightarrow> invocation list" where
  "rpmProbes c =
     [commandLine c ''systemctl is-active firewalld'',
      osq c ''SELECT name, version FROM rpm_packages'',
      commandLine c ''rpm -q clamav'']
     @ map (commandLine c) (snd updateService # map snd rpmHistory)"

definition rpmProbes_v1 :: "Client \<Rightarrow> invocation list" where
  "rpmProbes_v1 c =
     [commandLine c ''systemctl is-active firewalld'',
      osq c ''SELECT name, version FROM rpm_packages'',
      commandLine c ''rpm -q clamtk'', commandLine c ''rpm -q clamav'']
     @ map (commandLine c) (snd updateService # map snd rpmHistory)"

definition debianProbes_v1 :: "Client \<Rightarrow> invocation list" where
  "debianProbes_v1 c =
     [osq c ufwQuery, osq c ''SELECT name, version FROM deb_packages'',
      commandLine c dpkgClamtk, commandLine c dpkgClamav, osq c aptFileQuery]
     @ map (commandLine c) (map snd aptDiagnostics)"

definition debianProbes :: "Client \<Rightarrow> invocation list" where
  "debianProbes c =
     [osq c ufwQuery, osq c ''SELECT name, version FROM deb_packages'', commandLine c dpkgClamav]
     @ map (commandLine c) (map snd aptDiagnostics)"

definition fedoraHost :: osenv where
  "fedoraHost = sessionHost\<lparr>stat := (\<lambda>p. p = ''/etc/fedora-release'')\<rparr>"

subsection \<open>Antivirus probes and their verdict\<close>

definition reportsProduct :: "('a osenv_scheme) \<Rightarrow> Client \<Rightarrow> string \<Rightarrow> bool" where
  "reportsProduct env c command =
     (case fst (RunCommand env c command []) of Inr output \<Rightarrow> output \<noteq> [] | Inl e \<Rightarrow> False)"

definition antivirusProbes :: "('a osenv_scheme) \<Rightarrow> string list" where
  "antivirusProbes env =
     (if isRPMBasedDistro env then ''rpm -q clamav'' else dpkgClamav) # map snd flatpakScopes"

definition antivirusProbes_v1 :: "('a osenv_scheme) \<Rightarrow> string list" where
  "antivirusProbes_v1 env =
     (if isRPMBasedDistro env then [''rpm -q clamtk'', ''rpm -q clamav'']
      else [dpkgClamtk, dpkgClamav])
     @ [''flatpak list --app | grep -i clam'']"

definition antivirusPassed :: "(string \<Rightarrow> jv option) \<Rightarrow> jv option" where
  "antivirusPassed raw =
     (case raw ''antivirusStatus'' of Some (JObj status) \<Rightarrow> map_of status ''passed'' | _ \<Rightarrow> None)"

definition clamHost :: osenv where
  "clamHost =
     sessionHost\<lparr>exec := (\<lambda>prog args.
        if prog = ''sh'' \<and> args = [''-c'', ''flatpak list --app --user | grep -i clam'']
        then Output ''ClamTk com.gitlab.davem.ClamTk 6.18 stable user''
        else ExecFailure ''exit status 1'')\<rparr>"

subsection \<open>The automatic-update flag and its sources\<close>

definition gnomeProbe :: string where
  "gnomeProbe = ''get org.gnome.software download-updates''"

definition gnomeCommand :: string where
  "gnomeCommand = ''gsettings get org.gnome.software download-updates''"

definition autoUpdateVerdict :: "error + string \<Rightarrow> jv option" where
  "autoUpdateVerdict r = (if r = Inr ''true'' then Some (JObj [(''passed'', JNum 1)]) else None)"

definition gnomeEntry :: "error + string \<Rightarrow> jv list" where
  "gnomeEntry r =
     (case r of Inr out \<Rightarrow> [JObj [(''gnomeSoftwareDownloadUpdates'', JStr out)]] | Inl e \<Rightarrow> [])"

definition diagnosticEntries ::
  "('a osenv_scheme) \<Rightarrow> Client \<Rightarrow> (string \<times> string) list \<Rightarrow> jv list" where
  "diagnosticEntries env c ds =
     concat (map (\<lambda>d. case fst (RunCommand env c (snd d) []) of
                          Inr out \<Rightarrow> [JObj [(fst d, JStr out)]] | Inl e \<Rightarrow> []) ds)"

definition autoUpdateEnabledOf :: "(error + QueryResult) \<times> invocation list \<Rightarrow> jv option" where
  "autoUpdateEnabledOf r =
     (case fst r of Inr q \<Rightarrow> RawQueryResults q ''autoUpdateEnabled'' | Inl e \<Rightarrow> None)"

definition autoUpdateSettingsOf :: "(error + QueryResult) \<times> invocation list \<Rightarrow> jv option" where
  "autoUpdateSettingsOf r =
     (case fst r of Inr q \<Rightarrow> RawQueryResults q ''autoUpdateSettings'' | Inl e \<Rightarrow> None)"

definition commandResult :: "('a osenv_scheme) \<Rightarrow> Client \<Rightarrow> string \<Rightarrow> error + string" where
  "commandResult env c command = fst (RunCommand env c command [])"

definition sessionUser :: "('a osenv_scheme) \<Rightarrow> Client \<Rightarrow> string" where
  "sessionUser env c = fst (getDesktopSessionUser env c [])"

definition gsettingsResult :: "('a osenv_scheme) \<Rightarrow> Client \<Rightarrow> string \<Rightarrow> error + string" where
  "gsettingsResult env c args = fst (runGsettingsCommand env c args [])"

definition firstRow :: "('a osenv_scheme) \<Rightarrow> Client \<Rightarrow> string \<Rightarrow> error + row option" where
  "firstRow env c query = fst (queryFirst env c query [])"

definition gnomeHost :: osenv where
  "gnomeHost =
     sessionHost\<lparr>exec := (\<lambda>prog args.
        if prog = ''sh'' \<and> args = [''-c'', ''gsettings get org.gnome.software download-updates'']
        then Output ''true'' else ExecFailure ''exit status 1'')\<rparr>"

definition aptRowJson :: string where
  "aptRowJson = ''[{'' @ [CHR 0x22] @ ''passed'' @ [CHR 0x22] @ '':'' @ [CHR 0x22] @ ''1''
                 @ [CHR 0x22] @ ''}]''"

definition aptHost :: "string \<Rightarrow> osenv" where
  "aptHost fileCheckOutput =
     \<lparr>Letter = (\<lambda>r. False), Digit = (\<lambda>r. False), getenv = (\<lambda>k. []), stat = (\<lambda>p. False),
      exec = (\<lambda>prog args.
        if prog = ''/usr/bin/osqueryi'' \<and> args = [''--json'', aptFileQuery]
        then Output fileCheckOutput
        else if prog = ''sh'' \<and> args = [''-c'', ''gsettings get org.gnome.software download-updates'']
        then Output ''false''
        else ExecFailure ''exit status 1''),
      unmarshal = (\<lambda>s. if s = aptRowJson then Some [Some [(''passed'', JStr ''1'')]]
                        else if s = ''[]'' then Some [] else None),
      Join = concat\<rparr>"

section \<open>Running the query engine from the TypeScript command line\<close>

text \<open>
  The TypeScript command line validates the path of the \<open>osqueryi\<close> binary before every
  query. Node's \<open>path.normalize\<close>, \<open>path.basename\<close>, \<open>fs.existsSync\<close>, \<open>execFile\<close> and
  lodash's \<open>trim\<close> are the environment; \<open>execFile\<close> either rejects with an error or
  resolves with the standard output. The list of files executed is passed along.
\<close>

record nodeenv =
  pathNormalize :: "string \<Rightarrow> string"
  pathBasename :: "string \<Rightarrow> string"
  existsSync :: "string \<Rightarrow> bool"
  execFile :: "string \<Rightarrow> string list \<Rightarrow> error + string"
  trim :: "string \<Rightarrow> string"

text \<open>The character class of the regular expression \<open>/[;&|`$(){}[\]<>!]/\<close>.\<close>

definition unsafeCharacters :: string where
  "unsafeCharacters = '';&|'' @ [CHR 0x60] @ ''$(){}[]<>!''"

definition validateOsqueryPath :: "nodeenv \<Rightarrow> string \<Rightarrow> error option" where
  "validateOsqueryPath env osqueryiBinaryPath =
     (let normalizedPath = pathNormalize env osqueryiBinaryPath
      in if pathBasename env normalizedPath \<noteq> ''osqueryi''
         then Some (Error (''Invalid osqueryi binary path: must end with '' @ [CHR 0x22]
                           @ ''osqueryi'' @ [CHR 0x22]))
         else if list_ex (\<lambda>ch. ch \<in> set unsafeCharacters) normalizedPath
         then Some (Error ''Invalid osqueryi binary path: contains unsafe characters'')
         else if \<not> existsSync env normalizedPath
         then Some (Error (''osqueryi binary not found at: '' @ normalizedPath))
         else None)"

definition quoted :: "string \<Rightarrow> string" where
  "quoted s = [CHR 0x22] @ s @ [CHR 0x22]"

definition runQuery ::
  "nodeenv \<Rightarrow> string \<Rightarrow> string \<Rightarrow> invocation list \<Rightarrow> (error + string) \<times> invocation list" where
  "runQuery env osqueryiBinaryPath query ivs =
     (case validateOsqueryPath env osqueryiBinaryPath of
        Some e \<Rightarrow> (Inl e, ivs)
      | None \<Rightarrow>
          (case execFile env (quoted osqueryiBinaryPath) [query] of
             Inl e \<Rightarrow> (Inl e, ivs @ [(quoted osqueryiBinaryPath, [query])])
           | Inr stdout \<Rightarrow>
               (Inr (trim env stdout), ivs @ [(quoted osqueryiBinaryPath, [query])])))"

definition nodeHost :: nodeenv where
  "nodeHost =
     \<lparr>pathNormalize = (\<lambda>p. p),
      pathBasename = (\<lambda>p. rev (takeWhile (\<lambda>ch. ch \<noteq> CHR ''/'') (rev p))),
      existsSync = (\<lambda>p. p = ''/usr/local/bin/osqueryi''),
      execFile = (\<lambda>file args. Inr ''[]''),
      trim = TrimSpace\<rparr>"

section \<open>Persistent agent state (package datastore)\<close>

type_synonym SyncState = string

definition SyncStateSuccess :: SyncState where
  "SyncStateSuccess = ''SUCCESS''"

definition SyncStateError :: SyncState where
  "SyncStateError = ''ERROR''"

definition SyncStateRunning :: SyncState where
  "SyncStateRunning = ''RUNNING''"

definition SyncStateUnknown :: SyncState where
  "SyncStateUnknown = ''UNKNOWN''"

text \<open>
  \<open>datastore.User\<close> and \<open>api.MeResponse\<close> have the same thirteen fields, and \<open>GetMe\<close> copies
  one into the other field by field; one record models both.
\<close>

record User =
  ID :: int
  EntryID :: string
  Email :: string
  FirstName :: string
  LastName :: string
  JobTitle :: string
  AvatarURL :: string
  Roles :: "string list"
  DrataTermsAgreedAt :: string
  CreatedAt :: string
  UpdatedAt :: string
  Signature :: string
  Language :: string

record AgentV2Response =
  respLastCheckedAt :: string
  respData :: jv
  respWinAvServicesMatchList :: "string list"

record SyncResponse =
  syncData :: AgentV2Response
  syncWinAvServicesMatchList :: "string list"

text \<open>
  The document. A Go string field is empty when unset; the pointer \<open>User\<close>, the interface
  \<open>ComplianceData\<close> and the slice \<open>WinAvServicesMatchList\<close> can be nil, which is \<open>None\<close>.
\<close>

record DataStore =
  UUID :: string
  AppVersion :: string
  AccessToken :: string
  UserInfo :: "User option"
  SyncState :: SyncState
  LastCheckedAt :: string
  LastSyncAttemptedAt :: string
  ComplianceData :: "SyncResponse option"
  WinAvServicesMatchList :: "string list option"
  Region :: string
  path :: string

text \<open>
  What a run does to the outside world, in order: writes of the document (\<open>os.WriteFile\<close>
  succeeded with this content, or failed), HTTP requests, and telemetry collections.
\<close>

record AgentDeviceIdentifiers =
  HardwareSerial :: string
  BoardSerial :: string
  Mac :: string

datatype payload = Identifiers AgentDeviceIdentifiers | Snapshot QueryResult

text \<open>
  A request as \<open>doRequest\<close> builds it: the base URL is chosen by the target environment
  and the region, the \<open>Correlation-Id\<close> header is the stored UUID and the \<open>Authorization\<close>
  header the stored token (each sent only when non-empty).
\<close>

record request =
  reqMethod :: string
  reqPath :: string
  reqTargetEnv :: string
  reqRegion :: string
  reqCorrelationId :: string
  reqBearer :: string
  reqBody :: "payload option"

datatype event = Wrote DataStore | WriteFailed | Requested request | Collected string

text \<open>
  The process state: the in-memory document, the document in \<open>app-data.json\<close> (\<open>None\<close> when
  a failed write has left the file in an unknown condition), the events so far, and the
  lines printed or logged.
\<close>

record world =
  store :: DataStore
  disk :: "DataStore option"
  events :: "event list"
  console :: "string list"

record response =
  StatusCode :: nat
  Body :: string

record ErrorResponse =
  errStatusCode :: int
  errCode :: string
  errMessage :: string
  errSecondaryMessage :: string

record Config =
  cfgRegion :: string
  TargetEnv :: string
  SyncIntervalHours :: int
  MinHoursSinceLastSync :: int
  MinMinutesBetweenSyncs :: int
  OsqueryPath :: string
  Version :: string

text \<open>
  Everything outside the process. Whether the \<open>n\<close>-th effect, when it is a write of the
  document, succeeds; the reply to an HTTP request (a transport error or a status and a
  body); how \<open>encoding/json\<close> decodes a body into each response type; the clock
  (\<open>time.Parse\<close> with the RFC 3339 layout, \<open>int(time.Since(t).Minutes())\<close>,
  \<open>int(time.Since(t).Hours())\<close> and the formatted current time); the outcome of
  \<open>config.Load\<close>, \<open>datastore.New\<close>, \<open>osquery.NewClientWithVerbose\<close>, \<open>GetSystemInfo\<close> and
  \<open>GetAgentDeviceIdentifiers\<close>; \<open>uuid.New\<close>; and \<open>strings.ToUpper\<close>.
\<close>

record 't agentenv =
  writeOk :: "nat \<Rightarrow> bool"
  httpDo :: "request \<Rightarrow> error + response"
  decodeAuth :: "string \<Rightarrow> string option"
  decodeMe :: "string \<Rightarrow> User option"
  decodeAgent :: "string \<Rightarrow> AgentV2Response option"
  decodeSync :: "string \<Rightarrow> SyncResponse option"
  decodeInit :: "string \<Rightarrow> string list option"
  decodeError :: "string \<Rightarrow> ErrorResponse option"
  parseRFC3339 :: "string \<Rightarrow> 't option"
  minutesSince :: "'t \<Rightarrow> int"
  hoursSince :: "'t \<Rightarrow> int"
  nowRFC3339 :: string
  loadConfig :: "error + Config"
  openStore :: "error option"
  newClient :: "error + Client"
  systemInfo :: "Client \<Rightarrow> string \<Rightarrow> error + QueryResult"
  deviceIdentifiers :: "Client \<Rightarrow> error + AgentDeviceIdentifiers"
  newUUID :: string
  ToUpper :: "string \<Rightarrow> string"

subsection \<open>Decimal formatting (\<open>%d\<close>) and error wrapping (\<open>%w\<close>)\<close>

function showNat :: "nat \<Rightarrow> string" where
  "showNat n =
     (if n < 10 then [char_of (48 + n)] else showNat (n div 10) @ [char_of (48 + n mod 10)])"
  by pat_completeness auto
termination
  by (relation "measure id") auto

definition showInt :: "int \<Rightarrow> string" where
  "showInt i = (if i < 0 then ''-'' @ showNat (nat (- i)) else showNat (nat i))"

definition message :: "error \<Rightarrow> string" where
  "message e = (case e of Error m \<Rightarrow> m)"

definition wrap :: "string \<Rightarrow> error \<Rightarrow> error" where
  "wrap context e = Error (context @ '': '' @ message e)"

subsection \<open>Reading and writing the document\<close>

text \<open>
  \<open>save\<close> serializes the whole in-memory document and writes the file. Every setter
  assigns the field and then saves, so the assignment stays in memory when the write fails.
\<close>

definition save :: "('t, 'a) agentenv_scheme \<Rightarrow> world \<Rightarrow> error option \<times> world" where
  "save env w =
     (if writeOk env (length (events w))
      then (None, w\<lparr>disk := Some (store w), events := events w @ [Wrote (store w)]\<rparr>)
      else (Some (Error ''write app-data.json''),
            w\<lparr>disk := None, events := events w @ [WriteFailed]\<rparr>))"

definition SetAccessToken ::
  "('t, 'a) agentenv_scheme \<Rightarrow> string \<Rightarrow> world \<Rightarrow> error option \<times> world" where
  "SetAccessToken env token w = save env (w\<lparr>store := (store w)\<lparr>AccessToken := token\<rparr>\<rparr>)"

definition SetUser ::
  "('t, 'a) agentenv_scheme \<Rightarrow> User option \<Rightarrow> world \<Rightarrow> error option \<times> world" where
  "SetUser env user w = save env (w\<lparr>store := (store w)\<lparr>UserInfo := user\<rparr>\<rparr>)"

definition SetSyncState ::
  "('t, 'a) agentenv_scheme \<Rightarrow> SyncState \<Rightarrow> world \<Rightarrow> error option \<times> world" where
  "SetSyncState env state w = save env (w\<lparr>store := (store w)\<lparr>SyncState := state\<rparr>\<rparr>)"

definition SetLastCheckedAt ::
  "('t, 'a) agentenv_scheme \<Rightarrow> string \<Rightarrow> world \<Rightarrow> error option \<times> world" where
  "SetLastCheckedAt env timestamp w =
     save env (w\<lparr>store := (store w)\<lparr>LastCheckedAt := timestamp\<rparr>\<rparr>)"

definition SetLastSyncAttemptedAt ::
  "('t, 'a) agentenv_scheme \<Rightarrow> string \<Rightarrow> world \<Rightarrow> error option \<times> world" where
  "SetLastSyncAttemptedAt env timestamp w =
     save env (w\<lparr>store := (store w)\<lparr>LastSyncAttemptedAt := timestamp\<rparr>\<rparr>)"

definition SetRegion ::
  "('t, 'a) agentenv_scheme \<Rightarrow> string \<Rightarrow> world \<Rightarrow> error option \<times> world" where
  "SetRegion env region w = save env (w\<lparr>store := (store w)\<lparr>Region := region\<rparr>\<rparr>)"

definition SetUUID ::
  "('t, 'a) agentenv_scheme \<Rightarrow> string \<Rightarrow> world \<Rightarrow> error option \<times> world" where
  "SetUUID env uuid w = save env (w\<lparr>store := (store w)\<lparr>UUID := uuid\<rparr>\<rparr>)"

definition SetAppVersion ::
  "('t, 'a) agentenv_scheme \<Rightarrow> string \<Rightarrow> world \<Rightarrow> error option \<times> world" where
  "SetAppVersion env version w = save env (w\<lparr>store := (store w)\<lparr>AppVersion := version\<rparr>\<rparr>)"

definition SetWinAvServicesMatchList ::
  "('t, 'a) agentenv_scheme \<Rightarrow> string list option \<Rightarrow> world \<Rightarrow> error option \<times> world" where
  "SetWinAvServicesMatchList env list w =
     save env (w\<lparr>store := (store w)\<lparr>WinAvServicesMatchList := list\<rparr>\<rparr>)"

definition IsRegistered :: "DataStore \<Rightarrow> bool" where
  "IsRegistered ds = (AccessToken ds \<noteq> [])"

definition IsInitDataReady :: "DataStore \<Rightarrow> bool" where
  "IsInitDataReady ds = (WinAvServicesMatchList ds \<noteq> None)"

definition Clear :: "('t, 'a) agentenv_scheme \<Rightarrow> world \<Rightarrow> error option \<times> world" where
  "Clear env w =
     save env (w\<lparr>store :=
       \<lparr>UUID = [], AppVersion = [], AccessToken = [], UserInfo = None, SyncState = [],
        LastCheckedAt = [], LastSyncAttemptedAt = [], ComplianceData = None,
        WinAvServicesMatchList = None, Region = [], path = path (store w)\<rparr>\<rparr>)"

definition MinutesSinceLastAttempt :: "('t, 'a) agentenv_scheme \<Rightarrow> DataStore \<Rightarrow> int" where
  "MinutesSinceLastAttempt env ds =
     (if LastSyncAttemptedAt ds = [] then - 1
      else (case parseRFC3339 env (LastSyncAttemptedAt ds) of
              None \<Rightarrow> - 1
            | Some lastAttempt \<Rightarrow> minutesSince env lastAttempt))"

definition HoursSinceLastSuccess :: "('t, 'a) agentenv_scheme \<Rightarrow> DataStore \<Rightarrow> int" where
  "HoursSinceLastSuccess env ds =
     (if LastCheckedAt ds = [] then - 1
      else (case parseRFC3339 env (LastCheckedAt ds) of
              None \<Rightarrow> - 1
            | Some lastSuccess \<Rightarrow> hoursSince env lastSuccess))"

text \<open>
  \<open>Update\<close> assigns several fields and saves once. Each update carries a value of the type
  that the type assertion in \<open>Update\<close> accepts for its key.
\<close>

datatype fieldUpdate =
    UpdUUID string | UpdAppVersion string | UpdAccessToken string | UpdSyncState SyncState
  | UpdLastCheckedAt string | UpdLastSyncAttemptedAt string
  | UpdComplianceData "SyncResponse option" | UpdWinAvServicesMatchList "string list option"
  | UpdRegion string | UpdUser "User option"

fun applyUpdate :: "DataStore \<Rightarrow> fieldUpdate \<Rightarrow> DataStore" where
  "applyUpdate ds (UpdUUID v) = ds\<lparr>UUID := v\<rparr>"
| "applyUpdate ds (UpdAppVersion v) = ds\<lparr>AppVersion := v\<rparr>"
| "applyUpdate ds (UpdAccessToken v) = ds\<lparr>AccessToken := v\<rparr>"
| "applyUpdate ds (UpdSyncState v) = ds\<lparr>SyncState := v\<rparr>"
| "applyUpdate ds (UpdLastCheckedAt v) = ds\<lparr>LastCheckedAt := v\<rparr>"
| "applyUpdate ds (UpdLastSyncAttemptedAt v) = ds\<lparr>LastSyncAttemptedAt := v\<rparr>"
| "applyUpdate ds (UpdComplianceData v) = ds\<lparr>ComplianceData := v\<rparr>"
| "applyUpdate ds (UpdWinAvServicesMatchList v) = ds\<lparr>WinAvServicesMatchList := v\<rparr>"
| "applyUpdate ds (UpdRegion v) = ds\<lparr>Region := v\<rparr>"
| "applyUpdate ds (UpdUser v) = ds\<lparr>UserInfo := v\<rparr>"

definition Update ::
  "('t, 'a) agentenv_scheme \<Rightarrow> fieldUpdate list \<Rightarrow> world \<Rightarrow> error option \<times> world" where
  "Update env updates w = save env (w\<lparr>store := foldl applyUpdate (store w) updates\<rparr>)"

definition say :: "string \<Rightarrow> world \<Rightarrow> world" where
  "say line w = w\<lparr>console := console w @ [line]\<rparr>"

section \<open>The API client (package api)\<close>

definition doRequest ::
  "('t, 'a) agentenv_scheme \<Rightarrow> Config \<Rightarrow> string \<Rightarrow> string \<Rightarrow> payload option \<Rightarrow> world
     \<Rightarrow> (error + response) \<times> world" where
  "doRequest env cfg method p body w =
     (let region = (if Region (store w) = [] then cfgRegion cfg else Region (store w));
          req = \<lparr>reqMethod = method, reqPath = p, reqTargetEnv = TargetEnv cfg,
                 reqRegion = region, reqCorrelationId = UUID (store w),
                 reqBearer = AccessToken (store w), reqBody = body\<rparr>
      in (httpDo env req, w\<lparr>events := events w @ [Requested req]\<rparr>))"

definition handleErrorResponse :: "('t, 'a) agentenv_scheme \<Rightarrow> response \<Rightarrow> error" where
  "handleErrorResponse env resp =
     (case decodeError env (Body resp) of
        None \<Rightarrow>
          Error (''API error (status '' @ showNat (StatusCode resp) @ ''): '' @ Body resp)
      | Some errResp \<Rightarrow>
          if errCode errResp = ''MAGIC_TOKEN_NOT_FOUND'' then
            Error ''magic token not found or expired. Please request a new registration link''
          else if errCode errResp = ''REFRESH_TOKEN_NOT_FOUND'' then
            Error ''refresh token not found. Please register the agent''
          else if errCode errResp = ''TOKEN_EXPIRED'' then
            Error ''authorization has expired. Please register the agent again''
          else if errCode errResp = ''ACCOUNT_PENDING'' then
            Error ''account configuration is being completed. Please try again in a few minutes''
          else if errCode errResp = ''ACCOUNT_MAINTENANCE'' then
            Error ''Drata is under maintenance. Please try again in a few minutes''
          else if errCode errResp = ''ACCOUNT_ADMIN_DISABLED''
                  \<or> errCode errResp = ''ACCOUNT_NON_PAYMENT'' then
            Error (''your company's account is disabled. Please contact your system administrator'')
          else if errCode errResp = ''ACCOUNT_USER_DELETED'' then
            Error ''your user account was deleted. Please contact your system administrator''
          else if StatusCode resp = 401 then
            Error ''unauthorized: please register the agent or check your credentials''
          else if errMessage errResp \<noteq> [] then
            (if errSecondaryMessage errResp \<noteq> []
             then Error (errMessage errResp @ '': '' @ errSecondaryMessage errResp)
             else Error (errMessage errResp))
          else Error (''API error (status '' @ showNat (StatusCode resp) @ '')''))"

definition GetMe ::
  "('t, 'a) agentenv_scheme \<Rightarrow> Config \<Rightarrow> world \<Rightarrow> (error + User) \<times> world" where
  "GetMe env cfg w =
     (case doRequest env cfg ''GET'' ''/users/me'' None w of
        (Inl e, w1) \<Rightarrow> (Inl (wrap ''failed to get user info'' e), w1)
      | (Inr resp, w1) \<Rightarrow>
          if StatusCode resp \<noteq> 200 then (Inl (handleErrorResponse env resp), w1)
          else (case decodeMe env (Body resp) of
                  None \<Rightarrow> (Inl (Error ''failed to decode user response''), w1)
                | Some meResp \<Rightarrow>
                    (case SetUser env (Some meResp) w1 of
                       (Some e, w2) \<Rightarrow> (Inl (wrap ''failed to save user'' e), w2)
                     | (None, w2) \<Rightarrow> (Inr meResp, w2))))"

definition LoginWithMagicLink ::
  "('t, 'a) agentenv_scheme \<Rightarrow> Config \<Rightarrow> string \<Rightarrow> world \<Rightarrow> (error + User) \<times> world" where
  "LoginWithMagicLink env cfg token w =
     (case doRequest env cfg ''POST'' (''/auth/magic-link/'' @ token) None w of
        (Inl e, w1) \<Rightarrow> (Inl (wrap ''failed to authenticate'' e), w1)
      | (Inr resp, w1) \<Rightarrow>
          if StatusCode resp \<noteq> 200 \<and> StatusCode resp \<noteq> 201
          then (Inl (handleErrorResponse env resp), w1)
          else (case decodeAuth env (Body resp) of
                  None \<Rightarrow> (Inl (Error ''failed to decode auth response''), w1)
                | Some accessToken \<Rightarrow>
                    if accessToken \<noteq> [] then
                      (case SetAccessToken env accessToken w1 of
                         (Some e, w2) \<Rightarrow> (Inl (wrap ''failed to save access token'' e), w2)
                       | (None, w2) \<Rightarrow> GetMe env cfg w2)
                    else GetMe env cfg w1))"

definition Register ::
  "('t, 'a) agentenv_scheme \<Rightarrow> Config \<Rightarrow> AgentDeviceIdentifiers \<Rightarrow> world
     \<Rightarrow> (error + AgentV2Response) \<times> world" where
  "Register env cfg identifiers w =
     (case doRequest env cfg ''POST'' ''/agentv2/register'' (Some (Identifiers identifiers)) w of
        (Inl e, w1) \<Rightarrow> (Inl (wrap ''failed to register'' e), w1)
      | (Inr resp, w1) \<Rightarrow>
          if StatusCode resp \<noteq> 200 \<and> StatusCode resp \<noteq> 201
          then (Inl (handleErrorResponse env resp), w1)
          else (case decodeAgent env (Body resp) of
                  None \<Rightarrow> (Inl (Error ''failed to decode register response''), w1)
                | Some agentResp \<Rightarrow>
                    if respLastCheckedAt agentResp \<noteq> [] then
                      (case SetLastCheckedAt env (respLastCheckedAt agentResp) w1 of
                         (Some e, w2) \<Rightarrow> (Inl (wrap ''failed to save last checked at'' e), w2)
                       | (None, w2) \<Rightarrow> (Inr agentResp, w2))
                    else (Inr agentResp, w1)))"

definition Sync ::
  "('t, 'a) agentenv_scheme \<Rightarrow> Config \<Rightarrow> QueryResult \<Rightarrow> world
     \<Rightarrow> (error + SyncResponse) \<times> world" where
  "Sync env cfg queryResult w =
     (case doRequest env cfg ''POST'' ''/agentv2/sync'' (Some (Snapshot queryResult)) w of
        (Inl e, w1) \<Rightarrow> (Inl (wrap ''failed to sync'' e), w1)
      | (Inr resp, w1) \<Rightarrow>
          if StatusCode resp \<noteq> 200 \<and> StatusCode resp \<noteq> 201
          then (Inl (handleErrorResponse env resp), w1)
          else (case decodeSync env (Body resp) of
                  None \<Rightarrow> (Inl (Error ''failed to decode sync response''), w1)
                | Some syncResp \<Rightarrow>
                    (case Update env
                            ([UpdComplianceData (Some syncResp),
                              UpdLastCheckedAt (respLastCheckedAt (syncData syncResp))]
                             @ (if syncWinAvServicesMatchList syncResp \<noteq> []
                                then [UpdWinAvServicesMatchList
                                        (Some (syncWinAvServicesMatchList syncResp))]
                                else []))
                            w1 of
                       (Some e, w2) \<Rightarrow> (Inl (wrap ''failed to update datastore'' e), w2)
                     | (None, w2) \<Rightarrow> (Inr syncResp, w2))))"

definition GetInitData ::
  "('t, 'a) agentenv_scheme \<Rightarrow> Config \<Rightarrow> world \<Rightarrow> (error + string list) \<times> world" where
  "GetInitData env cfg w =
     (case doRequest env cfg ''GET'' ''/agentv2/init'' None w of
        (Inl e, w1) \<Rightarrow> (Inl (wrap ''failed to get init data'' e), w1)
      | (Inr resp, w1) \<Rightarrow>
          if StatusCode resp \<noteq> 200 then (Inl (handleErrorResponse env resp), w1)
          else (case decodeInit env (Body resp) of
                  None \<Rightarrow> (Inl (Error ''failed to decode init response''), w1)
                | Some list \<Rightarrow>
                    if list \<noteq> [] then
                      (case SetWinAvServicesMatchList env (Some list) w1 of
                         (Some e, w2) \<Rightarrow> (Inl (wrap ''failed to save init data'' e), w2)
                       | (None, w2) \<Rightarrow> (Inr list, w2))
                    else (Inr list, w1)))"

section \<open>The commands (package cmd)\<close>

subsection \<open>\<open>drata-agent sync\<close>\<close>

text \<open>
  A failure of the pipeline sets the state to \<open>ERROR\<close> before the command returns; when
  that write fails too, \<open>runSync\<close> prints a warning and still returns the first error.
\<close>

definition abortSync ::
  "('t, 'a) agentenv_scheme \<Rightarrow> string \<Rightarrow> error \<Rightarrow> world \<Rightarrow> error option \<times> world" where
  "abortSync env context e w =
     (case SetSyncState env SyncStateError w of
        (Some e', w') \<Rightarrow>
          (Some (wrap context e),
           say (''Warning: failed to update sync state: '' @ message e') w')
      | (None, w') \<Rightarrow> (Some (wrap context e), w'))"

text \<open>
  The part of \<open>runSync\<close> after the throttle checks, in the order of the source and
  written here from its last step to its first: the osquery client is created, the state
  is set to \<open>RUNNING\<close> and the attempt is stamped (\<open>syncPipeline\<close>); initialization data
  is fetched if it is not cached (\<open>ensureInitData\<close>); the snapshot is collected and marked
  as a manual run when forced (\<open>collectSnapshot\<close>); it is uploaded and the state set to
  \<open>SUCCESS\<close> (\<open>sendSnapshot\<close>). The check mark that the source prints before its last
  message is left out.
\<close>

definition sendSnapshot ::
  "('t, 'a) agentenv_scheme \<Rightarrow> Config \<Rightarrow> QueryResult \<Rightarrow> world \<Rightarrow> error option \<times> world" where
  "sendSnapshot env cfg queryResult w =
     (case Sync env cfg queryResult (say ''Sending data to Drata...'' w) of
        (Inl e, w1) \<Rightarrow> abortSync env ''failed to sync'' e w1
      | (Inr syncResp, w1) \<Rightarrow>
          (case SetSyncState env SyncStateSuccess w1 of
             (Some e, w2) \<Rightarrow> (Some (wrap ''failed to update sync state'' e), w2)
           | (None, w2) \<Rightarrow>
               (None,
                (if LastCheckedAt (store w2) \<noteq> []
                 then say (''Last successful sync: '' @ LastCheckedAt (store w2))
                 else id)
                  (say ''Sync completed successfully!'' w2))))"

definition collectSnapshot ::
  "('t, 'a) agentenv_scheme \<Rightarrow> Config \<Rightarrow> Client \<Rightarrow> bool \<Rightarrow> world \<Rightarrow> error option \<times> world" where
  "collectSnapshot env cfg client forceSync w =
     (let w1 = (say ''Collecting system information...'' w)
                 \<lparr>events := events w @ [Collected (Version cfg)]\<rparr>
      in case systemInfo env client (Version cfg) of
           Inl e \<Rightarrow> abortSync env ''failed to collect system information'' e w1
         | Inr queryResult \<Rightarrow> sendSnapshot env cfg (queryResult\<lparr>ManualRun := forceSync\<rparr>) w1)"

definition ensureInitData ::
  "('t, 'a) agentenv_scheme \<Rightarrow> Config \<Rightarrow> Client \<Rightarrow> bool \<Rightarrow> world \<Rightarrow> error option \<times> world" where
  "ensureInitData env cfg client forceSync w =
     (if \<not> IsInitDataReady (store w) then
        (case GetInitData env cfg (say ''Fetching initialization data...'' w) of
           (Inl e, w1) \<Rightarrow> abortSync env ''failed to get initialization data'' e w1
         | (Inr list, w1) \<Rightarrow> collectSnapshot env cfg client forceSync w1)
      else collectSnapshot env cfg client forceSync w)"

definition syncPipeline ::
  "('t, 'a) agentenv_scheme \<Rightarrow> Config \<Rightarrow> bool \<Rightarrow> bool \<Rightarrow> world \<Rightarrow> error option \<times> world" where
  "syncPipeline env cfg forceSync verboseSync w =
     (case newClient env of
        Inl e \<Rightarrow> (Some (wrap ''failed to initialize osquery'' e), w)
      | Inr client \<Rightarrow>
          (case SetSyncState env SyncStateRunning
                  (if verboseSync
                   then say (''Agent version: '' @ Version cfg)
                          (say (''Platform: '' @ platform client)
                             (say ''Verbose mode enabled'' w))
                   else w) of
             (Some e, w1) \<Rightarrow> (Some (wrap ''failed to update sync state'' e), w1)
           | (None, w1) \<Rightarrow>
               (case SetLastSyncAttemptedAt env (nowRFC3339 env) w1 of
                  (Some e, w2) \<Rightarrow> (Some (wrap ''failed to update last sync attempted'' e), w2)
                | (None, w2) \<Rightarrow>
                    ensureInitData env cfg client forceSync
                      (say ''Syncing system information with Drata...'' w2))))"

definition tooSoonMessage :: "int \<Rightarrow> int \<Rightarrow> string" where
  "tooSoonMessage minutesSinceLastAttempt minMinutes =
     ''sync was attempted '' @ showInt minutesSinceLastAttempt @ '' minutes ago. Wait ''
     @ showInt (minMinutes - minutesSinceLastAttempt) @ '' more minutes or use --force''"

definition runSync ::
  "('t, 'a) agentenv_scheme \<Rightarrow> bool \<Rightarrow> bool \<Rightarrow> world \<Rightarrow> error option \<times> world" where
  "runSync env forceSync verboseSync w =
     (case loadConfig env of
        Inl e \<Rightarrow> (Some (wrap ''failed to load config'' e), w)
      | Inr cfg \<Rightarrow>
          (case openStore env of
             Some e \<Rightarrow> (Some (wrap ''failed to initialize data store'' e), w)
           | None \<Rightarrow>
               if \<not> IsRegistered (store w) then
                 (Some (Error (''agent is not registered. Use 'drata-agent register' first'')), w)
               else if \<not> forceSync then
                 (if SyncState (store w) = SyncStateRunning then
                    (Some (Error ''sync is already in progress''), w)
                  else if 0 \<le> MinutesSinceLastAttempt env (store w)
                          \<and> MinutesSinceLastAttempt env (store w) < MinMinutesBetweenSyncs cfg then
                    (Some (Error (tooSoonMessage (MinutesSinceLastAttempt env (store w))
                                    (MinMinutesBetweenSyncs cfg))), w)
                  else if 0 \<le> HoursSinceLastSuccess env (store w)
                          \<and> HoursSinceLastSuccess env (store w) < MinHoursSinceLastSync cfg then
                    (None,
                     say ''Use --force to sync anyway.''
                       (say (''Last successful sync was ''
                             @ showInt (HoursSinceLastSuccess env (store w))
                             @ '' hours ago. Skipping automatic sync.'') w))
                  else syncPipeline env cfg forceSync verboseSync w)
               else syncPipeline env cfg forceSync verboseSync w))"

subsection \<open>The daemon's periodic sync\<close>

definition attemptLogLine :: "int \<Rightarrow> int \<Rightarrow> string" where
  "attemptLogLine minutesSinceLastAttempt minMinutes =
     ''Last sync attempt was '' @ showInt minutesSinceLastAttempt
     @ '' minutes ago, skipping (min: '' @ showInt minMinutes @ '')''"

text \<open>
  The part of \<open>performSync\<close> after its checks, in the same stages. Here the result of
  writing \<open>ERROR\<close> is dropped, and the snapshot is uploaded as collected.
\<close>

definition daemonSend ::
  "('t, 'a) agentenv_scheme \<Rightarrow> Config \<Rightarrow> QueryResult \<Rightarrow> world \<Rightarrow> error option \<times> world" where
  "daemonSend env cfg queryResult w =
     (case Sync env cfg queryResult (say ''Sending data to Drata...'' w) of
        (Inl e, w1) \<Rightarrow>
          (Some (wrap ''failed to sync'' e), snd (SetSyncState env SyncStateError w1))
      | (Inr syncResp, w1) \<Rightarrow>
          (case SetSyncState env SyncStateSuccess w1 of
             (Some e, w2) \<Rightarrow> (Some (wrap ''failed to update sync state'' e), w2)
           | (None, w2) \<Rightarrow> (None, say ''Sync completed successfully'' w2)))"

definition daemonCollect ::
  "('t, 'a) agentenv_scheme \<Rightarrow> Config \<Rightarrow> Client \<Rightarrow> world \<Rightarrow> error option \<times> world" where
  "daemonCollect env cfg client w =
     (let w1 = (say ''Collecting system information...'' w)
                 \<lparr>events := events w @ [Collected (Version cfg)]\<rparr>
      in case systemInfo env client (Version cfg) of
           Inl e \<Rightarrow>
             (Some (wrap ''failed to collect system info'' e),
              snd (SetSyncState env SyncStateError w1))
         | Inr queryResult \<Rightarrow> daemonSend env cfg queryResult w1)"

definition daemonInitData ::
  "('t, 'a) agentenv_scheme \<Rightarrow> Config \<Rightarrow> Client \<Rightarrow> world \<Rightarrow> error option \<times> world" where
  "daemonInitData env cfg client w =
     (if \<not> IsInitDataReady (store w) then
        (case GetInitData env cfg (say ''Fetching initialization data...'' w) of
           (Inl e, w1) \<Rightarrow>
             (Some (wrap ''failed to get init data'' e), snd (SetSyncState env SyncStateError w1))
         | (Inr list, w1) \<Rightarrow> daemonCollect env cfg client w1)
      else daemonCollect env cfg client w)"

definition daemonPipeline ::
  "('t, 'a) agentenv_scheme \<Rightarrow> Config \<Rightarrow> Client \<Rightarrow> world \<Rightarrow> error option \<times> world" where
  "daemonPipeline env cfg client w =
     (case SetSyncState env SyncStateRunning w of
        (Some e, w1) \<Rightarrow> (Some (wrap ''failed to update sync state'' e), w1)
      | (None, w1) \<Rightarrow>
          (case SetLastSyncAttemptedAt env (nowRFC3339 env) w1 of
             (Some e, w2) \<Rightarrow> (Some (wrap ''failed to update last sync attempted'' e), w2)
           | (None, w2) \<Rightarrow> daemonInitData env cfg client (say ''Starting sync...'' w2)))"

definition performSync ::
  "('t, 'a) agentenv_scheme \<Rightarrow> Config \<Rightarrow> Client \<Rightarrow> world \<Rightarrow> error option \<times> world" where
  "performSync env cfg client w =
     (if SyncState (store w) = SyncStateRunning then
        (None, say ''Sync already in progress, skipping'' w)
      else if 0 \<le> MinutesSinceLastAttempt env (store w)
              \<and> MinutesSinceLastAttempt env (store w) < MinMinutesBetweenSyncs cfg then
        (None,
         say (attemptLogLine (MinutesSinceLastAttempt env (store w)) (MinMinutesBetweenSyncs cfg)) w)
      else if 0 \<le> HoursSinceLastSuccess env (store w)
              \<and> HoursSinceLastSuccess env (store w) < MinHoursSinceLastSync cfg then
        (None,
         say (''Last successful sync was '' @ showInt (HoursSinceLastSuccess env (store w))
              @ '' hours ago, skipping (min: '' @ showInt (MinHoursSinceLastSync cfg) @ '')'') w)
      else daemonPipeline env cfg client w)"

subsection \<open>The first effect of a pipeline\<close>

text \<open>
  The effects of a pipeline start with the write of \<open>RUNNING\<close>: either nothing happens,
  or the first effect is a write of a document whose state is \<open>RUNNING\<close>, or the first
  write fails and nothing follows it.
\<close>

definition runningFirst :: "event list \<Rightarrow> bool" where
  "runningFirst es =
     (case es of
        [] \<Rightarrow> True
      | Wrote ds # rest \<Rightarrow> SyncState ds = SyncStateRunning
      | WriteFailed # rest \<Rightarrow> rest = []
      | _ \<Rightarrow> False)"

subsection \<open>\<open>drata-agent register\<close>\<close>

definition ParseRegion :: "('t, 'a) agentenv_scheme \<Rightarrow> string \<Rightarrow> error + string" where
  "ParseRegion env s =
     (if ToUpper env s = ''NA'' then Inr ''NA''
      else if ToUpper env s = ''EU'' then Inr ''EU''
      else if ToUpper env s = ''APAC'' then Inr ''APAC''
      else Inl (Error (''invalid region: '' @ s @ '' (valid: NA, EU, APAC)'')))"

definition ParseTargetEnv :: "('t, 'a) agentenv_scheme \<Rightarrow> string \<Rightarrow> error + string" where
  "ParseTargetEnv env s =
     (if ToUpper env s = ''LOCAL'' then Inr ''LOCAL''
      else if ToUpper env s = ''DEV'' then Inr ''DEV''
      else if ToUpper env s = ''QA'' then Inr ''QA''
      else if ToUpper env s = ''PROD'' then Inr ''PROD''
      else Inl (Error (''invalid environment: '' @ s @ '' (valid: LOCAL, DEV, QA, PROD)'')))"

text \<open>
  The handshake once the flags are parsed, the configuration and the store are loaded and
  the agent is known not to be registered: region and UUID are stored, the token is
  exchanged, the device identifiers are collected and registered, and the version is stored.
\<close>

definition registerHandshake ::
  "('t, 'a) agentenv_scheme \<Rightarrow> Config \<Rightarrow> string \<Rightarrow> world \<Rightarrow> error option \<times> world" where
  "registerHandshake env cfg token w =
     (case SetRegion env (cfgRegion cfg) w of
        (Some e, w1) \<Rightarrow> (Some (wrap ''failed to set region'' e), w1)
      | (None, w1) \<Rightarrow>
     (case (if UUID (store w1) = [] then SetUUID env (newUUID env) w1 else (None, w1)) of
        (Some e, w2) \<Rightarrow> (Some (wrap ''failed to set UUID'' e), w2)
      | (None, w2) \<Rightarrow>
     (case newClient env of
        Inl e \<Rightarrow> (Some (wrap ''failed to initialize osquery'' e), w2)
      | Inr client \<Rightarrow>
     (case LoginWithMagicLink env cfg token
             (say (''Registering agent with Drata ('' @ cfgRegion cfg @ '' region)...'') w2) of
        (Inl e, w3) \<Rightarrow> (Some (wrap ''authentication failed'' e), w3)
      | (Inr user, w3) \<Rightarrow>
     (case deviceIdentifiers env client of
        Inl e \<Rightarrow>
          (Some (wrap ''failed to get device identifiers'' e),
           say (''Authenticated as: '' @ FirstName user @ '' '' @ LastName user
                @ '' ('' @ Email user @ '')'') w3)
      | Inr identifiers \<Rightarrow>
     (case Register env cfg identifiers
             (say (''Authenticated as: '' @ FirstName user @ '' '' @ LastName user
                   @ '' ('' @ Email user @ '')'') w3) of
        (Inl e, w4) \<Rightarrow> (Some (wrap ''registration failed'' e), w4)
      | (Inr agentResp, w4) \<Rightarrow>
     (case SetAppVersion env (Version cfg) w4 of
        (Some e, w5) \<Rightarrow> (Some (wrap ''failed to set app version'' e), w5)
      | (None, w5) \<Rightarrow> (None, say ''Agent registered successfully!'' w5))))))))"

definition runRegister ::
  "('t, 'a) agentenv_scheme \<Rightarrow> string \<Rightarrow> string \<Rightarrow> string \<Rightarrow> world \<Rightarrow> error option \<times> world" where
  "runRegister env token regionStr targetEnv w =
     (case ParseRegion env regionStr of
        Inl e \<Rightarrow> (Some e, w)
      | Inr region \<Rightarrow>
     (case loadConfig env of
        Inl e \<Rightarrow> (Some (wrap ''failed to load config'' e), w)
      | Inr cfg \<Rightarrow>
     (case (if targetEnv \<noteq> [] then ParseTargetEnv env targetEnv else Inr (TargetEnv cfg)) of
        Inl e \<Rightarrow> (Some e, w)
      | Inr target \<Rightarrow>
     (case openStore env of
        Some e \<Rightarrow> (Some (wrap ''failed to initialize data store'' e), w)
      | None \<Rightarrow>
          if IsRegistered (store w) then
            (Some (Error (''agent is already registered. Use 'drata-agent unregister' first'')), w)
          else registerHandshake env (cfg\<lparr>cfgRegion := region, TargetEnv := target\<rparr>) token w))))"

subsection \<open>A cooperative backend\<close>

text \<open>
  A backend that accepts every request, a disk that accepts every write, and a clock that
  counts minutes: a time stamp is a number of minutes written in decimal, and it is now
  minute 1000.
\<close>

definition parseMinutes :: "string \<Rightarrow> int option" where
  "parseMinutes s = (if s \<noteq> [] \<and> list_all isDecimal s then Some (digitsValue s) else None)"

definition okBody :: string where
  "okBody = ''{}''"

definition demoConfig :: Config where
  "demoConfig =
     \<lparr>cfgRegion = ''NA'', TargetEnv = ''PROD'', SyncIntervalHours = 2,
      MinHoursSinceLastSync = 24, MinMinutesBetweenSyncs = 15, OsqueryPath = [],
      Version = ''3.9.0-cli''\<rparr>"

definition demoSnapshot :: QueryResult where
  "demoSnapshot =
     \<lparr>DrataAgentVersion = ''3.9.0-cli'', Platform = PlatformLinux, ManualRun = False,
      RawQueryResults = Map.empty\<rparr>"

definition demoEnv :: "int agentenv" where
  "demoEnv =
     \<lparr>writeOk = (\<lambda>n. True),
      httpDo = (\<lambda>req. Inr \<lparr>StatusCode = 200, Body = okBody\<rparr>),
      decodeAuth = (\<lambda>b. Some ''token-1''),
      decodeMe = (\<lambda>b. None),
      decodeAgent = (\<lambda>b. None),
      decodeSync = (\<lambda>b. Some \<lparr>syncData = \<lparr>respLastCheckedAt = ''1000'', respData = JNull,
                                               respWinAvServicesMatchList = []\<rparr>,
                                  syncWinAvServicesMatchList = []\<rparr>),
      decodeInit = (\<lambda>b. Some []),
      decodeError = (\<lambda>b. None),
      parseRFC3339 = parseMinutes,
      minutesSince = (\<lambda>t. 1000 - t),
      hoursSince = (\<lambda>t. (1000 - t) div 60),
      nowRFC3339 = ''1000'',
      loadConfig = Inr demoConfig,
      openStore = None,
      newClient = Inr linuxClient,
      systemInfo = (\<lambda>c v. Inr demoSnapshot),
      deviceIdentifiers = (\<lambda>c. Inr \<lparr>HardwareSerial = ''HW1'', BoardSerial = ''B1'', Mac = ''00:11''\<rparr>),
      newUUID = ''uuid-1'',
      ToUpper = (\<lambda>s. s)\<rparr>"

text \<open>
  The document of a registered agent with cached initialization data, in a given state
  and with a given time stamp of the last attempt; and a process that has just loaded a
  document from the file.
\<close>

definition registeredStore :: "SyncState \<Rightarrow> string \<Rightarrow> DataStore" where
  "registeredStore state lastAttempt =
     \<lparr>UUID = ''uuid-0'', AppVersion = ''3.9.0-cli'', AccessToken = ''token-0'', UserInfo = None,
      SyncState = state, LastCheckedAt = [], LastSyncAttemptedAt = lastAttempt,
      ComplianceData = None, WinAvServicesMatchList = Some [''av''], Region = ''NA'',
      path = ''/home/alice/.drata-agent/data/app-data.json''\<rparr>"

definition startWorld :: "DataStore \<Rightarrow> world" where
  "startWorld ds = \<lparr>store = ds, disk = Some ds, events = [], console = []\<rparr>"

text \<open>
  The HTTP requests among the events of a run, as method and path, and the number of
  telemetry collections among them.
\<close>

definition requests :: "event list \<Rightarrow> (string \<times> string) list" where
  "requests es = concat (map (\<lambda>e. case e of Requested r \<Rightarrow> [(reqMethod r, reqPath r)] | _ \<Rightarrow> []) es)"

definition collections :: "event list \<Rightarrow> nat" where
  "collections es = length (filter (\<lambda>e. case e of Collected v \<Rightarrow> True | _ \<Rightarrow> False) es)"

subsection \<open>A backend whose profile request fails\<close>

text \<open>
  A backend that exchanges the registration token for an access token and then fails the
  profile request with status 500, and the empty document of an agent that has never
  registered.
\<close>

definition profileDownEnv :: "int agentenv" where
  "profileDownEnv =
     demoEnv\<lparr>httpDo := (\<lambda>req. if reqPath req = ''/users/me''
                               then Inr \<lparr>StatusCode = 500, Body = okBody\<rparr>
                               else Inr \<lparr>StatusCode = 200, Body = okBody\<rparr>)\<rparr>"

definition freshStore :: DataStore where
  "freshStore =
     \<lparr>UUID = [], AppVersion = [], AccessToken = [], UserInfo = None, SyncState = [],
      LastCheckedAt = [], LastSyncAttemptedAt = [], ComplianceData = None,
      WinAvServicesMatchList = None, Region = [],
      path = ''/home/alice/.drata-agent/data/app-data.json''\<rparr>"

section \<open>The TypeScript command line: configuration file, requests and sync\<close>

text \<open>
  The TypeScript command line keeps its state in a JavaScript object that it writes to
  \<open>config.json\<close> after every change. The object is a list of properties in insertion
  order; a property can hold \<open>undefined\<close>, which is \<open>None\<close>. Values are JSON values.
\<close>

type_synonym CliConfig = "(string \<times> jv option) list"

definition get :: "CliConfig \<Rightarrow> string \<Rightarrow> jv option" where
  "get cfg key = (case map_of cfg key of Some v \<Rightarrow> v | None \<Rightarrow> None)"

text \<open>\<open>this.config[key] = val\<close>\<close>

fun assign :: "string \<Rightarrow> jv option \<Rightarrow> CliConfig \<Rightarrow> CliConfig" where
  "assign k v [] = [(k, v)]"
| "assign k v ((k', v') # m) = (if k' = k then (k, v) # m else (k', v') # assign k v m)"

text \<open>\<open>JSON.stringify\<close> leaves out the properties that hold \<open>undefined\<close>.\<close>

definition stringify :: "CliConfig \<Rightarrow> (string \<times> jv) list" where
  "stringify cfg = concat (map (\<lambda>p. case snd p of Some v \<Rightarrow> [(fst p, v)] | None \<Rightarrow> []) cfg)"

text \<open>
  JavaScript's tests on values: \<open>!!v\<close>, lodash's \<open>isNil\<close>, the property access \<open>v.key\<close> on
  a value that is neither \<open>undefined\<close> nor \<open>null\<close> (the keys read here are not properties
  of strings or arrays), and the conversion to a string in a template literal.
\<close>

definition truthy :: "jv option \<Rightarrow> bool" where
  "truthy v =
     (case v of
        None \<Rightarrow> False
      | Some JNull \<Rightarrow> False
      | Some (JBool b) \<Rightarrow> b
      | Some (JNum n) \<Rightarrow> n \<noteq> 0
      | Some (JStr s) \<Rightarrow> s \<noteq> []
      | Some _ \<Rightarrow> True)"

definition isNil :: "jv option \<Rightarrow> bool" where
  "isNil v = (v = None \<or> v = Some JNull)"

definition member :: "jv \<Rightarrow> string \<Rightarrow> jv option" where
  "member v key = (case v of JObj m \<Rightarrow> map_of m key | _ \<Rightarrow> None)"

fun joinComma :: "string list \<Rightarrow> string" where
  "joinComma [] = []"
| "joinComma [x] = x"
| "joinComma (x # y # rest) = x @ '','' @ joinComma (y # rest)"

fun toString :: "jv \<Rightarrow> string" where
  "toString JNull = ''null''"
| "toString (JBool b) = (if b then ''true'' else ''false'')"
| "toString (JNum n) = showInt n"
| "toString (JStr s) = s"
| "toString (JArr xs) = joinComma (map (\<lambda>x. if x = JNull then [] else toString x) xs)"
| "toString (JObj m) = ''[object Object]''"

definition interpolate :: "jv option \<Rightarrow> string" where
  "interpolate v = (case v of None \<Rightarrow> ''undefined'' | Some x \<Rightarrow> toString x)"

text \<open>
  A request as the interceptor of \<open>CliAxiosHelper\<close> completes it (the constant timeout and
  content type are left out), and what a run does to the outside world, in order.
\<close>

record axrequest =
  axMethod :: string
  axUrl :: string
  axBaseURL :: string
  axAuthorization :: string
  axCorrelationId :: string
  axUserAgent :: string
  axData :: "jv option"

datatype tsevent =
    FileWritten "(string \<times> jv) list" | FileWriteFailed | HttpRequest axrequest | SystemQueried

record tsworld =
  config :: CliConfig
  configFile :: "(string \<times> jv) list option"
  trace :: "tsevent list"
  stdout :: "string list"

text \<open>
  Everything outside the process: whether the \<open>n\<close>-th effect, when it is a write of the
  file, succeeds; \<open>crypto.randomUUID\<close>; \<open>resolveBaseUrl\<close>, whose table is keyed by
  enumerations that are not among the sources; the HTTP adapter of axios, which rejects
  on a transport error and on a status outside 2xx and otherwise resolves with the parsed
  body; \<open>new Date().toISOString()\<close>; and the two collections of
  \<open>CliSystemQueryService\<close>.
\<close>

record tsenv =
  writeFileOk :: "nat \<Rightarrow> bool"
  randomUUID :: string
  resolveBaseUrl :: "jv option \<Rightarrow> error + string"
  adapter :: "axrequest \<Rightarrow> error + jv"
  toISOString :: string
  getSystemInfo :: "error + (string \<times> jv) list"
  getAgentDeviceIdentifiers :: "error + jv"

text \<open>
  Modelled from the spec: \<open>enums/sync-state.enum.ts\<close> is not among the sources. The
  members that \<open>sync\<close> uses carry the names the specification gives the states.
\<close>

definition SyncState_RUNNING :: jv where
  "SyncState_RUNNING = JStr ''RUNNING''"

definition SyncState_SUCCESS :: jv where
  "SyncState_SUCCESS = JStr ''SUCCESS''"

definition SyncState_ERROR :: jv where
  "SyncState_ERROR = JStr ''ERROR''"

definition VERSION :: string where
  "VERSION = ''3.9.0''"

subsection \<open>\<open>CliConfigHelper\<close>\<close>

definition consoleLog :: "string \<Rightarrow> tsworld \<Rightarrow> tsworld" where
  "consoleLog line w = w\<lparr>stdout := stdout w @ [line]\<rparr>"

text \<open>
  \<open>writeConfig\<close> reports a failed write and throws it again; a thrown error is \<open>Some\<close>.
\<close>

definition writeConfig :: "tsenv \<Rightarrow> tsworld \<Rightarrow> error option \<times> tsworld" where
  "writeConfig env w =
     (if writeFileOk env (length (trace w))
      then (None, w\<lparr>configFile := Some (stringify (config w)),
                    trace := trace w @ [FileWritten (stringify (config w))]\<rparr>)
      else (Some (Error ''write config.json''),
            (consoleLog ''Error writing configuration:'' w)
              \<lparr>configFile := None, trace := trace w @ [FileWriteFailed]\<rparr>))"

definition set_config ::
  "tsenv \<Rightarrow> string \<Rightarrow> jv option \<Rightarrow> tsworld \<Rightarrow> error option \<times> tsworld" where
  "set_config env key val w = writeConfig env (w\<lparr>config := assign key val (config w)\<rparr>)"

definition multiSet ::
  "tsenv \<Rightarrow> (string \<times> jv option) list \<Rightarrow> tsworld \<Rightarrow> error option \<times> tsworld" where
  "multiSet env update w =
     writeConfig env (w\<lparr>config := fold (\<lambda>p. assign (fst p) (snd p)) update (config w)\<rparr>)"

definition remove :: "tsenv \<Rightarrow> string \<Rightarrow> tsworld \<Rightarrow> error option \<times> tsworld" where
  "remove env key w = writeConfig env (w\<lparr>config := filter (\<lambda>p. fst p \<noteq> key) (config w)\<rparr>)"

definition clearData :: "tsenv \<Rightarrow> tsworld \<Rightarrow> error option \<times> tsworld" where
  "clearData env w = writeConfig env (w\<lparr>config := []\<rparr>)"

definition isInitDataReady :: "CliConfig \<Rightarrow> bool" where
  "isInitDataReady cfg = (get cfg ''winAvServicesMatchList'' \<noteq> None)"

definition isRegistered :: "CliConfig \<Rightarrow> bool" where
  "isRegistered cfg = truthy (get cfg ''accessToken'')"

subsection \<open>\<open>CliAxiosHelper\<close> and \<open>CliApiService\<close>\<close>

text \<open>
  The request interceptor reads the region, creates and stores a UUID when there is none,
  resolves the base URL and sets the headers; then the adapter sends the request. An
  error thrown on the way rejects the request.
\<close>

definition axiosRequest ::
  "tsenv \<Rightarrow> string \<Rightarrow> string \<Rightarrow> jv option \<Rightarrow> tsworld \<Rightarrow> (error + jv) \<times> tsworld" where
  "axiosRequest env method url body w =
     (case (if \<not> truthy (get (config w) ''uuid'')
            then (case set_config env ''uuid'' (Some (JStr (randomUUID env))) w of
                    (Some e, w1) \<Rightarrow> (Inl e, w1)
                  | (None, w1) \<Rightarrow> (Inr (Some (JStr (randomUUID env))), w1))
            else (Inr (get (config w) ''uuid''), w)) of
        (Inl e, w1) \<Rightarrow> (Inl e, w1)
      | (Inr uuid, w1) \<Rightarrow>
          (case resolveBaseUrl env (get (config w) ''region'') of
             Inl e \<Rightarrow> (Inl e, w1)
           | Inr base \<Rightarrow>
               (let req = \<lparr>axMethod = method, axUrl = url, axBaseURL = base,
                           axAuthorization = ''Bearer '' @ interpolate (get (config w1) ''accessToken''),
                           axCorrelationId = interpolate uuid,
                           axUserAgent =
                             ''Drata-Agent-CLI/''
                             @ (if truthy (get (config w1) ''appVersion'')
                                then interpolate (get (config w1) ''appVersion'') else ''0.0.0'')
                             @ '' (linux)'',
                           axData = body\<rparr>
                in (adapter env req, w1\<lparr>trace := trace w1 @ [HttpRequest req]\<rparr>))))"

definition initialData :: "tsenv \<Rightarrow> tsworld \<Rightarrow> (error + jv) \<times> tsworld" where
  "initialData env w =
     (case axiosRequest env ''GET'' ''/agentv2/init'' None w of
        (Inl e, w1) \<Rightarrow> (Inl e, w1)
      | (Inr data, w1) \<Rightarrow>
          if isNil (Some data)
          then (Inl (Error ''Missing data on get initialization data request.''), w1)
          else (case multiSet env
                       [(''winAvServicesMatchList'', member data ''winAvServicesMatchList'')] w1 of
                  (Some e, w2) \<Rightarrow> (Inl e, w2)
                | (None, w2) \<Rightarrow> (Inr data, w2)))"

text \<open>
  The method \<open>sync\<close> of \<open>CliApiService\<close>. Reading \<open>data.data.lastcheckedAt\<close> throws a
  \<open>TypeError\<close> when the reply has no \<open>data\<close> property.
\<close>

definition CliApiService_sync ::
  "tsenv \<Rightarrow> (string \<times> jv) list \<Rightarrow> tsworld \<Rightarrow> (error + jv) \<times> tsworld" where
  "CliApiService_sync env results w =
     (case axiosRequest env ''POST'' ''/agentv2/sync'' (Some (JObj results)) w of
        (Inl e, w1) \<Rightarrow> (Inl e, w1)
      | (Inr data, w1) \<Rightarrow>
          if isNil (Some data)
          then (Inl (Error ''Missing data on set personnel checks request.''), w1)
          else if isNil (member data ''data'')
          then (Inl (Error (''Cannot read properties of ''
                            @ interpolate (member data ''data'')
                            @ '' (reading 'lastcheckedAt')'')), w1)
          else (case multiSet env
                       [(''lastCheckedAt'',
                         (case member data ''data'' of Some d \<Rightarrow> member d ''lastcheckedAt''
                          | None \<Rightarrow> None)),
                        (''winAvServicesMatchList'', member data ''winAvServicesMatchList'')] w1 of
                  (Some e, w2) \<Rightarrow> (Inl e, w2)
                | (None, w2) \<Rightarrow> (Inr data, w2)))"

subsection \<open>The command \<open>sync\<close>\<close>

text \<open>
  How a command ends: it returns, it calls \<open>process.exit\<close>, or an error escapes it.
\<close>

datatype outcome = Returned | Exited nat | Threw error

text \<open>
  The \<open>try\<close> block of \<open>sync\<close>, in the order of the source and written here from its last
  step to its first: initialization data is fetched when it is not cached
  (\<open>syncAttempt\<close>); the attempt is stamped and the state set to \<open>RUNNING\<close> (\<open>markRunning\<close>);
  the snapshot is collected and marked as a manual run (\<open>collectAndSend\<close>); it is uploaded
  and the state set to \<open>SUCCESS\<close> (\<open>sendAndFinish\<close>). The spinner and the symbols that
  the source prints before some messages are left out.
\<close>

definition sendAndFinish ::
  "tsenv \<Rightarrow> bool \<Rightarrow> (string \<times> jv) list \<Rightarrow> tsworld \<Rightarrow> error option \<times> tsworld" where
  "sendAndFinish env verboseOption queryResults w =
     (case CliApiService_sync env queryResults
             (if verboseOption then consoleLog ''System info collected. Sending to Drata...'' w else w) of
        (Inl e, w1) \<Rightarrow> (Some e, w1)
      | (Inr data, w1) \<Rightarrow>
          (case set_config env ''syncState'' (Some SyncState_SUCCESS) w1 of
             (Some e, w2) \<Rightarrow> (Some e, w2)
           | (None, w2) \<Rightarrow>
               (None,
                consoleLog (''  Last sync: ''
                            @ (if truthy (get (config w2) ''lastCheckedAt'')
                               then interpolate (get (config w2) ''lastCheckedAt'') else ''N/A''))
                  (consoleLog ''Sync completed successfully!'' w2))))"

definition collectAndSend :: "tsenv \<Rightarrow> bool \<Rightarrow> tsworld \<Rightarrow> error option \<times> tsworld" where
  "collectAndSend env verboseOption w =
     (let w1 = (if verboseOption then consoleLog ''Querying system information...'' w else w)
                 \<lparr>trace := trace w @ [SystemQueried]\<rparr>
      in case getSystemInfo env of
           Inl e \<Rightarrow> (Some e, w1)
         | Inr queryResults \<Rightarrow>
             sendAndFinish env verboseOption (setKey ''manualRun'' (JBool True) queryResults) w1)"

definition markRunning :: "tsenv \<Rightarrow> bool \<Rightarrow> tsworld \<Rightarrow> error option \<times> tsworld" where
  "markRunning env verboseOption w =
     (case set_config env ''lastSyncAttemptedAt'' (Some (JStr (toISOString env))) w of
        (Some e, w1) \<Rightarrow> (Some e, w1)
      | (None, w1) \<Rightarrow>
          (case set_config env ''syncState'' (Some SyncState_RUNNING) w1 of
             (Some e, w2) \<Rightarrow> (Some e, w2)
           | (None, w2) \<Rightarrow> collectAndSend env verboseOption w2))"

definition syncAttempt :: "tsenv \<Rightarrow> bool \<Rightarrow> tsworld \<Rightarrow> error option \<times> tsworld" where
  "syncAttempt env verboseOption w =
     (if \<not> isInitDataReady (config w) then
        (case initialData env (consoleLog ''Fetching initialization data...'' w) of
           (Inl e, w1) \<Rightarrow> (Some e, w1)
         | (Inr data, w1) \<Rightarrow> markRunning env verboseOption w1)
      else markRunning env verboseOption w)"

text \<open>
  The command: an agent that is not registered exits with status 1; an error thrown in
  the \<open>try\<close> block is caught, the state is set to \<open>ERROR\<close> and the command exits with
  status 1.
\<close>

definition sync :: "tsenv \<Rightarrow> bool \<Rightarrow> tsworld \<Rightarrow> outcome \<times> tsworld" where
  "sync env verboseOption w =
     (if \<not> isRegistered (config w) then
        (Exited 1,
         consoleLog (''Agent is not registered. Run '' @ [CHR 0x22] @ ''drata-agent configure''
                     @ [CHR 0x22] @ '' first.'') w)
      else
        (case syncAttempt env verboseOption (consoleLog ''Running sync...'' w) of
           (None, w1) \<Rightarrow> (Returned, w1)
         | (Some e, w1) \<Rightarrow>
             (case set_config env ''syncState'' (Some SyncState_ERROR) w1 of
                (Some e', w2) \<Rightarrow> (Threw e', w2)
              | (None, w2) \<Rightarrow>
                  (Exited 1,
                   consoleLog (''  '' @ (if message e \<noteq> [] then message e else ''Unknown error''))
                     (consoleLog ''Sync failed:'' w2)))))"

subsection \<open>A first sync after configuration\<close>

text \<open>
  The configuration that a successful \<open>configure\<close> leaves: region, version, UUID, access
  token, user and the time of the last check, and no initialization data yet. A backend
  that answers every request, and one that is unreachable. A run is summarized by its
  effects in order: each request with method and path, each write of the file with the
  \<open>syncState\<close> it persists, each collection.
\<close>

definition configuredAgent :: CliConfig where
  "configuredAgent =
     [(''region'', Some (JStr ''NA'')), (''appVersion'', Some (JStr ''3.9.0'')),
      (''uuid'', Some (JStr ''uuid-0'')), (''accessToken'', Some (JStr ''token-0'')),
      (''user'', Some (JObj [(''id'', JNum 7), (''email'', JStr ''alice@example.com''),
                             (''firstName'', JStr ''Alice''), (''lastName'', JStr ''Doe'')])),
      (''lastCheckedAt'', Some (JStr ''2026-01-01T00:00:00.000Z''))]"

definition startProcess :: "CliConfig \<Rightarrow> tsworld" where
  "startProcess cfg = \<lparr>config = cfg, configFile = Some (stringify cfg), trace = [], stdout = []\<rparr>"

definition backendUp :: tsenv where
  "backendUp =
     \<lparr>writeFileOk = (\<lambda>n. True),
      randomUUID = ''uuid-1'',
      resolveBaseUrl = (\<lambda>region. Inr ''https://agent.drata.com''),
      adapter = (\<lambda>req.
        if axUrl req = ''/agentv2/init''
        then Inr (JObj [(''winAvServicesMatchList'', JArr [JStr ''av''])])
        else Inr (JObj [(''data'', JObj [(''lastcheckedAt'', JStr ''2026-01-02T00:00:00.000Z'')]),
                        (''winAvServicesMatchList'', JArr [JStr ''av''])])),
      toISOString = ''2026-01-02T00:00:00.000Z'',
      getSystemInfo = Inr [(''drataAgentVersion'', JStr ''3.9.0''), (''platform'', JStr ''LINUX''),
                           (''rawQueryResults'', JObj [])],
      getAgentDeviceIdentifiers = Inr (JObj [])\<rparr>"

definition backendDown :: tsenv where
  "backendDown = backendUp\<lparr>adapter := (\<lambda>req. Inl (Error ''connect ECONNREFUSED''))\<rparr>"

datatype step = Request string string | Persisted "jv option" | Collection | FailedWrite

definition steps :: "tsevent list \<Rightarrow> step list" where
  "steps es =
     map (\<lambda>e. case e of
                 FileWritten file \<Rightarrow> Persisted (map_of file ''syncState'')
               | FileWriteFailed \<Rightarrow> FailedWrite
               | HttpRequest req \<Rightarrow> Request (axMethod req) (axUrl req)
               | SystemQueried \<Rightarrow> Collection) es"

subsection \<open>The command \<open>configure\<close>\<close>

text \<open>
  \<open>loginWithMagicLink\<close> exchanges the registration token, stores the access token it
  gets, and fetches the profile. The user it stores keeps four properties of the
  profile; a property that the profile lacks is left out of the stored object.
\<close>

definition filteredUser :: "jv \<Rightarrow> jv" where
  "filteredUser user =
     JObj (concat (map (\<lambda>key. case member user key of Some v \<Rightarrow> [(key, v)] | None \<Rightarrow> [])
                     [''id'', ''email'', ''firstName'', ''lastName'']))"

definition loginWithMagicLink ::
  "tsenv \<Rightarrow> string \<Rightarrow> tsworld \<Rightarrow> (error + jv) \<times> tsworld" where
  "loginWithMagicLink env token w =
     (case axiosRequest env ''POST'' (''/auth/magic-link/'' @ token) None w of
        (Inl e, w1) \<Rightarrow> (Inl e, w1)
      | (Inr data, w1) \<Rightarrow>
          if isNil (Some data) then (Inl (Error ''Missing data from auth request.''), w1)
          else
     (case (if \<not> isNil (member data ''accessToken'')
            then set_config env ''accessToken'' (member data ''accessToken'') w1
            else (case remove env ''accessToken'' w1 of
                    (Some e, w2) \<Rightarrow> (Some e, w2)
                  | (None, w2) \<Rightarrow> remove env ''user'' w2)) of
        (Some e, w2) \<Rightarrow> (Inl e, w2)
      | (None, w2) \<Rightarrow>
     (case axiosRequest env ''GET'' ''/users/me'' None w2 of
        (Inl e, w3) \<Rightarrow> (Inl e, w3)
      | (Inr user, w3) \<Rightarrow>
          if isNil (Some user) then
            (case clearData env w3 of
               (Some e, w4) \<Rightarrow> (Inl e, w4)
             | (None, w4) \<Rightarrow>
            (case remove env ''accessToken'' w4 of
               (Some e, w5) \<Rightarrow> (Inl e, w5)
             | (None, w5) \<Rightarrow>
            (case remove env ''user'' w5 of
               (Some e, w6) \<Rightarrow> (Inl e, w6)
             | (None, w6) \<Rightarrow> (Inl (Error ''Missing data from get user info request.''), w6))))
          else
            (case set_config env ''user'' (Some (filteredUser user)) w3 of
               (Some e, w4) \<Rightarrow> (Inl e, w4)
             | (None, w4) \<Rightarrow> (Inr user, w4)))))"

definition register :: "tsenv \<Rightarrow> jv \<Rightarrow> tsworld \<Rightarrow> error option \<times> tsworld" where
  "register env agentDeviceIdentifiers w =
     (case axiosRequest env ''POST'' ''/agentv2/register'' (Some agentDeviceIdentifiers) w of
        (Inl e, w1) \<Rightarrow> (Some e, w1)
      | (Inr data, w1) \<Rightarrow>
          if isNil (Some data) then (Some (Error ''Missing data on register request.''), w1)
          else set_config env ''lastCheckedAt'' (member data ''lastCheckedAt'') w1)"

text \<open>
  What the person at the terminal answers to the prompts of \<open>configure\<close>, with
  JavaScript's \<open>trim\<close> on strings and the path of the configuration file.
\<close>

record terminal =
  confirmReconfigure :: bool
  inputToken :: string
  selectRegion :: jv
  stringTrim :: "string \<Rightarrow> string"
  configPath :: string

definition userEmail :: "CliConfig \<Rightarrow> string" where
  "userEmail cfg =
     (case get cfg ''user'' of
        None \<Rightarrow> ''Unknown''
      | Some JNull \<Rightarrow> ''Unknown''
      | Some user \<Rightarrow>
          if truthy (member user ''email'') then interpolate (member user ''email'')
          else ''Unknown'')"

text \<open>
  The \<open>try\<close> block of \<open>configure\<close>: authenticate, collect the device identifiers,
  register, report.
\<close>

definition registrationAttempt ::
  "tsenv \<Rightarrow> terminal \<Rightarrow> tsworld \<Rightarrow> error option \<times> tsworld" where
  "registrationAttempt env t w =
     (case loginWithMagicLink env (stringTrim t (inputToken t)) w of
        (Inl e, w1) \<Rightarrow> (Some e, w1)
      | (Inr user, w1) \<Rightarrow>
          (case getAgentDeviceIdentifiers env of
             Inl e \<Rightarrow> (Some e, w1\<lparr>trace := trace w1 @ [SystemQueried]\<rparr>)
           | Inr identifiers \<Rightarrow>
               (case register env identifiers
                       (w1\<lparr>trace := trace w1 @ [SystemQueried]\<rparr>) of
                  (Some e, w2) \<Rightarrow> (Some e, w2)
                | (None, w2) \<Rightarrow>
                    (None,
                     consoleLog (''  Config file: '' @ configPath t)
                       (consoleLog (''  Region: '' @ interpolate (Some (selectRegion t)))
                          (consoleLog (''  Email: '' @ userEmail (config w2))
                             (consoleLog ''Agent registered successfully!'' w2)))))))"

text \<open>
  The command. A registered agent is reconfigured only on confirmation, after its data
  is cleared. Region and version are stored before the attempt. An error thrown in the
  \<open>try\<close> block is caught: the command reports it, clears all data and exits with status
  1. The help text printed before the prompts is left out.
\<close>

definition configure :: "tsenv \<Rightarrow> terminal \<Rightarrow> tsworld \<Rightarrow> outcome \<times> tsworld" where
  "configure env t w =
     (if isRegistered (config w) \<and> \<not> confirmReconfigure t then
        (Returned,
         consoleLog ''Configuration unchanged.''
           (consoleLog (''Already registered as: '' @ userEmail (config w)) w))
      else
     (case (if isRegistered (config w)
            then (case clearData env
                         (consoleLog (''Already registered as: '' @ userEmail (config w)) w) of
                    (Some e, w1) \<Rightarrow> (Some e, w1)
                  | (None, w1) \<Rightarrow> (None, consoleLog ''Previous configuration cleared.'' w1))
            else (None, w)) of
        (Some e, w1) \<Rightarrow> (Threw e, w1)
      | (None, w1) \<Rightarrow>
     (case set_config env ''region'' (Some (selectRegion t)) w1 of
        (Some e, w2) \<Rightarrow> (Threw e, w2)
      | (None, w2) \<Rightarrow>
     (case set_config env ''appVersion'' (Some (JStr VERSION)) w2 of
        (Some e, w3) \<Rightarrow> (Threw e, w3)
      | (None, w3) \<Rightarrow>
     (case registrationAttempt env t w3 of
        (None, w4) \<Rightarrow> (Returned, w4)
      | (Some e, w4) \<Rightarrow>
          (case clearData env
                  (consoleLog (''  '' @ (if message e \<noteq> [] then message e else ''Unknown error''))
                     (consoleLog ''Registration failed:'' w4)) of
             (Some e', w5) \<Rightarrow> (Threw e', w5)
           | (None, w5) \<Rightarrow> (Exited 1, w5)))))))"

text \<open>
  A backend that exchanges the registration token and then rejects the profile request,
  and a person who enters a token and chooses the region NA.
\<close>

definition profileRejected :: tsenv where
  "profileRejected =
     backendUp\<lparr>adapter := (\<lambda>req.
        if axUrl req = ''/users/me'' then Inl (Error ''Request failed with status code 500'')
        else Inr (JObj [(''accessToken'', JStr ''token-1'')]))\<rparr>"

definition operator :: terminal where
  "operator =
     \<lparr>confirmReconfigure = False, inputToken = ''magic-1'', selectRegion = JStr ''NA'',
      stringTrim = (\<lambda>s. s), configPath = ''/home/alice/.drata-agent/config.json''\<rparr>"

section \<open>The desktop session user is resolved safely\<close>

lemma decode2_skipped:
  assumes "y \<in> set (take (snd (decode2 b r) - 1) r)"
  shows "0x80 \<le> y"
  using assms by (cases r) (auto simp: decode2_def isCont_def split: if_splits)

lemma decode3_width: "snd (decode3 b r) = 1 \<or>
    (\<exists>b1 b2 r2. r = b1 # b2 # r2 \<and> 0x80 \<le> b1 \<and> 0x80 \<le> b2 \<and> snd (decode3 b r) = 3)"
  by (auto simp: decode3_def isCont_def split: list.splits)

lemma decode3_skipped:
  assumes "y \<in> set (take (snd (decode3 b r) - 1) r)"
  shows "0x80 \<le> y"
  using assms decode3_width [of b r] by (auto simp: numeral_3_eq_3)

lemma decode4_width: "snd (decode4 b r) = 1 \<or>
    (\<exists>b1 b2 b3 r3. r = b1 # b2 # b3 # r3 \<and> 0x80 \<le> b1 \<and> 0x80 \<le> b2 \<and> 0x80 \<le> b3
       \<and> snd (decode4 b r) = 4)"
  by (auto simp: decode4_def isCont_def split: list.splits)

lemma decode4_skipped:
  assumes "y \<in> set (take (snd (decode4 b r) - 1) r)"
  shows "0x80 \<le> y"
proof -
  have four: "(4::nat) - 1 = Suc (Suc (Suc 0))" by simp
  show ?thesis
    using assms decode4_width [of b r] by (auto simp: four)
qed

lemma DecodeRune_skipped:
  assumes "y \<in> set (take (snd (DecodeRune (b # bs)) - 1) bs)"
  shows "0x80 \<le> y"
  using assms decode2_skipped [of y b bs] decode3_skipped [of y b bs] decode4_skipped [of y b bs]
  by (simp add: DecodeRune_def split: if_splits)


lemma allowedRunes_iff:
  "allowedRunes u rs \<longleftrightarrow> (\<forall>r\<in>set rs. IsLetter u r \<or> IsDigit u r \<or> r = 0x2D \<or> r = 0x5F)"
  by (induction rs) auto

lemma firstValidCandidate_find:
  "firstValidCandidate u cs = find (isValidSessionUser u) (map TrimSpace cs)"
  by (induction cs) auto

lemma DecodeRune_ascii: "b < 0x80 \<Longrightarrow> DecodeRune (b # bs) = (b, 1)"
  by (simp add: DecodeRune_def)

lemma ascii_in_rangeRunes:
  "x \<in> set bs \<Longrightarrow> x < 0x80 \<Longrightarrow> x \<in> set (rangeRunes bs)"
proof (induction bs rule: rangeRunes.induct)
  case 1
  then show ?case by simp
next
  case (2 b bs)
  show ?case
  proof (cases "x = b")
    case True
    with "2.prems" show ?thesis by (simp add: DecodeRune_ascii)
  next
    case False
    with "2.prems" have "x \<in> set bs" by simp
    then have "x \<in> set (take (snd (DecodeRune (b # bs)) - 1) bs)
               \<or> x \<in> set (drop (snd (DecodeRune (b # bs)) - 1) bs)"
      by (metis append_take_drop_id set_append Un_iff)
    with "2.prems" DecodeRune_skipped [of x b bs]
    have "x \<in> set (drop (snd (DecodeRune (b # bs)) - 1) bs)" by auto
    with "2.IH" "2.prems" show ?thesis by simp
  qed
qed

lemma TrimSpace_root: "TrimSpace ''root'' = ''root''"
  by code_simp

lemma TrimSpace_alice: "TrimSpace ''alice'' = ''alice''"
  by code_simp

lemma alice_valid: "isValidSessionUser u ''alice''"
  by (simp add: isValidSessionUser_def bytes_def DecodeRune_def IsLetter_def allowedRunes_iff)

lemma stripLeading_keeps:
  assumes "\<forall>q\<in>set seqs. c \<notin> set q" and "c \<in> set s"
  shows "c \<in> set (stripLeading seqs s)"
  using assms
proof (induction seqs s rule: stripLeading.induct)
  case (1 seqs s)
  show ?case
  proof (cases "find (\<lambda>q. q \<noteq> [] \<and> prefix q s) seqs")
    case None
    with "1.prems" show ?thesis
      by (subst stripLeading.simps) simp
  next
    case (Some q)
    then have q: "q \<in> set seqs" and "prefix q s"
      by (auto simp: find_Some_iff)
    then have "s = q @ drop (length q) s"
      by (auto simp: prefix_def)
    then have "set s = set q \<union> set (drop (length q) s)"
      by (metis set_append)
    with "1.prems" q have "c \<in> set (drop (length q) s)"
      by auto
    with "1.IH" [OF Some] "1.prems" have "c \<in> set (stripLeading seqs (drop (length q) s))"
      by simp
    with Some show ?thesis
      by (subst stripLeading.simps) simp
  qed
qed

lemma TrimSpace_keeps_semicolon:
  assumes "CHR '';'' \<in> set s"
  shows "CHR '';'' \<in> set (TrimSpace s)"
proof -
  have a: "\<forall>q\<in>set spaceSeqs. CHR '';'' \<notin> set q"
    by (simp add: spaceSeqs_def)
  then have b: "\<forall>q\<in>set (map rev spaceSeqs). CHR '';'' \<notin> set q"
    by simp
  from a assms have "CHR '';'' \<in> set (stripLeading spaceSeqs s)"
    by (rule stripLeading_keeps)
  then have "CHR '';'' \<in> set (rev (stripLeading spaceSeqs s))"
    by simp
  with b have "CHR '';'' \<in> set (stripLeading (map rev spaceSeqs) (rev (stripLeading spaceSeqs s)))"
    by (rule stripLeading_keeps)
  then show ?thesis
    by (simp add: TrimSpace_def)
qed

lemma has_semicolon_rejected:
  assumes "CHR '';'' \<in> set u"
  shows "\<not> isValidSessionUser env u"
proof -
  from assms have "of_char (CHR '';'') \<in> set (bytes u)"
    unfolding bytes_def set_map by (rule imageI)
  then have "(0x3B::nat) \<in> set (bytes u)" by simp
  then have "(0x3B::nat) \<in> set (rangeRunes (bytes u))"
    by (rule ascii_in_rangeRunes) simp
  moreover have "\<not> (IsLetter env (0x3B::nat) \<or> IsDigit env (0x3B::nat)
                    \<or> (0x3B::nat) = 0x2D \<or> (0x3B::nat) = 0x5F)"
    by (simp add: IsLetter_def IsDigit_def)
  ultimately have "\<not> allowedRunes env (rangeRunes (bytes u))"
    unfolding allowedRunes_iff by blast
  then show ?thesis
    by (simp add: isValidSessionUser_def)
qed

lemma sublist_semicolon: "sublist '';rm -rf'' u \<Longrightarrow> CHR '';'' \<in> set u"
  by (auto simp: sublist_def)

lemma getDesktopSessionUser_eq:
  "getDesktopSessionUser env c ivs =
     (case find (isValidSessionUser env)
             (map TrimSpace [getenv env ''SUDO_USER'', getenv env ''LOGNAME'', getenv env ''USER'']) of
        Some candidate \<Rightarrow> (candidate, ivs)
      | None \<Rightarrow>
          ((case fst (RunCommand env c ''logname'' ivs) of
              Inr output \<Rightarrow>
                if isValidSessionUser env (TrimSpace output) then TrimSpace output else []
            | Inl e \<Rightarrow> []),
           ivs @ [commandLine c ''logname'']))"
  unfolding getDesktopSessionUser_def firstValidCandidate_find
  by (simp add: RunCommand_def split: option.splits prod.splits execres.splits)

lemma root_then_alice:
  assumes "getenv env ''SUDO_USER'' = ''root''" and "getenv env ''LOGNAME'' = ''alice''"
  shows "getDesktopSessionUser env c ivs = (''alice'', ivs)"
  using assms
  by (simp add: getDesktopSessionUser_def TrimSpace_root TrimSpace_alice alice_valid
      isValidSessionUser_def [of env "''root''"])

text \<open>
  Claim C6. A candidate is accepted exactly when it is non-empty, is not \<open>root\<close> and
  consists of letters, digits, hyphens and underscores only. The resolver returns the first
  accepted one among the trimmed values of \<open>SUDO_USER\<close>, \<open>LOGNAME\<close> and \<open>USER\<close>, in
  that order, and only when none is accepted runs \<open>logname\<close>, whose trimmed output is
  returned if accepted and the empty string otherwise. With \<open>SUDO_USER=root\<close> and
  \<open>LOGNAME=alice\<close> the result is \<open>alice\<close>; a hint containing \<open>;rm -rf\<close> is rejected, before
  and after trimming.
\<close>

theorem session_user_resolution:
  "(isValidSessionUser env u \<longleftrightarrow>
      u \<noteq> [] \<and> u \<noteq> ''root''
      \<and> (\<forall>r\<in>set (rangeRunes (bytes u)). IsLetter env r \<or> IsDigit env r \<or> r = 0x2D \<or> r = 0x5F))
   \<and> getDesktopSessionUser env c ivs =
       (case find (isValidSessionUser env)
               (map TrimSpace
                  [getenv env ''SUDO_USER'', getenv env ''LOGNAME'', getenv env ''USER'']) of
          Some candidate \<Rightarrow> (candidate, ivs)
        | None \<Rightarrow>
            ((case fst (RunCommand env c ''logname'' ivs) of
                Inr output \<Rightarrow>
                  if isValidSessionUser env (TrimSpace output) then TrimSpace output else []
              | Inl e \<Rightarrow> []),
             ivs @ [commandLine c ''logname'']))
   \<and> (getenv env ''SUDO_USER'' = ''root'' \<and> getenv env ''LOGNAME'' = ''alice''
        \<longrightarrow> fst (getDesktopSessionUser env c ivs) = ''alice'')
   \<and> (sublist '';rm -rf'' h
        \<longrightarrow> \<not> isValidSessionUser env h \<and> \<not> isValidSessionUser env (TrimSpace h))"
proof (intro conjI impI)
  show "isValidSessionUser env u \<longleftrightarrow>
      u \<noteq> [] \<and> u \<noteq> ''root''
      \<and> (\<forall>r\<in>set (rangeRunes (bytes u)). IsLetter env r \<or> IsDigit env r \<or> r = 0x2D \<or> r = 0x5F)"
    by (simp add: isValidSessionUser_def allowedRunes_iff)
next
  show "getDesktopSessionUser env c ivs =
       (case find (isValidSessionUser env)
               (map TrimSpace
                  [getenv env ''SUDO_USER'', getenv env ''LOGNAME'', getenv env ''USER'']) of
          Some candidate \<Rightarrow> (candidate, ivs)
        | None \<Rightarrow>
            ((case fst (RunCommand env c ''logname'' ivs) of
                Inr output \<Rightarrow>
                  if isValidSessionUser env (TrimSpace output) then TrimSpace output else []
              | Inl e \<Rightarrow> []),
             ivs @ [commandLine c ''logname'']))"
    by (rule getDesktopSessionUser_eq)
next
  assume "getenv env ''SUDO_USER'' = ''root'' \<and> getenv env ''LOGNAME'' = ''alice''"
  then show "fst (getDesktopSessionUser env c ivs) = ''alice''"
    by (simp add: root_then_alice)
next
  assume "sublist '';rm -rf'' h"
  then have "CHR '';'' \<in> set h" by (rule sublist_semicolon)
  then show "\<not> isValidSessionUser env h"
    by (rule has_semicolon_rejected)
next
  assume "sublist '';rm -rf'' h"
  then have "CHR '';'' \<in> set h" by (rule sublist_semicolon)
  then have "CHR '';'' \<in> set (TrimSpace h)" by (rule TrimSpace_keeps_semicolon)
  then show "\<not> isValidSessionUser env (TrimSpace h)"
    by (rule has_semicolon_rejected)
qed

theorem session_user_resolution_witness:
  "getenv sessionHost ''SUDO_USER'' = ''root'' \<and> getenv sessionHost ''LOGNAME'' = ''alice''
   \<and> fst (getDesktopSessionUser sessionHost linuxClient []) = ''alice''
   \<and> sublist '';rm -rf'' ''x;rm -rf /''
   \<and> \<not> isValidSessionUser sessionHost ''x;rm -rf /''
   \<and> isValidSessionUser sessionHost ''alice''"
proof -
  have g: "getenv sessionHost ''SUDO_USER'' = ''root'' \<and> getenv sessionHost ''LOGNAME'' = ''alice''"
    by (simp add: sessionHost_def)
  have s: "sublist '';rm -rf'' ''x;rm -rf /''"
    by code_simp
  have v: "isValidSessionUser sessionHost ''alice''"
    by (rule alice_valid)
  note t = session_user_resolution [of sessionHost "''alice''" linuxClient "[]" "''x;rm -rf /''"]
  from t g have 1: "fst (getDesktopSessionUser sessionHost linuxClient []) = ''alice''"
    by blast
  from t s have 2: "\<not> isValidSessionUser sessionHost ''x;rm -rf /''"
    by blast
  from g s v 1 2 show ?thesis
    by blast
qed


section \<open>Distribution dispatch\<close>

lemma commandLine_eq [simp]: "commandLine c x = commandLine c y \<longleftrightarrow> x = y"
  by (simp add: commandLine_def)

lemma commandLine_osq [simp]: "commandLine c x \<noteq> osq c q" "osq c q \<noteq> commandLine c x"
  by (auto simp: commandLine_def osq_def)

lemma osq_eq [simp]: "osq c x = osq c y \<longleftrightarrow> x = y"
  by (simp add: osq_def)

lemma familyProbe_commandLine:
  "familyProbe c (commandLine c x) \<longleftrightarrow> x \<in> set (rpmCommands @ debianCommands)"
  by (auto simp: familyProbe_def)

lemma familyProbe_osq:
  "familyProbe c (osq c q) \<longleftrightarrow> q \<in> set (rpmQueries @ debianQueries)"
  by (auto simp: familyProbe_def)

lemma RunCommand_snd: "snd (RunCommand env c cmd ivs) = ivs @ [commandLine c cmd]"
  by (simp add: RunCommand_def split: prod.splits)

lemma RunQuery_snd: "snd (RunQuery env c q ivs) = ivs @ [osq c q]"
  by (simp add: RunQuery_def osq_def)

lemma queryFirst_snd: "snd (queryFirst env c q ivs) = ivs @ [osq c q]"
  using RunQuery_snd [of env c q ivs]
  by (auto simp: queryFirst_def split: prod.splits sum.splits list.splits)

lemma storeFirst_invoked: "invoked (storeFirst env c k q st) = invoked st @ [osq c q]"
  using queryFirst_snd [of env c q "invoked st"]
  by (auto simp: storeFirst_def split: prod.splits sum.splits option.splits)

lemmas family_defs = rpmCommands_def debianCommands_def rpmQueries_def debianQueries_def
  updateService_def rpmHistory_def aptDiagnostics_def dpkgClamav_def dpkgClamtk_def ufwQuery_def
  aptFileQuery_def

lemma fp_RunCommand:
  "filter (familyProbe c) (snd (RunCommand env c cmd ivs)) =
     filter (familyProbe c) ivs
     @ (if cmd \<in> set (rpmCommands @ debianCommands) then [commandLine c cmd] else [])"
  by (simp add: RunCommand_snd familyProbe_commandLine)

lemma fp_osq:
  "filter (familyProbe c) (ivs @ [osq c q]) =
     filter (familyProbe c) ivs
     @ (if q \<in> set (rpmQueries @ debianQueries) then [osq c q] else [])"
  by (simp add: familyProbe_osq)

lemma fp_storeFirst:
  "filter (familyProbe c) (invoked (storeFirst env c k q st)) =
     filter (familyProbe c) (invoked st)
     @ (if q \<in> set (rpmQueries @ debianQueries) then [osq c q] else [])"
  by (simp only: storeFirst_invoked fp_osq)

lemma systemInformation_invoked:
  "invoked (systemInformation env c st) =
     invoked st @ [osq c ''SELECT board_serial, board_model, computer_name, hostname, local_hostname FROM system_info'']"
proof -
  have "invoked (systemInformation env c st) =
          snd (queryFirst env c ''SELECT board_serial, board_model, computer_name, hostname, local_hostname FROM system_info'' (invoked st))"
    by (simp add: systemInformation_def split: prod.splits sum.splits option.splits)
  then show ?thesis
    by (simp only: queryFirst_snd)
qed

lemma fp_identityProbes:
  "filter (familyProbe c) (invoked (identityProbes env c st)) = filter (familyProbe c) (invoked st)"
  by (simp add: identityProbes_def systemInformation_invoked storeFirst_invoked
      familyProbe_osq family_defs)

lemma fp_firewallStatus:
  "filter (familyProbe c) (invoked (firewallStatus env c st)) =
     filter (familyProbe c) (invoked st)
     @ (if isRPMBasedDistro env then [commandLine c ''systemctl is-active firewalld'']
        else [osq c ufwQuery])"
proof (cases "isRPMBasedDistro env")
  case True
  have "invoked (firewallStatus env c st) =
          snd (RunCommand env c ''systemctl is-active firewalld'' (invoked st))"
    using True by (simp add: firewallStatus_def split: prod.splits sum.splits)
  with True show ?thesis
    by (simp add: fp_RunCommand rpmCommands_def)
next
  case False
  then show ?thesis
    by (simp add: firewallStatus_def fp_storeFirst debianQueries_def)
qed

lemma fp_applicationList:
  "filter (familyProbe c) (invoked (applicationList env c st)) =
     filter (familyProbe c) (invoked st)
     @ [osq c (if isRPMBasedDistro env then ''SELECT name, version FROM rpm_packages''
               else ''SELECT name, version FROM deb_packages'')]"
proof -
  have "invoked (applicationList env c st) =
          snd (RunQuery env c (if isRPMBasedDistro env then ''SELECT name, version FROM rpm_packages''
               else ''SELECT name, version FROM deb_packages'') (invoked st))"
    by (simp add: applicationList_def split: prod.splits sum.splits)
  then show ?thesis
    by (simp add: RunQuery_snd familyProbe_osq rpmQueries_def debianQueries_def)
qed

lemma packageProbe_snd: "snd (packageProbe env c k cmd s) = snd s @ [commandLine c cmd]"
proof -
  have "snd (packageProbe env c k cmd s) = snd (RunCommand env c cmd (snd s))"
    by (simp add: packageProbe_def split: prod.splits sum.splits)
  then show ?thesis by (simp only: RunCommand_snd)
qed

lemma fp_flatpakLoop:
  assumes "\<forall>x\<in>set scopes. snd x \<notin> set (rpmCommands @ debianCommands)"
  shows "filter (familyProbe c) (snd (flatpakLoop env c scopes s)) = filter (familyProbe c) (snd s)"
  using assms
proof (induction scopes arbitrary: s)
  case Nil
  then show ?case by simp
next
  case (Cons x scopes)
  obtain label command where x: "x = (label, command)" by (cases x)
  with Cons.prems have nf: "command \<notin> set (rpmCommands @ debianCommands)" by simp
  obtain r ivs where rc: "RunCommand env c command (snd s) = (r, ivs)" by (cases "RunCommand env c command (snd s)")
  then have "ivs = snd (RunCommand env c command (snd s))" by simp
  then have ivs: "filter (familyProbe c) ivs = filter (familyProbe c) (snd s)"
    using nf by (simp only: fp_RunCommand) simp
  from Cons.prems have ih: "\<And>s'. filter (familyProbe c) (snd (flatpakLoop env c scopes s')) = filter (familyProbe c) (snd s')"
    using Cons.IH by simp
  show ?case
    using x rc ivs ih [of "(fst s, ivs)"]
    by (simp split: sum.splits)
qed

lemma fp_antivirusCheck:
  "filter (familyProbe c) (invoked (antivirusCheck env c st)) =
     filter (familyProbe c) (invoked st)
     @ [commandLine c (if isRPMBasedDistro env then ''rpm -q clamav'' else dpkgClamav)]"
proof -
  have scopes: "\<forall>x\<in>set flatpakScopes. snd x \<notin> set (rpmCommands @ debianCommands)"
    by (simp add: flatpakScopes_def family_defs)
  have mem: "''rpm -q clamav'' \<in> set (rpmCommands @ debianCommands)"
    "dpkgClamav \<in> set (rpmCommands @ debianCommands)"
    by (simp_all add: rpmCommands_def debianCommands_def)
  show ?thesis
  proof (cases "isRPMBasedDistro env")
    case True
    with mem show ?thesis
      by (simp add: antivirusCheck_def Let_def fp_flatpakLoop [OF scopes] packageProbe_snd
          familyProbe_commandLine del: set_append)
  next
    case False
    with mem show ?thesis
      by (simp add: antivirusCheck_def Let_def fp_flatpakLoop [OF scopes] packageProbe_snd
          familyProbe_commandLine del: set_append)
  qed
qed

lemma fp_extensionsOf:
  assumes "q \<notin> set (rpmQueries @ debianQueries)"
  shows "filter (familyProbe c) (snd (extensionsOf env c dir q s)) = filter (familyProbe c) (snd s)"
proof (cases "stat env (Join env dir)")
  case True
  then have "snd (extensionsOf env c dir q s) = snd (RunQuery env c q (snd s))"
    by (simp add: extensionsOf_def split: prod.splits sum.splits)
  with assms show ?thesis
    by (simp add: RunQuery_snd familyProbe_osq)
next
  case False
  then show ?thesis by (simp add: extensionsOf_def)
qed

lemma fp_browserExtensions:
  "filter (familyProbe c) (invoked (browserExtensions env c st)) = filter (familyProbe c) (invoked st)"
proof -
  have a: "''SELECT name FROM firefox_addons'' \<notin> set (rpmQueries @ debianQueries)"
    by (simp add: family_defs)
  have b: "''SELECT name FROM chrome_extensions'' \<notin> set (rpmQueries @ debianQueries)"
    by (simp add: family_defs)
  show ?thesis
    by (simp add: browserExtensions_def Let_def fp_extensionsOf [OF a] fp_extensionsOf [OF b])
qed

lemma diagnostics_snd:
  "snd (diagnostics env c ds s) = snd s @ map (commandLine c) (map snd ds)"
proof (induction ds arbitrary: s)
  case Nil
  then show ?case by simp
next
  case (Cons d ds)
  obtain key command where d: "d = (key, command)" by (cases d)
  obtain r ivs where rc: "RunCommand env c command (snd s) = (r, ivs)"
    by (cases "RunCommand env c command (snd s)")
  then have "ivs = snd (RunCommand env c command (snd s))" by simp
  then have ivs: "ivs = snd s @ [commandLine c command]" by (simp only: RunCommand_snd)
  show ?case
    using d rc ivs Cons.IH by (simp split: sum.splits)
qed

lemma fp_getDesktopSessionUser:
  "filter (familyProbe c) (snd (getDesktopSessionUser env c ivs)) = filter (familyProbe c) ivs"
  by (simp add: getDesktopSessionUser_eq familyProbe_commandLine family_defs
      split: option.splits)

lemma fp_runGsettingsCommand:
  "filter (familyProbe c) (snd (runGsettingsCommand env c args ivs)) = filter (familyProbe c) ivs"
proof -
  obtain user ivs1 where u: "getDesktopSessionUser env c ivs = (user, ivs1)"
    by (cases "getDesktopSessionUser env c ivs")
  then have "ivs1 = snd (getDesktopSessionUser env c ivs)" by simp
  then have 1: "filter (familyProbe c) ivs1 = filter (familyProbe c) ivs"
    by (simp only: fp_getDesktopSessionUser)
  have base: "''gsettings '' @ args \<notin> set (rpmCommands @ debianCommands)"
    by (simp add: family_defs)
  have userCmd: "\<And>rest. ''uid=$(id -u '' @ rest \<notin> set (rpmCommands @ debianCommands)"
    by (simp add: family_defs)
  show ?thesis
  proof (cases "user = []")
    case True
    with u 1 base show ?thesis
      by (simp add: runGsettingsCommand_def fp_RunCommand del: set_append)
  next
    case False
    let ?uc = "''uid=$(id -u '' @ user @ '') && sudo -u '' @ user
                 @ '' env XDG_RUNTIME_DIR=/run/user/$uid DBUS_SESSION_BUS_ADDRESS=unix:path=/run/user/$uid/bus ''
                 @ ''gsettings '' @ args"
    obtain r ivs2 where rc: "RunCommand env c ?uc ivs1 = (r, ivs2)"
      by (cases "RunCommand env c ?uc ivs1")
    then have "ivs2 = snd (RunCommand env c ?uc ivs1)" by simp
    then have 2: "filter (familyProbe c) ivs2 = filter (familyProbe c) ivs1"
      using userCmd by (simp only: fp_RunCommand) simp
    show ?thesis
      using False u rc 1 2 base
      by (simp add: runGsettingsCommand_def fp_RunCommand del: set_append split: sum.splits)
  qed
qed

lemma fp_autoUpdate:
  "filter (familyProbe c) (invoked (autoUpdate env c st)) =
     filter (familyProbe c) (invoked st)
     @ map (commandLine c)
         (map snd (if isRPMBasedDistro env then updateService # rpmHistory else aptDiagnostics))"
proof -
  let ?ds = "if isRPMBasedDistro env then updateService # rpmHistory else aptDiagnostics"
  have all: "\<forall>x\<in>set (map snd ?ds). familyProbe c (commandLine c x)"
    by (simp add: familyProbe_commandLine rpmCommands_def debianCommands_def)
  have "invoked (autoUpdate env c st) =
          snd (runGsettingsCommand env c ''get org.gnome.software download-updates'' (invoked st))
          @ map (commandLine c) (map snd ?ds)"
    by (simp add: autoUpdate_def Let_def diagnostics_snd)
  moreover have "filter (familyProbe c) (map (commandLine c) (map snd ?ds))
                   = map (commandLine c) (map snd ?ds)"
    using all by (simp only: filter_id_conv set_map) blast
  ultimately show ?thesis
    by (simp only: filter_append fp_runGsettingsCommand)
qed

lemma fp_delaySetting:
  "filter (familyProbe c) (snd (delaySetting env c args k1 k2 s)) = filter (familyProbe c) (snd s)"
proof -
  have "snd (delaySetting env c args k1 k2 s) = snd (runGsettingsCommand env c args (snd s))"
    by (simp add: delaySetting_def split: prod.splits sum.splits)
  then show ?thesis
    by (simp only: fp_runGsettingsCommand)
qed

lemma fp_screenLockStatus:
  "filter (familyProbe c) (invoked (screenLockStatus env c st)) = filter (familyProbe c) (invoked st)"
  by (simp add: screenLockStatus_def Let_def fp_delaySetting)

lemma fp_locationServices:
  assumes "\<And>args ivs. filter (familyProbe c) (snd (run args ivs)) = filter (familyProbe c) ivs"
  shows "filter (familyProbe c) (invoked (locationServices run st)) = filter (familyProbe c) (invoked st)"
proof -
  have "invoked (locationServices run st) =
          snd (run ''get org.gnome.system.location enabled'' (invoked st))"
    by (simp add: locationServices_def split: prod.splits sum.splits)
  then show ?thesis
    by (simp only: assms)
qed

lemma fp_settingsDump:
  assumes "\<And>args ivs. filter (familyProbe c) (snd (run args ivs)) = filter (familyProbe c) ivs"
  shows "filter (familyProbe c) (snd (settingsDump run ds s)) = filter (familyProbe c) (snd s)"
proof (induction ds arbitrary: s)
  case Nil
  then show ?case by simp
next
  case (Cons d ds)
  obtain key args where d: "d = (key, args)" by (cases d)
  obtain r ivs where rc: "run args (snd s) = (r, ivs)" by (cases "run args (snd s)")
  then have "ivs = snd (run args (snd s))" by simp
  then have ivs: "filter (familyProbe c) ivs = filter (familyProbe c) (snd s)"
    by (simp only: assms)
  show ?case
    using d rc ivs Cons.IH by (simp split: sum.splits)
qed

lemma fp_screenLockSettings:
  assumes "\<And>args ivs. filter (familyProbe c) (snd (run args ivs)) = filter (familyProbe c) ivs"
  shows "filter (familyProbe c) (invoked (screenLockSettings run st)) = filter (familyProbe c) (invoked st)"
  by (simp add: screenLockSettings_def Let_def fp_settingsDump [OF assms] del: settingsDump.simps)

lemma fp_collectLinux:
  "filter (familyProbe c) (invoked (collectLinux env c st)) =
     filter (familyProbe c) (invoked st)
     @ (if isRPMBasedDistro env then rpmProbes c else debianProbes c)"
  unfolding collectLinux_def
  by (simp only: fp_screenLockSettings [OF fp_runGsettingsCommand]
      fp_locationServices [OF fp_runGsettingsCommand] fp_screenLockStatus fp_autoUpdate
      fp_storeFirst fp_browserExtensions fp_antivirusCheck fp_applicationList fp_firewallStatus
      fp_identityProbes)
    (simp add: rpmProbes_def debianProbes_def macQuery_def family_defs)

lemma fp_antivirusCheck_v1:
  "filter (familyProbe c) (invoked (antivirusCheck_v1 env c st)) =
     filter (familyProbe c) (invoked st)
     @ (if isRPMBasedDistro env then [commandLine c ''rpm -q clamtk'', commandLine c ''rpm -q clamav'']
        else [commandLine c dpkgClamtk, commandLine c dpkgClamav])"
proof -
  have mem: "''rpm -q clamav'' \<in> set (rpmCommands @ debianCommands)"
    "''rpm -q clamtk'' \<in> set (rpmCommands @ debianCommands)"
    "dpkgClamav \<in> set (rpmCommands @ debianCommands)"
    "dpkgClamtk \<in> set (rpmCommands @ debianCommands)"
    by (simp_all add: rpmCommands_def debianCommands_def)
  have flat: "''flatpak list --app | grep -i clam'' \<notin> set (rpmCommands @ debianCommands)"
    by (simp add: family_defs)
  have f: "\<And>s. filter (familyProbe c) (snd (flatpakProbe_v1 env c s)) = filter (familyProbe c) (snd s)"
  proof -
    fix s
    have "snd (flatpakProbe_v1 env c s) = snd (RunCommand env c ''flatpak list --app | grep -i clam'' (snd s))"
      by (simp add: flatpakProbe_v1_def split: prod.splits sum.splits)
    then show "filter (familyProbe c) (snd (flatpakProbe_v1 env c s)) = filter (familyProbe c) (snd s)"
      using flat by (simp only: fp_RunCommand) simp
  qed
  show ?thesis
  proof (cases "isRPMBasedDistro env")
    case True
    with mem show ?thesis
      by (simp add: antivirusCheck_v1_def Let_def f packageProbe_snd
          familyProbe_commandLine del: set_append)
  next
    case False
    with mem show ?thesis
      by (simp add: antivirusCheck_v1_def Let_def f packageProbe_snd
          familyProbe_commandLine del: set_append)
  qed
qed

lemma fp_bareGsettings:
  "filter (familyProbe c) (snd (bareGsettings env c args ivs)) = filter (familyProbe c) ivs"
proof -
  have "''gsettings '' @ args \<notin> set (rpmCommands @ debianCommands)"
    by (simp add: family_defs)
  then show ?thesis
    unfolding bareGsettings_def by (simp only: fp_RunCommand) simp
qed

lemma fp_diagnostics:
  "filter (familyProbe c) (snd (diagnostics env c ds s)) =
     filter (familyProbe c) (snd s)
     @ filter (\<lambda>i. i \<in> set (map (commandLine c) (rpmCommands @ debianCommands)))
         (map (commandLine c) (map snd ds))"
proof -
  have "\<And>x. familyProbe c (commandLine c x) = (commandLine c x \<in> set (map (commandLine c) (rpmCommands @ debianCommands)))"
    by (auto simp: familyProbe_commandLine)
  then have "filter (familyProbe c) (map (commandLine c) (map snd ds)) =
      filter (\<lambda>i. i \<in> set (map (commandLine c) (rpmCommands @ debianCommands)))
         (map (commandLine c) (map snd ds))"
    by (induction ds) auto
  then show ?thesis
    by (simp only: diagnostics_snd filter_append)
qed

lemma fp_commands:
  "filter (familyProbe c) (map (commandLine c) xs) =
     map (commandLine c) (filter (\<lambda>x. x \<in> set (rpmCommands @ debianCommands)) xs)"
  by (induction xs) (simp_all add: familyProbe_commandLine del: set_append)

lemma fp_autoUpdate_v1:
  "filter (familyProbe c) (invoked (autoUpdate_v1 env c st)) =
     filter (familyProbe c) (invoked st)
     @ (if isRPMBasedDistro env then map (commandLine c) (snd updateService # map snd rpmHistory)
        else osq c aptFileQuery # map (commandLine c) (map snd aptDiagnostics))"
proof (cases "isRPMBasedDistro env")
  case True
  have "invoked (autoUpdate_v1 env c st) =
          invoked st @ map (commandLine c)
            (snd updateService # ''gsettings get org.gnome.software download-updates''
               # map snd rpmHistory)"
    using True
    by (simp add: autoUpdate_v1_def Let_def diagnostics_snd RunCommand_snd
        del: diagnostics.simps)
  moreover have "filter (\<lambda>x. x \<in> set (rpmCommands @ debianCommands))
           (snd updateService # ''gsettings get org.gnome.software download-updates''
               # map snd rpmHistory) = snd updateService # map snd rpmHistory"
    by (simp add: family_defs)
  ultimately show ?thesis
    using True by (simp only: filter_append fp_commands if_True)
next
  case False
  have i: "invoked (autoUpdate_v1 env c st) =
          (invoked st @ [osq c aptFileQuery]) @ map (commandLine c) (map snd aptDiagnostics)"
    using False
    by (simp add: autoUpdate_v1_def Let_def diagnostics_snd storeFirst_invoked
        del: diagnostics.simps)
  have d: "filter (\<lambda>x. x \<in> set (rpmCommands @ debianCommands)) (map snd aptDiagnostics)
      = map snd aptDiagnostics"
    by (simp add: family_defs)
  have q: "filter (familyProbe c) [osq c aptFileQuery] = [osq c aptFileQuery]"
    by (simp add: familyProbe_osq debianQueries_def)
  have "filter (familyProbe c) (invoked (autoUpdate_v1 env c st)) =
          (filter (familyProbe c) (invoked st) @ [osq c aptFileQuery])
          @ map (commandLine c) (map snd aptDiagnostics)"
    by (simp only: i filter_append fp_commands d q)
  with False show ?thesis
    by simp
qed

lemma fp_screenLockStatus_v1:
  "filter (familyProbe c) (invoked (screenLockStatus_v1 env c st)) = filter (familyProbe c) (invoked st)"
  by (simp add: screenLockStatus_v1_def Let_def diagnostics_snd familyProbe_commandLine family_defs
      del: diagnostics.simps)

lemma fp_collectLinux_v1:
  "filter (familyProbe c) (invoked (collectLinux_v1 env c st)) =
     filter (familyProbe c) (invoked st)
     @ (if isRPMBasedDistro env then rpmProbes_v1 c else debianProbes_v1 c)"
  unfolding collectLinux_v1_def
  by (simp only: fp_screenLockSettings [OF fp_bareGsettings]
      fp_locationServices [OF fp_bareGsettings] fp_screenLockStatus_v1 fp_autoUpdate_v1
      fp_storeFirst fp_browserExtensions fp_antivirusCheck_v1 fp_applicationList fp_firewallStatus
      fp_identityProbes)
    (simp add: rpmProbes_v1_def debianProbes_v1_def macQuery_def family_defs)

lemma isRPMBasedDistro_iff:
  "isRPMBasedDistro env \<longleftrightarrow>
     stat env ''/etc/redhat-release'' \<or> stat env ''/etc/fedora-release''
     \<or> stat env ''/usr/bin/dnf'' \<or> stat env ''/usr/bin/yum''"
  by (simp add: isRPMBasedDistro_def)

text \<open>
  Claim C8. \<open>isRPMBasedDistro\<close> answers yes exactly when one of the four markers exists.
  Among the processes a collection starts, those that belong to one distribution family
  only are exactly the RPM-family probes when it answers yes and exactly the Debian-family
  probes otherwise, in both variants of the collection. A host with a release file and no
  package-manager binary gets the RPM-family probes.
\<close>

theorem distro_dispatch:
  "(isRPMBasedDistro env \<longleftrightarrow>
      stat env ''/etc/redhat-release'' \<or> stat env ''/etc/fedora-release''
      \<or> stat env ''/usr/bin/dnf'' \<or> stat env ''/usr/bin/yum'')
   \<and> filter (familyProbe c) (snd (getLinuxSystemInfo env c version [])) =
       (if isRPMBasedDistro env then rpmProbes c else debianProbes c)
   \<and> filter (familyProbe c) (snd (getLinuxSystemInfo_v1 env c version [])) =
       (if isRPMBasedDistro env then rpmProbes_v1 c else debianProbes_v1 c)
   \<and> ((stat env ''/etc/redhat-release'' \<or> stat env ''/etc/fedora-release'')
        \<and> \<not> stat env ''/usr/bin/dnf'' \<and> \<not> stat env ''/usr/bin/yum''
        \<longrightarrow> filter (familyProbe c) (snd (getLinuxSystemInfo env c version [])) = rpmProbes c
            \<and> filter (familyProbe c) (snd (getLinuxSystemInfo_v1 env c version [])) = rpmProbes_v1 c)"
proof -
  have a: "filter (familyProbe c) (snd (getLinuxSystemInfo env c version [])) =
       (if isRPMBasedDistro env then rpmProbes c else debianProbes c)"
    by (simp add: getLinuxSystemInfo_def Let_def fp_collectLinux)
  have b: "filter (familyProbe c) (snd (getLinuxSystemInfo_v1 env c version [])) =
       (if isRPMBasedDistro env then rpmProbes_v1 c else debianProbes_v1 c)"
    by (simp add: getLinuxSystemInfo_v1_def Let_def fp_collectLinux_v1)
  show ?thesis
    unfolding a b by (simp add: isRPMBasedDistro_iff)
qed

theorem distro_dispatch_witness:
  "stat fedoraHost ''/etc/fedora-release''
   \<and> \<not> stat fedoraHost ''/usr/bin/dnf'' \<and> \<not> stat fedoraHost ''/usr/bin/yum''
   \<and> isRPMBasedDistro fedoraHost
   \<and> filter (familyProbe linuxClient) (snd (getLinuxSystemInfo fedoraHost linuxClient ''3.9.0-cli'' []))
       = rpmProbes linuxClient
   \<and> \<not> isRPMBasedDistro sessionHost
   \<and> filter (familyProbe linuxClient) (snd (getLinuxSystemInfo sessionHost linuxClient ''3.9.0-cli'' []))
       = debianProbes linuxClient"
proof -
  have s: "stat fedoraHost ''/etc/fedora-release''
     \<and> \<not> stat fedoraHost ''/usr/bin/dnf'' \<and> \<not> stat fedoraHost ''/usr/bin/yum''"
    by (simp add: fedoraHost_def)
  have n: "\<not> (stat sessionHost ''/etc/redhat-release'' \<or> stat sessionHost ''/etc/fedora-release''
      \<or> stat sessionHost ''/usr/bin/dnf'' \<or> stat sessionHost ''/usr/bin/yum'')"
    by (simp add: sessionHost_def)
  note f = distro_dispatch [of fedoraHost linuxClient "''3.9.0-cli''"]
  note d = distro_dispatch [of sessionHost linuxClient "''3.9.0-cli''"]
  from f s have 1: "isRPMBasedDistro fedoraHost" by blast
  from f s have 2: "filter (familyProbe linuxClient)
      (snd (getLinuxSystemInfo fedoraHost linuxClient ''3.9.0-cli'' [])) = rpmProbes linuxClient"
    by blast
  from d n have 3: "\<not> isRPMBasedDistro sessionHost" by blast
  with d have 4: "filter (familyProbe linuxClient)
      (snd (getLinuxSystemInfo sessionHost linuxClient ''3.9.0-cli'' [])) = debianProbes linuxClient"
    by simp
  from s 1 2 3 4 show ?thesis by blast
qed

section \<open>The antivirus verdict\<close>

lemma RunCommand_fst: "fst (RunCommand env c cmd ivs) = fst (RunCommand env c cmd [])"
  by (simp add: RunCommand_def split: prod.splits)

lemma RunCommand_cases:
  obtains out where "RunCommand env c cmd ivs = (Inr out, ivs @ [commandLine c cmd])"
      and "fst (RunCommand env c cmd []) = Inr out"
    | e where "RunCommand env c cmd ivs = (Inl e, ivs @ [commandLine c cmd])"
      and "fst (RunCommand env c cmd []) = Inl e"
proof (cases "fst (RunCommand env c cmd [])")
  case (Inl e)
  then have "fst (RunCommand env c cmd ivs) = Inl e" by (simp only: RunCommand_fst [of env c cmd ivs])
  then have "RunCommand env c cmd ivs = (Inl e, ivs @ [commandLine c cmd])"
    using RunCommand_snd [of env c cmd ivs] by (cases "RunCommand env c cmd ivs") simp
  with Inl that show ?thesis by blast
next
  case (Inr out)
  then have "fst (RunCommand env c cmd ivs) = Inr out" by (simp only: RunCommand_fst [of env c cmd ivs])
  then have "RunCommand env c cmd ivs = (Inr out, ivs @ [commandLine c cmd])"
    using RunCommand_snd [of env c cmd ivs] by (cases "RunCommand env c cmd ivs") simp
  with Inr that show ?thesis by blast
qed

lemma map_of_setKey: "map_of (setKey k v m) = (map_of m)(k \<mapsto> v)"
  by (induction m) auto

lemma packageProbe_passed:
  assumes "key \<noteq> ''passed''"
  shows "map_of (fst (packageProbe env c key cmd s)) ''passed'' =
     (if reportsProduct env c cmd then Some (JBool True) else map_of (fst s) ''passed'')"
proof (rule RunCommand_cases [of env c cmd "snd s"])
  fix out
  assume "RunCommand env c cmd (snd s) = (Inr out, snd s @ [commandLine c cmd])"
    and "fst (RunCommand env c cmd []) = Inr out"
  then show ?thesis
    by (simp add: packageProbe_def reportsProduct_def map_of_setKey)
next
  fix e
  assume "RunCommand env c cmd (snd s) = (Inl e, snd s @ [commandLine c cmd])"
    and "fst (RunCommand env c cmd []) = Inl e"
  then show ?thesis
    by (simp add: packageProbe_def reportsProduct_def)
qed

lemma flatpakLoop_passed:
  "map_of (fst (flatpakLoop env c scopes s)) ''passed'' =
     (if \<exists>x\<in>set scopes. reportsProduct env c (snd x) then Some (JBool True)
      else map_of (fst s) ''passed'')"
proof (induction scopes arbitrary: s)
  case Nil
  then show ?case by simp
next
  case (Cons x scopes)
  obtain label command where x: "x = (label, command)" by (cases x)
  show ?case
  proof (rule RunCommand_cases [of env c command "snd s"])
    fix out
    assume "RunCommand env c command (snd s) = (Inr out, snd s @ [commandLine c command])"
      and "fst (RunCommand env c command []) = Inr out"
    then show ?thesis
      using x Cons.IH by (simp add: reportsProduct_def map_of_setKey)
  next
    fix e
    assume "RunCommand env c command (snd s) = (Inl e, snd s @ [commandLine c command])"
      and "fst (RunCommand env c command []) = Inl e"
    then show ?thesis
      using x Cons.IH by (simp add: reportsProduct_def)
  qed
qed

lemma flatpakProbe_v1_passed:
  "map_of (fst (flatpakProbe_v1 env c s)) ''passed'' =
     (if reportsProduct env c ''flatpak list --app | grep -i clam'' then Some (JBool True)
      else map_of (fst s) ''passed'')"
proof (rule RunCommand_cases [of env c "''flatpak list --app | grep -i clam''" "snd s"])
  fix out
  assume "RunCommand env c ''flatpak list --app | grep -i clam'' (snd s) =
      (Inr out, snd s @ [commandLine c ''flatpak list --app | grep -i clam''])"
    and "fst (RunCommand env c ''flatpak list --app | grep -i clam'' []) = Inr out"
  then show ?thesis
    by (simp add: flatpakProbe_v1_def reportsProduct_def map_of_setKey)
next
  fix e
  assume "RunCommand env c ''flatpak list --app | grep -i clam'' (snd s) =
      (Inl e, snd s @ [commandLine c ''flatpak list --app | grep -i clam''])"
    and "fst (RunCommand env c ''flatpak list --app | grep -i clam'' []) = Inl e"
  then show ?thesis
    by (simp add: flatpakProbe_v1_def reportsProduct_def)
qed

lemma antivirusCheck_passed:
  "antivirusPassed (rawResults (antivirusCheck env c st)) =
     Some (JBool (\<exists>cmd\<in>set (antivirusProbes env). reportsProduct env c cmd))"
  by (simp add: antivirusPassed_def antivirusCheck_def Let_def flatpakLoop_passed
      packageProbe_passed antivirusProbes_def del: flatpakLoop.simps)

lemma antivirusCheck_v1_passed:
  "antivirusPassed (rawResults (antivirusCheck_v1 env c st)) =
     Some (JBool (\<exists>cmd\<in>set (antivirusProbes_v1 env). reportsProduct env c cmd))"
  by (auto simp add: antivirusPassed_def antivirusCheck_v1_def Let_def flatpakProbe_v1_passed
      packageProbe_passed antivirusProbes_v1_def)

lemma storeFirst_other:
  "k' \<noteq> k \<Longrightarrow> rawResults (storeFirst env c k q st) k' = rawResults st k'"
  by (simp add: storeFirst_def split: prod.splits sum.splits option.splits)

lemma systemInformation_other:
  "k' \<notin> {''boardSerial'', ''boardModel'', ''computerName'', ''hostName'', ''localHostName''}
   \<Longrightarrow> rawResults (systemInformation env c st) k' = rawResults st k'"
  by (simp add: systemInformation_def split: prod.splits sum.splits option.splits)

lemma identityProbes_other:
  "k' \<notin> {''osVersion'', ''hwSerial'', ''hwModel'', ''boardSerial'', ''boardModel'',
          ''computerName'', ''hostName'', ''localHostName''}
   \<Longrightarrow> rawResults (identityProbes env c st) k' = rawResults st k'"
  by (simp add: identityProbes_def systemInformation_other storeFirst_other)

lemma firewallStatus_other:
  "k' \<noteq> ''firewallStatus'' \<Longrightarrow> rawResults (firewallStatus env c st) k' = rawResults st k'"
  by (simp add: firewallStatus_def storeFirst_other split: prod.splits sum.splits)

lemma applicationList_other:
  "k' \<noteq> ''appList'' \<Longrightarrow> rawResults (applicationList env c st) k' = rawResults st k'"
  by (simp add: applicationList_def split: prod.splits sum.splits)

lemma antivirusCheck_other:
  "k' \<noteq> ''antivirusStatus'' \<Longrightarrow> rawResults (antivirusCheck env c st) k' = rawResults st k'"
  by (simp add: antivirusCheck_def Let_def)

lemma antivirusCheck_v1_other:
  "k' \<noteq> ''antivirusStatus'' \<Longrightarrow> rawResults (antivirusCheck_v1 env c st) k' = rawResults st k'"
  by (simp add: antivirusCheck_v1_def Let_def)

lemma browserExtensions_other:
  "k' \<noteq> ''browserExtensions'' \<Longrightarrow> rawResults (browserExtensions env c st) k' = rawResults st k'"
  by (simp add: browserExtensions_def Let_def)

lemma recordGnomeSetting_other:
  "k' \<noteq> ''autoUpdateEnabled'' \<Longrightarrow> fst (recordGnomeSetting r s) k' = fst s k'"
  by (simp add: recordGnomeSetting_def split: sum.splits)

lemma autoUpdate_other:
  "k' \<notin> {''autoUpdateEnabled'', ''autoUpdateSettings''}
   \<Longrightarrow> rawResults (autoUpdate env c st) k' = rawResults st k'"
  by (simp add: autoUpdate_def Let_def recordGnomeSetting_other)

lemma autoUpdate_v1_other:
  "k' \<notin> {''autoUpdateEnabled'', ''autoUpdateSettings''}
   \<Longrightarrow> rawResults (autoUpdate_v1 env c st) k' = rawResults st k'"
  by (simp add: autoUpdate_v1_def Let_def recordGnomeSetting_other storeFirst_other)

lemma screenLockStatus_other:
  "k' \<noteq> ''screenLockStatus'' \<Longrightarrow> rawResults (screenLockStatus env c st) k' = rawResults st k'"
  by (simp add: screenLockStatus_def Let_def)

lemma screenLockStatus_v1_other:
  "k' \<noteq> ''screenLockStatus'' \<Longrightarrow> rawResults (screenLockStatus_v1 env c st) k' = rawResults st k'"
  by (simp add: screenLockStatus_v1_def Let_def)

lemma locationServices_other:
  "k' \<noteq> ''locationServices'' \<Longrightarrow> rawResults (locationServices run st) k' = rawResults st k'"
  by (simp add: locationServices_def split: prod.splits sum.splits)

lemma screenLockSettings_other:
  "k' \<noteq> ''screenLockSettings'' \<Longrightarrow> rawResults (screenLockSettings run st) k' = rawResults st k'"
  by (simp add: screenLockSettings_def Let_def)

lemmas later_probes_other = screenLockSettings_other locationServices_other
  screenLockStatus_other screenLockStatus_v1_other autoUpdate_other autoUpdate_v1_other
  storeFirst_other browserExtensions_other

lemma collectLinux_antivirus:
  "rawResults (collectLinux env c st) ''antivirusStatus'' =
     rawResults (antivirusCheck env c
       (applicationList env c (firewallStatus env c (identityProbes env c st)))) ''antivirusStatus''"
  by (simp add: collectLinux_def later_probes_other macQuery_def)

lemma collectLinux_v1_antivirus:
  "rawResults (collectLinux_v1 env c st) ''antivirusStatus'' =
     rawResults (antivirusCheck_v1 env c
       (applicationList env c (firewallStatus env c (identityProbes env c st)))) ''antivirusStatus''"
  by (simp add: collectLinux_v1_def later_probes_other macQuery_def)

text \<open>
  Claim C4. In the snapshot, \<open>antivirusStatus.passed\<close> is \<open>true\<close> exactly when at least
  one installed-product probe (the package-manager queries of the host's family and the
  Flatpak listings) returns without error and with non-empty output, and \<open>false\<close> when
  every probe fails or prints nothing. This holds for both variants of the collection.
\<close>

theorem antivirus_passed_iff_some_probe:
  "(case fst (getLinuxSystemInfo env c version ivs) of
      Inr q \<Rightarrow> antivirusPassed (RawQueryResults q) =
                 Some (JBool (\<exists>cmd\<in>set (antivirusProbes env). reportsProduct env c cmd))
    | Inl e \<Rightarrow> False)
   \<and> (case fst (getLinuxSystemInfo_v1 env c version ivs) of
        Inr q \<Rightarrow> antivirusPassed (RawQueryResults q) =
                   Some (JBool (\<exists>cmd\<in>set (antivirusProbes_v1 env). reportsProduct env c cmd))
      | Inl e \<Rightarrow> False)"
proof -
  have a: "antivirusPassed (rawResults (collectLinux env c \<lparr>rawResults = Map.empty, invoked = ivs\<rparr>))
      = Some (JBool (\<exists>cmd\<in>set (antivirusProbes env). reportsProduct env c cmd))"
    unfolding antivirusPassed_def collectLinux_antivirus
    by (rule antivirusCheck_passed [unfolded antivirusPassed_def])
  have b: "antivirusPassed (rawResults (collectLinux_v1 env c \<lparr>rawResults = Map.empty, invoked = ivs\<rparr>))
      = Some (JBool (\<exists>cmd\<in>set (antivirusProbes_v1 env). reportsProduct env c cmd))"
    unfolding antivirusPassed_def collectLinux_v1_antivirus
    by (rule antivirusCheck_v1_passed [unfolded antivirusPassed_def])
  show ?thesis
    by (simp add: getLinuxSystemInfo_def getLinuxSystemInfo_v1_def Let_def a b)
qed

lemma clamHost_probe:
  "reportsProduct clamHost linuxClient ''flatpak list --app --user | grep -i clam''"
  by (simp add: reportsProduct_def RunCommand_def commandLine_def clamHost_def linuxClient_def
      PlatformLinux_def PlatformWindows_def)
    code_simp

lemma sessionHost_no_probe: "\<not> reportsProduct sessionHost linuxClient cmd"
  by (simp add: reportsProduct_def RunCommand_def sessionHost_def split: prod.splits)

theorem antivirus_passed_iff_some_probe_witness:
  "(case fst (getLinuxSystemInfo clamHost linuxClient ''3.9.0-cli'' []) of
      Inr q \<Rightarrow> antivirusPassed (RawQueryResults q) = Some (JBool True) | Inl e \<Rightarrow> False)
   \<and> (case fst (getLinuxSystemInfo sessionHost linuxClient ''3.9.0-cli'' []) of
      Inr q \<Rightarrow> antivirusPassed (RawQueryResults q) = Some (JBool False) | Inl e \<Rightarrow> False)"
proof -
  have 1: "\<exists>cmd\<in>set (antivirusProbes clamHost). reportsProduct clamHost linuxClient cmd"
    using clamHost_probe by (simp add: antivirusProbes_def flatpakScopes_def)
  have 2: "\<not> (\<exists>cmd\<in>set (antivirusProbes sessionHost). reportsProduct sessionHost linuxClient cmd)"
    by (simp add: sessionHost_no_probe)
  from antivirus_passed_iff_some_probe [of clamHost linuxClient "''3.9.0-cli''" "[]"] 1
    antivirus_passed_iff_some_probe [of sessionHost linuxClient "''3.9.0-cli''" "[]"] 2
  show ?thesis
    by (simp split: sum.splits)
qed

section \<open>The automatic-update flag\<close>

lemma RunCommand_eq:
  "RunCommand env c cmd ivs = (commandResult env c cmd, ivs @ [commandLine c cmd])"
  by (simp add: commandResult_def RunCommand_def split: prod.splits)

lemma getDesktopSessionUser_fst:
  "fst (getDesktopSessionUser env c ivs) = sessionUser env c"
  by (simp add: sessionUser_def getDesktopSessionUser_def RunCommand_eq
      split: option.splits sum.splits)

lemma runGsettingsCommand_fst:
  "fst (runGsettingsCommand env c args ivs) = gsettingsResult env c args"
proof -
  obtain i1 where a: "getDesktopSessionUser env c ivs = (sessionUser env c, i1)"
    using getDesktopSessionUser_fst [of env c ivs] by (cases "getDesktopSessionUser env c ivs") simp
  obtain i2 where b: "getDesktopSessionUser env c [] = (sessionUser env c, i2)"
    using getDesktopSessionUser_fst [of env c "[]"] by (cases "getDesktopSessionUser env c []") simp
  show ?thesis
    by (simp add: gsettingsResult_def runGsettingsCommand_def Let_def a b RunCommand_eq
        split: sum.splits)
qed

lemma recordGnomeSetting_enabled:
  "fst (recordGnomeSetting r s) ''autoUpdateEnabled'' =
     (if r = Inr ''true'' then Some (JObj [(''passed'', JNum 1)]) else fst s ''autoUpdateEnabled'')"
  by (simp add: recordGnomeSetting_def split: sum.splits)

lemma recordGnomeSetting_snd: "snd (recordGnomeSetting r s) = snd s @ gnomeEntry r"
  by (simp add: recordGnomeSetting_def gnomeEntry_def split: sum.splits)

lemma diagnostics_fst:
  "fst (diagnostics env c ds s) = fst s @ diagnosticEntries env c ds"
proof (induction ds arbitrary: s)
  case Nil
  then show ?case by (simp add: diagnosticEntries_def)
next
  case (Cons d ds)
  obtain key command where d: "d = (key, command)" by (cases d)
  have e: "diagnosticEntries env c (d # ds) =
      (case commandResult env c command of Inr out \<Rightarrow> [JObj [(key, JStr out)]] | Inl e \<Rightarrow> [])
      @ diagnosticEntries env c ds"
    by (simp add: diagnosticEntries_def d commandResult_def split: sum.splits)
  show ?case
    unfolding e using Cons.IH
    by (simp add: d RunCommand_eq split: sum.splits)
qed

lemma autoUpdate_enabled:
  "rawResults (autoUpdate env c st) ''autoUpdateEnabled'' =
     (if gsettingsResult env c gnomeProbe = Inr ''true'' then Some (JObj [(''passed'', JNum 1)])
      else rawResults st ''autoUpdateEnabled'')"
  by (simp add: autoUpdate_def Let_def recordGnomeSetting_enabled runGsettingsCommand_fst
      gnomeProbe_def)

lemma autoUpdate_settings:
  "rawResults (autoUpdate env c st) ''autoUpdateSettings'' =
     Some (JArr (gnomeEntry (gsettingsResult env c gnomeProbe)
                 @ diagnosticEntries env c
                     (if isRPMBasedDistro env then updateService # rpmHistory else aptDiagnostics)))"
  by (simp add: autoUpdate_def Let_def recordGnomeSetting_snd runGsettingsCommand_fst
      gnomeProbe_def diagnostics_fst del: diagnostics.simps)

lemma autoUpdate_v1_enabled:
  "rawResults (autoUpdate_v1 env c st) ''autoUpdateEnabled'' =
     (if isRPMBasedDistro env then
        (if commandResult env c gnomeCommand = Inr ''true''
         then Some (JObj [(''passed'', JNum 1)]) else rawResults st ''autoUpdateEnabled'')
      else rawResults (storeFirst env c ''autoUpdateEnabled'' aptFileQuery st) ''autoUpdateEnabled'')"
  by (simp add: autoUpdate_v1_def Let_def recordGnomeSetting_enabled RunCommand_eq gnomeCommand_def
      del: diagnostics.simps)

lemma queryFirst_fst: "fst (queryFirst env c q ivs) = firstRow env c q"
  by (simp add: firstRow_def queryFirst_def RunQuery_def split: execres.splits option.splits list.splits)

lemma storeFirst_value:
  "rawResults (storeFirst env c k q st) k =
     (case firstRow env c q of Inr (Some r) \<Rightarrow> Some (JObj r) | _ \<Rightarrow> rawResults st k)"
proof -
  obtain r ivs where q: "queryFirst env c q (invoked st) = (r, ivs)"
    by (cases "queryFirst env c q (invoked st)")
  with queryFirst_fst [of env c q "invoked st"] have "r = firstRow env c q" by simp
  with q show ?thesis
    by (simp add: storeFirst_def split: sum.splits option.splits)
qed

lemma before_autoUpdate_other:
  assumes "k' = ''autoUpdateEnabled'' \<or> k' = ''autoUpdateSettings''"
  shows "rawResults (storeFirst env c ''macAddress'' macQuery
           (browserExtensions env c (av
              (applicationList env c (firewallStatus env c (identityProbes env c st)))))) k'
         = rawResults (av (applicationList env c (firewallStatus env c (identityProbes env c st)))) k'"
  using assms by (auto simp: storeFirst_other browserExtensions_other)

lemma early_probes_other:
  assumes "k' = ''autoUpdateEnabled'' \<or> k' = ''autoUpdateSettings''"
  shows "rawResults (applicationList env c (firewallStatus env c (identityProbes env c st))) k'
         = rawResults st k'"
  using assms by (auto simp: applicationList_other firewallStatus_other identityProbes_other)

lemma collectLinux_enabled:
  "rawResults (collectLinux env c \<lparr>rawResults = Map.empty, invoked = ivs\<rparr>) ''autoUpdateEnabled''
     = autoUpdateVerdict (gsettingsResult env c gnomeProbe)"
  by (simp add: collectLinux_def screenLockSettings_other locationServices_other
      screenLockStatus_other autoUpdate_enabled before_autoUpdate_other antivirusCheck_other
      early_probes_other autoUpdateVerdict_def)

lemma collectLinux_settings:
  "rawResults (collectLinux env c \<lparr>rawResults = Map.empty, invoked = ivs\<rparr>) ''autoUpdateSettings''
     = Some (JArr (gnomeEntry (gsettingsResult env c gnomeProbe)
                 @ diagnosticEntries env c
                     (if isRPMBasedDistro env then updateService # rpmHistory else aptDiagnostics)))"
  by (simp add: collectLinux_def screenLockSettings_other locationServices_other
      screenLockStatus_other autoUpdate_settings)

lemma collectLinux_v1_enabled:
  "rawResults (collectLinux_v1 env c \<lparr>rawResults = Map.empty, invoked = ivs\<rparr>) ''autoUpdateEnabled''
     = (if isRPMBasedDistro env
        then autoUpdateVerdict (commandResult env c gnomeCommand)
        else (case firstRow env c aptFileQuery of Inr (Some r) \<Rightarrow> Some (JObj r) | _ \<Rightarrow> None))"
proof -
  let ?st = "storeFirst env c ''macAddress'' macQuery
           (browserExtensions env c (antivirusCheck_v1 env c
              (applicationList env c (firewallStatus env c
                 (identityProbes env c \<lparr>rawResults = Map.empty, invoked = ivs\<rparr>)))))"
  have e: "rawResults ?st ''autoUpdateEnabled'' = None"
    by (simp add: before_autoUpdate_other antivirusCheck_v1_other early_probes_other)
  have "rawResults (collectLinux_v1 env c \<lparr>rawResults = Map.empty, invoked = ivs\<rparr>) ''autoUpdateEnabled''
      = rawResults (autoUpdate_v1 env c ?st) ''autoUpdateEnabled''"
    by (simp add: collectLinux_v1_def screenLockSettings_other locationServices_other
      screenLockStatus_v1_other)
  then show ?thesis
    by (simp add: autoUpdate_v1_enabled storeFirst_value e autoUpdateVerdict_def
        split: sum.splits option.splits)
qed

lemma extensionsOf_snd:
  "snd (extensionsOf env c dir q s) = snd s @ (if stat env (Join env dir) then [osq c q] else [])"
proof (cases "stat env (Join env dir)")
  case True
  then have "snd (extensionsOf env c dir q s) = snd (RunQuery env c q (snd s))"
    by (simp add: extensionsOf_def split: prod.splits sum.splits)
  with True show ?thesis by (simp add: RunQuery_snd)
next
  case False
  then show ?thesis by (simp add: extensionsOf_def)
qed

lemma gnome_osq [simp]:
  "commandLine c gnomeCommand \<in> set (ivs @ [osq c q]) \<longleftrightarrow> commandLine c gnomeCommand \<in> set ivs"
  by simp

lemma gnome_identityProbes:
  "commandLine c gnomeCommand \<in> set (invoked (identityProbes env c st))
     \<longleftrightarrow> commandLine c gnomeCommand \<in> set (invoked st)"
  by (simp add: identityProbes_def systemInformation_invoked storeFirst_invoked)

lemma gnome_firewallStatus:
  "commandLine c gnomeCommand \<in> set (invoked (firewallStatus env c st))
     \<longleftrightarrow> commandLine c gnomeCommand \<in> set (invoked st)"
proof (cases "isRPMBasedDistro env")
  case True
  have "invoked (firewallStatus env c st) =
          snd (RunCommand env c ''systemctl is-active firewalld'' (invoked st))"
    using True by (simp add: firewallStatus_def split: prod.splits sum.splits)
  then show ?thesis
    by (simp add: RunCommand_snd gnomeCommand_def)
next
  case False
  then show ?thesis
    by (simp add: firewallStatus_def storeFirst_invoked)
qed

lemma gnome_applicationList:
  "commandLine c gnomeCommand \<in> set (invoked (applicationList env c st))
     \<longleftrightarrow> commandLine c gnomeCommand \<in> set (invoked st)"
proof -
  have "invoked (applicationList env c st) =
          snd (RunQuery env c (if isRPMBasedDistro env then ''SELECT name, version FROM rpm_packages''
               else ''SELECT name, version FROM deb_packages'') (invoked st))"
    by (simp add: applicationList_def split: prod.splits sum.splits)
  then show ?thesis
    by (simp add: RunQuery_snd)
qed

lemma flatpakProbe_v1_snd:
  "snd (flatpakProbe_v1 env c s) = snd s @ [commandLine c ''flatpak list --app | grep -i clam'']"
proof -
  have "snd (flatpakProbe_v1 env c s) = snd (RunCommand env c ''flatpak list --app | grep -i clam'' (snd s))"
    by (simp add: flatpakProbe_v1_def split: prod.splits sum.splits)
  then show ?thesis by (simp only: RunCommand_snd)
qed

lemma gnome_antivirusCheck_v1:
  "commandLine c gnomeCommand \<in> set (invoked (antivirusCheck_v1 env c st))
     \<longleftrightarrow> commandLine c gnomeCommand \<in> set (invoked st)"
  by (simp add: antivirusCheck_v1_def Let_def flatpakProbe_v1_snd packageProbe_snd
      gnomeCommand_def dpkgClamav_def dpkgClamtk_def)

lemma gnome_browserExtensions:
  "commandLine c gnomeCommand \<in> set (invoked (browserExtensions env c st))
     \<longleftrightarrow> commandLine c gnomeCommand \<in> set (invoked st)"
  by (simp add: browserExtensions_def Let_def extensionsOf_snd)

lemma autoUpdate_v1_invoked:
  "invoked (autoUpdate_v1 env c st) =
     invoked st
     @ (if isRPMBasedDistro env
        then map (commandLine c) (snd updateService # gnomeCommand # map snd rpmHistory)
        else osq c aptFileQuery # map (commandLine c) (map snd aptDiagnostics))"
  by (simp add: autoUpdate_v1_def Let_def diagnostics_snd RunCommand_snd storeFirst_invoked
      gnomeCommand_def del: diagnostics.simps)

lemma gnome_autoUpdate_v1:
  "commandLine c gnomeCommand \<in> set (invoked (autoUpdate_v1 env c st))
     \<longleftrightarrow> commandLine c gnomeCommand \<in> set (invoked st) \<or> isRPMBasedDistro env"
proof -
  have "gnomeCommand \<notin> set (map snd aptDiagnostics)"
    by (simp add: gnomeCommand_def aptDiagnostics_def)
  then have "commandLine c gnomeCommand \<notin> set (map (commandLine c) (map snd aptDiagnostics))"
    by (auto simp: image_iff)
  then show ?thesis
    by (simp add: autoUpdate_v1_invoked)
qed

lemma gnome_screenLockStatus_v1:
  "commandLine c gnomeCommand \<in> set (invoked (screenLockStatus_v1 env c st))
     \<longleftrightarrow> commandLine c gnomeCommand \<in> set (invoked st)"
  by (simp add: screenLockStatus_v1_def Let_def diagnostics_snd gnomeCommand_def
      del: diagnostics.simps)

lemma gnome_locationServices_v1:
  "commandLine c gnomeCommand \<in> set (invoked (locationServices (bareGsettings env c) st))
     \<longleftrightarrow> commandLine c gnomeCommand \<in> set (invoked st)"
proof -
  have "invoked (locationServices (bareGsettings env c) st) =
          snd (bareGsettings env c ''get org.gnome.system.location enabled'' (invoked st))"
    by (simp add: locationServices_def split: prod.splits sum.splits)
  then show ?thesis
    by (simp add: bareGsettings_def RunCommand_snd gnomeCommand_def)
qed

lemma settingsDump_bare_snd:
  "snd (settingsDump (bareGsettings env c) ds s) =
     snd s @ map (\<lambda>d. commandLine c (''gsettings '' @ snd d)) ds"
proof (induction ds arbitrary: s)
  case Nil
  then show ?case by simp
next
  case (Cons d ds)
  obtain key args where d: "d = (key, args)" by (cases d)
  obtain r ivs where rc: "bareGsettings env c args (snd s) = (r, ivs)"
    by (cases "bareGsettings env c args (snd s)")
  then have "ivs = snd (RunCommand env c (''gsettings '' @ args) (snd s))"
    by (simp add: bareGsettings_def)
  then have ivs: "ivs = snd s @ [commandLine c (''gsettings '' @ args)]"
    by (simp only: RunCommand_snd)
  show ?case
    using d rc ivs Cons.IH by (simp split: sum.splits)
qed

lemma gnome_screenLockSettings_v1:
  "commandLine c gnomeCommand \<in> set (invoked (screenLockSettings (bareGsettings env c) st))
     \<longleftrightarrow> commandLine c gnomeCommand \<in> set (invoked st)"
  by (simp add: screenLockSettings_def Let_def settingsDump_bare_snd gnomeCommand_def
      del: settingsDump.simps)

lemma gnome_collectLinux_v1:
  "commandLine c gnomeCommand \<in> set (invoked (collectLinux_v1 env c st))
     \<longleftrightarrow> commandLine c gnomeCommand \<in> set (invoked st) \<or> isRPMBasedDistro env"
  unfolding collectLinux_v1_def
  by (simp only: gnome_screenLockSettings_v1 gnome_locationServices_v1 gnome_screenLockStatus_v1
      gnome_autoUpdate_v1 storeFirst_invoked gnome_osq gnome_browserExtensions
      gnome_antivirusCheck_v1 gnome_applicationList gnome_firewallStatus gnome_identityProbes)

lemma autoUpdate_v1_settings:
  "rawResults (autoUpdate_v1 env c st) ''autoUpdateSettings'' =
     Some (JArr (if isRPMBasedDistro env
                 then diagnosticEntries env c [updateService]
                      @ gnomeEntry (commandResult env c gnomeCommand)
                      @ diagnosticEntries env c rpmHistory
                 else diagnosticEntries env c aptDiagnostics))"
proof (cases "isRPMBasedDistro env")
  case True
  have a: "\<And>ivs. fst (diagnostics env c [updateService] ([], ivs)) = diagnosticEntries env c [updateService]"
    using diagnostics_fst [of env c "[updateService]"] by simp
  show ?thesis
    using True
    by (simp add: autoUpdate_v1_def Let_def a recordGnomeSetting_snd diagnostics_fst RunCommand_eq
        gnomeCommand_def del: diagnostics.simps)
next
  case False
  then show ?thesis
    by (simp add: autoUpdate_v1_def Let_def diagnostics_fst del: diagnostics.simps)
qed

lemma collectLinux_v1_settings:
  "rawResults (collectLinux_v1 env c \<lparr>rawResults = Map.empty, invoked = ivs\<rparr>) ''autoUpdateSettings''
     = Some (JArr (if isRPMBasedDistro env
                 then diagnosticEntries env c [updateService]
                      @ gnomeEntry (commandResult env c gnomeCommand)
                      @ diagnosticEntries env c rpmHistory
                 else diagnosticEntries env c aptDiagnostics))"
  by (simp add: collectLinux_v1_def screenLockSettings_other locationServices_other
      screenLockStatus_v1_other autoUpdate_v1_settings)

text \<open>
  Claim C5, amended. In the session-aware variant of the collection, \<open>autoUpdateEnabled\<close>
  is \<open>{"passed": 1}\<close> exactly when the GNOME Software \<open>download-updates\<close> probe prints
  \<open>true\<close> and is absent otherwise, whatever the diagnostic probes print; their outputs
  appear in \<open>autoUpdateSettings\<close> only. The other variant does the same on RPM-family
  hosts. On Debian-family hosts the other variant does not ask GNOME Software (it runs the
  GNOME Software command exactly on RPM-family hosts): it sets \<open>autoUpdateEnabled\<close> to the
  row that the osquery check of \<open>/etc/apt/apt.conf.d/50unattended-upgrades\<close> returns, and
  \<open>autoUpdateSettings\<close> holds the outputs of the APT diagnostic probes only.
\<close>

theorem auto_update_flag_source:
  "autoUpdateEnabledOf (getLinuxSystemInfo env c version ivs)
     = autoUpdateVerdict (gsettingsResult env c gnomeProbe)
   \<and> autoUpdateSettingsOf (getLinuxSystemInfo env c version ivs)
     = Some (JArr (gnomeEntry (gsettingsResult env c gnomeProbe)
                   @ diagnosticEntries env c
                       (if isRPMBasedDistro env then updateService # rpmHistory
                        else aptDiagnostics)))
   \<and> autoUpdateEnabledOf (getLinuxSystemInfo_v1 env c version ivs)
     = (if isRPMBasedDistro env
        then autoUpdateVerdict (commandResult env c gnomeCommand)
        else (case firstRow env c aptFileQuery of Inr (Some r) \<Rightarrow> Some (JObj r) | _ \<Rightarrow> None))
   \<and> autoUpdateSettingsOf (getLinuxSystemInfo_v1 env c version ivs)
     = Some (JArr (if isRPMBasedDistro env
                   then diagnosticEntries env c [updateService]
                        @ gnomeEntry (commandResult env c gnomeCommand)
                        @ diagnosticEntries env c rpmHistory
                   else diagnosticEntries env c aptDiagnostics))
   \<and> (commandLine c gnomeCommand \<in> set (snd (getLinuxSystemInfo_v1 env c version []))
        \<longleftrightarrow> isRPMBasedDistro env)"
  by (simp add: autoUpdateEnabledOf_def autoUpdateSettingsOf_def getLinuxSystemInfo_def
      getLinuxSystemInfo_v1_def Let_def collectLinux_enabled collectLinux_settings
      collectLinux_v1_enabled collectLinux_v1_settings gnome_collectLinux_v1)

lemma gnomeHost_user: "getDesktopSessionUser gnomeHost c [] = (''alice'', [])"
  by (rule root_then_alice) (simp_all add: gnomeHost_def sessionHost_def)

lemma TrimSpace_true: "TrimSpace ''true'' = ''true''"
  by code_simp

lemma TrimSpace_false: "TrimSpace ''false'' = ''false''"
  by code_simp

lemma gnomeHost_command:
  "commandResult gnomeHost linuxClient cmd =
     (if cmd = ''gsettings get org.gnome.software download-updates'' then Inr ''true''
      else Inl (Error ''exit status 1''))"
  by (simp add: commandResult_def RunCommand_def commandLine_def linuxClient_def
      PlatformLinux_def PlatformWindows_def TrimSpace_true gnomeHost_def)

lemma gnomeHost_probe: "gsettingsResult gnomeHost linuxClient gnomeProbe = Inr ''true''"
  unfolding gsettingsResult_def runGsettingsCommand_def
  by (simp add: Let_def gnomeHost_user RunCommand_eq gnomeHost_command gnomeProbe_def)

theorem auto_update_flag_source_witness:
  "autoUpdateEnabledOf (getLinuxSystemInfo gnomeHost linuxClient ''3.9.0-cli'' [])
     = Some (JObj [(''passed'', JNum 1)])
   \<and> \<not> isRPMBasedDistro gnomeHost
   \<and> commandResult gnomeHost linuxClient (snd (hd aptDiagnostics)) = Inl (Error ''exit status 1'')
   \<and> commandLine linuxClient gnomeCommand
       \<notin> set (snd (getLinuxSystemInfo_v1 gnomeHost linuxClient ''3.9.0-cli'' []))
   \<and> autoUpdateSettingsOf (getLinuxSystemInfo_v1 gnomeHost linuxClient ''3.9.0-cli'' [])
       = Some (JArr [])
   \<and> isRPMBasedDistro fedoraHost
   \<and> commandLine linuxClient gnomeCommand
       \<in> set (snd (getLinuxSystemInfo_v1 fedoraHost linuxClient ''3.9.0-cli'' []))"
proof -
  note g = auto_update_flag_source [of gnomeHost linuxClient "''3.9.0-cli''" "[]"]
  note f = auto_update_flag_source [of fedoraHost linuxClient "''3.9.0-cli''" "[]"]
  have 1: "\<not> isRPMBasedDistro gnomeHost"
    by (simp add: isRPMBasedDistro_def gnomeHost_def sessionHost_def)
  have 2: "commandResult gnomeHost linuxClient (snd (hd aptDiagnostics))
      = Inl (Error ''exit status 1'')"
    by (simp add: gnomeHost_command aptDiagnostics_def)
  have 3: "autoUpdateEnabledOf (getLinuxSystemInfo gnomeHost linuxClient ''3.9.0-cli'' [])
     = Some (JObj [(''passed'', JNum 1)])"
    using g gnomeHost_probe by (simp add: autoUpdateVerdict_def)
  have 4: "commandLine linuxClient gnomeCommand
       \<notin> set (snd (getLinuxSystemInfo_v1 gnomeHost linuxClient ''3.9.0-cli'' []))"
    using g 1 by blast
  have "diagnosticEntries gnomeHost linuxClient aptDiagnostics = []"
    by (simp add: diagnosticEntries_def gnomeHost_command aptDiagnostics_def
        commandResult_def [symmetric])
  with g 1 have 5: "autoUpdateSettingsOf (getLinuxSystemInfo_v1 gnomeHost linuxClient ''3.9.0-cli'' [])
       = Some (JArr [])"
    by simp
  have 6: "isRPMBasedDistro fedoraHost"
    by (simp add: isRPMBasedDistro_def fedoraHost_def)
  with f have 7: "commandLine linuxClient gnomeCommand
       \<in> set (snd (getLinuxSystemInfo_v1 fedoraHost linuxClient ''3.9.0-cli'' []))"
    by blast
  from 1 2 3 4 5 6 7 show ?thesis by blast
qed

lemma aptHost_debian: "\<not> isRPMBasedDistro (aptHost out)"
  by (simp add: isRPMBasedDistro_def aptHost_def)

lemma aptHost_command:
  "commandResult (aptHost out) linuxClient cmd =
     (if cmd = ''gsettings get org.gnome.software download-updates'' then Inr ''false''
      else Inl (Error ''exit status 1''))"
  by (simp add: commandResult_def RunCommand_def commandLine_def linuxClient_def
      PlatformLinux_def PlatformWindows_def TrimSpace_false aptHost_def)

lemma aptHost_gnome: "commandResult (aptHost out) linuxClient gnomeCommand = Inr ''false''"
  by (simp add: aptHost_command gnomeCommand_def)

lemma aptHost_session_gnome:
  "gsettingsResult (aptHost out) linuxClient gnomeProbe = Inr ''false''"
proof -
  have t: "TrimSpace [] = []" by code_simp
  have g: "\<And>k. getenv (aptHost out) k = []" by (simp add: aptHost_def)
  have u: "getDesktopSessionUser (aptHost out) linuxClient [] =
      ([], [commandLine linuxClient ''logname''])"
    by (simp add: getDesktopSessionUser_def isValidSessionUser_def t g RunCommand_eq
        aptHost_command)
  show ?thesis
    unfolding gsettingsResult_def runGsettingsCommand_def
    by (simp add: Let_def u RunCommand_eq aptHost_command gnomeProbe_def)
qed

lemma aptHost_present:
  "firstRow (aptHost aptRowJson) linuxClient aptFileQuery = Inr (Some [(''passed'', JStr ''1'')])"
  by (simp add: firstRow_def queryFirst_def RunQuery_def linuxClient_def aptHost_def)

lemma aptHost_absent: "firstRow (aptHost ''[]'') linuxClient aptFileQuery = Inr None"
  by (simp add: firstRow_def queryFirst_def RunQuery_def linuxClient_def aptHost_def
      aptRowJson_def)

theorem auto_update_flag_set_by_apt_file_check:
  "gsettingsResult (aptHost aptRowJson) linuxClient gnomeProbe
     = gsettingsResult (aptHost ''[]'') linuxClient gnomeProbe
   \<and> commandResult (aptHost aptRowJson) linuxClient gnomeCommand
     = commandResult (aptHost ''[]'') linuxClient gnomeCommand
   \<and> commandResult (aptHost aptRowJson) linuxClient gnomeCommand = Inr ''false''
   \<and> autoUpdateEnabledOf (getLinuxSystemInfo_v1 (aptHost aptRowJson) linuxClient ''3.9.0-cli'' [])
     = Some (JObj [(''passed'', JStr ''1'')])
   \<and> autoUpdateEnabledOf (getLinuxSystemInfo_v1 (aptHost ''[]'') linuxClient ''3.9.0-cli'' [])
     = None"
  by (simp add: aptHost_session_gnome aptHost_gnome autoUpdateEnabledOf_def
      getLinuxSystemInfo_v1_def Let_def collectLinux_v1_enabled aptHost_debian aptHost_present
      aptHost_absent)

section \<open>The query engine binary is validated before it runs\<close>

text \<open>
  Claim C7. \<open>runQuery\<close> first validates the binary path. The validation raises an error
  exactly when the base name of the normalized path is not \<open>osqueryi\<close>, or the normalized
  path contains one of the characters \<open>; & | ` $ ( ) { } [ ] < > !\<close>, or no file exists at
  the normalized path. When it raises, \<open>runQuery\<close> fails with that error and executes
  nothing; when it does not, \<open>runQuery\<close> executes the binary once.
\<close>

theorem osquery_path_validated_before_execution:
  "(validateOsqueryPath env p \<noteq> None \<longleftrightarrow>
      pathBasename env (pathNormalize env p) \<noteq> ''osqueryi''
      \<or> (\<exists>ch\<in>set (pathNormalize env p). ch \<in> set unsafeCharacters)
      \<or> \<not> existsSync env (pathNormalize env p))
   \<and> (\<forall>e. validateOsqueryPath env p = Some e \<longrightarrow> runQuery env p q ivs = (Inl e, ivs))
   \<and> (validateOsqueryPath env p = None \<longrightarrow>
        snd (runQuery env p q ivs) = ivs @ [(quoted p, [q])]
        \<and> fst (runQuery env p q ivs) = map_sum id (trim env) (execFile env (quoted p) [q]))"
  by (auto simp: validateOsqueryPath_def runQuery_def Let_def list_ex_iff split: sum.splits)

theorem osquery_path_validated_before_execution_witness:
  "validateOsqueryPath nodeHost ''/usr/local/bin/osqueryi'' = None
   \<and> runQuery nodeHost ''/usr/local/bin/osqueryi'' ''SELECT 1'' []
       = (Inr ''[]'', [(quoted ''/usr/local/bin/osqueryi'', [''SELECT 1''])])
   \<and> validateOsqueryPath nodeHost ''/tmp/$(id)/osqueryi'' \<noteq> None
   \<and> snd (runQuery nodeHost ''/tmp/$(id)/osqueryi'' ''SELECT 1'' []) = []
   \<and> validateOsqueryPath nodeHost ''/usr/bin/osqueryi'' \<noteq> None
   \<and> validateOsqueryPath nodeHost ''/usr/local/bin/osqueryd'' \<noteq> None"
proof -
  have n: "pathNormalize nodeHost = (\<lambda>p. p)" "existsSync nodeHost = (\<lambda>p. p = ''/usr/local/bin/osqueryi'')"
    "execFile nodeHost = (\<lambda>file args. Inr ''[]'')" "trim nodeHost = TrimSpace"
    by (simp_all add: nodeHost_def)
  have b: "pathBasename nodeHost ''/usr/local/bin/osqueryi'' = ''osqueryi''"
    "pathBasename nodeHost ''/tmp/$(id)/osqueryi'' = ''osqueryi''"
    "pathBasename nodeHost ''/usr/bin/osqueryi'' = ''osqueryi''"
    "pathBasename nodeHost ''/usr/local/bin/osqueryd'' = ''osqueryd''"
    by (simp_all add: nodeHost_def)
  have t: "TrimSpace ''[]'' = ''[]''" by code_simp
  note 1 = osquery_path_validated_before_execution [of nodeHost "''/usr/local/bin/osqueryi''" "''SELECT 1''" "[]"]
  note 2 = osquery_path_validated_before_execution [of nodeHost "''/tmp/$(id)/osqueryi''" "''SELECT 1''" "[]"]
  note 3 = osquery_path_validated_before_execution [of nodeHost "''/usr/bin/osqueryi''" "''SELECT 1''" "[]"]
  note 4 = osquery_path_validated_before_execution [of nodeHost "''/usr/local/bin/osqueryd''" "''SELECT 1''" "[]"]
  have v1: "validateOsqueryPath nodeHost ''/usr/local/bin/osqueryi'' = None"
    using 1 by (simp add: n b unsafeCharacters_def)
  with 1 have r1: "runQuery nodeHost ''/usr/local/bin/osqueryi'' ''SELECT 1'' []
       = (Inr ''[]'', [(quoted ''/usr/local/bin/osqueryi'', [''SELECT 1''])])"
    by (simp add: n t prod_eq_iff)
  have v2: "validateOsqueryPath nodeHost ''/tmp/$(id)/osqueryi'' \<noteq> None"
    using 2 by (simp add: n b unsafeCharacters_def)
  with 2 have r2: "snd (runQuery nodeHost ''/tmp/$(id)/osqueryi'' ''SELECT 1'' []) = []"
    by auto
  have v3: "validateOsqueryPath nodeHost ''/usr/bin/osqueryi'' \<noteq> None"
    using 3 by (simp add: n b unsafeCharacters_def)
  have v4: "validateOsqueryPath nodeHost ''/usr/local/bin/osqueryd'' \<noteq> None"
    using 4 by (simp add: n b unsafeCharacters_def)
  from v1 r1 v2 r2 v3 v4 show ?thesis by blast
qed

section \<open>The single-run guard\<close>

lemma say_events [simp]: "events (say l w) = events w"
  by (simp add: say_def)

lemma say_store [simp]: "store (say l w) = store w"
  by (simp add: say_def)

lemma say_disk [simp]: "disk (say l w) = disk w"
  by (simp add: say_def)

lemmas store_ops = save_def SetSyncState_def SetLastSyncAttemptedAt_def SetAccessToken_def
  SetUser_def SetLastCheckedAt_def SetRegion_def SetUUID_def SetAppVersion_def
  SetWinAvServicesMatchList_def Update_def

lemmas api_ops = doRequest_def GetInitData_def Sync_def GetMe_def LoginWithMagicLink_def
  Register_def

lemma demoEnv_fields:
  "writeOk demoEnv = (\<lambda>n. True)"
  "httpDo demoEnv = (\<lambda>req. Inr \<lparr>StatusCode = 200, Body = okBody\<rparr>)"
  "decodeSync demoEnv = (\<lambda>b. Some \<lparr>syncData = \<lparr>respLastCheckedAt = ''1000'', respData = JNull,
                                               respWinAvServicesMatchList = []\<rparr>,
                                  syncWinAvServicesMatchList = []\<rparr>)"
  "decodeInit demoEnv = (\<lambda>b. Some [])"
  "parseRFC3339 demoEnv = parseMinutes"
  "minutesSince demoEnv = (\<lambda>t. 1000 - t)"
  "hoursSince demoEnv = (\<lambda>t. (1000 - t) div 60)"
  "nowRFC3339 demoEnv = ''1000''"
  "loadConfig demoEnv = Inr demoConfig"
  "openStore demoEnv = None"
  "newClient demoEnv = Inr linuxClient"
  "systemInfo demoEnv = (\<lambda>c v. Inr demoSnapshot)"
  by (simp_all add: demoEnv_def)

lemma demo_pipeline:
  "syncPipeline demoEnv demoConfig f False (startWorld (registeredStore st la)) =
     (None,
      \<lparr>store = (registeredStore SyncStateSuccess ''1000'')
                 \<lparr>LastCheckedAt := ''1000'',
                  ComplianceData := Some \<lparr>syncData = \<lparr>respLastCheckedAt = ''1000'', respData = JNull,
                                               respWinAvServicesMatchList = []\<rparr>,
                                  syncWinAvServicesMatchList = []\<rparr>\<rparr>,
       disk = Some ((registeredStore SyncStateSuccess ''1000'')
                 \<lparr>LastCheckedAt := ''1000'',
                  ComplianceData := Some \<lparr>syncData = \<lparr>respLastCheckedAt = ''1000'', respData = JNull,
                                               respWinAvServicesMatchList = []\<rparr>,
                                  syncWinAvServicesMatchList = []\<rparr>\<rparr>),
       events =
         [Wrote (registeredStore SyncStateRunning la),
          Wrote (registeredStore SyncStateRunning ''1000''),
          Collected ''3.9.0-cli'',
          Requested \<lparr>reqMethod = ''POST'', reqPath = ''/agentv2/sync'', reqTargetEnv = ''PROD'',
                      reqRegion = ''NA'', reqCorrelationId = ''uuid-0'', reqBearer = ''token-0'',
                      reqBody = Some (Snapshot (demoSnapshot\<lparr>ManualRun := f\<rparr>))\<rparr>,
          Wrote ((registeredStore SyncStateRunning ''1000'')
                 \<lparr>LastCheckedAt := ''1000'',
                  ComplianceData := Some \<lparr>syncData = \<lparr>respLastCheckedAt = ''1000'', respData = JNull,
                                               respWinAvServicesMatchList = []\<rparr>,
                                  syncWinAvServicesMatchList = []\<rparr>\<rparr>),
          Wrote ((registeredStore SyncStateSuccess ''1000'')
                 \<lparr>LastCheckedAt := ''1000'',
                  ComplianceData := Some \<lparr>syncData = \<lparr>respLastCheckedAt = ''1000'', respData = JNull,
                                               respWinAvServicesMatchList = []\<rparr>,
                                  syncWinAvServicesMatchList = []\<rparr>\<rparr>)],
       console =
         [''Syncing system information with Drata...'', ''Collecting system information...'',
          ''Sending data to Drata...'', ''Sync completed successfully!'',
          ''Last successful sync: 1000'']\<rparr>)"
  by (simp add: syncPipeline_def ensureInitData_def collectSnapshot_def
      sendSnapshot_def demoEnv_fields demoConfig_def startWorld_def
      registeredStore_def IsRegistered_def IsInitDataReady_def store_ops api_ops say_def
      SyncStateRunning_def SyncStateSuccess_def Let_def)

lemma demo_pipeline_effects:
  "fst (syncPipeline demoEnv demoConfig f False (startWorld (registeredStore st la))) = None"
  "requests (events (snd (syncPipeline demoEnv demoConfig f False (startWorld (registeredStore st la)))))
     = [(''POST'', ''/agentv2/sync'')]"
  "collections (events (snd (syncPipeline demoEnv demoConfig f False (startWorld (registeredStore st la)))))
     = 1"
  "SyncState (store (snd (syncPipeline demoEnv demoConfig f False (startWorld (registeredStore st la)))))
     = SyncStateSuccess"
  by (simp_all add: demo_pipeline requests_def collections_def)
    (simp add: registeredStore_def)

lemma registered_start [simp]:
  "IsRegistered (store (startWorld (registeredStore st la)))"
  "SyncState (store (startWorld (registeredStore st la))) = st"
  "LastSyncAttemptedAt (store (startWorld (registeredStore st la))) = la"
  "LastCheckedAt (store (startWorld (registeredStore st la))) = []"
  "events (startWorld ds) = []"
  by (simp_all add: startWorld_def registeredStore_def IsRegistered_def)

lemma states_differ [simp]:
  "SyncStateSuccess \<noteq> SyncStateRunning" "SyncStateError \<noteq> SyncStateRunning"
  "SyncStateUnknown \<noteq> SyncStateRunning" "SyncStateSuccess \<noteq> SyncStateError"
  by (simp_all add: SyncStateSuccess_def SyncStateRunning_def SyncStateError_def SyncStateUnknown_def)

text \<open>
  Claim C1 (as amended). When the persisted state is \<open>RUNNING\<close>, a \<open>sync\<close> command without
  \<open>--force\<close> and every periodic sync of the daemon refuse the attempt and change nothing:
  no write, no request, no collection; the command returns the error
  \<open>sync is already in progress\<close>, the daemon logs that it skips. A \<open>sync\<close> command with
  \<open>--force\<close> does not look at the state: on a registered agent it always runs the pipeline.
\<close>

theorem single_run_guard:
  "(SyncState (store w) = SyncStateRunning \<longrightarrow>
      snd (runSync env False verboseSync w) = w
      \<and> fst (runSync env False verboseSync w) \<noteq> None
      \<and> (loadConfig env = Inr cfg \<and> openStore env = None \<and> IsRegistered (store w) \<longrightarrow>
           fst (runSync env False verboseSync w) = Some (Error ''sync is already in progress''))
      \<and> performSync env cfg client w = (None, say ''Sync already in progress, skipping'' w)
      \<and> events (snd (performSync env cfg client w)) = events w
      \<and> store (snd (performSync env cfg client w)) = store w
      \<and> disk (snd (performSync env cfg client w)) = disk w)
   \<and> (loadConfig env = Inr cfg \<and> openStore env = None \<and> IsRegistered (store w) \<longrightarrow>
        runSync env True verboseSync w = syncPipeline env cfg True verboseSync w)"
  by (auto simp: runSync_def performSync_def split: sum.splits option.splits)

theorem single_run_guard_witness:
  "SyncState (store (startWorld (registeredStore SyncStateRunning ''995''))) = SyncStateRunning
   \<and> runSync demoEnv False False (startWorld (registeredStore SyncStateRunning ''995''))
       = (Some (Error ''sync is already in progress''),
          startWorld (registeredStore SyncStateRunning ''995''))
   \<and> events (snd (performSync demoEnv demoConfig linuxClient
         (startWorld (registeredStore SyncStateRunning ''995'')))) = []
   \<and> runSync demoEnv True False (startWorld (registeredStore SyncStateSuccess ''995''))
       = syncPipeline demoEnv demoConfig True False (startWorld (registeredStore SyncStateSuccess ''995''))"
proof -
  note a = single_run_guard [of "startWorld (registeredStore SyncStateRunning ''995'')" demoEnv
      False demoConfig linuxClient]
  note b = single_run_guard [of "startWorld (registeredStore SyncStateSuccess ''995'')" demoEnv
      False demoConfig linuxClient]
  have 1: "runSync demoEnv False False (startWorld (registeredStore SyncStateRunning ''995''))
       = (Some (Error ''sync is already in progress''),
          startWorld (registeredStore SyncStateRunning ''995''))"
    using a by (simp add: demoEnv_fields prod_eq_iff)
  have 2: "events (snd (performSync demoEnv demoConfig linuxClient
         (startWorld (registeredStore SyncStateRunning ''995'')))) = []"
    using a by simp
  have 3: "runSync demoEnv True False (startWorld (registeredStore SyncStateSuccess ''995''))
       = syncPipeline demoEnv demoConfig True False (startWorld (registeredStore SyncStateSuccess ''995''))"
    using b by (simp add: demoEnv_fields)
  from 1 2 3 show ?thesis by simp
qed

text \<open>
  A forced \<open>sync\<close> command on an agent whose persisted state is \<open>RUNNING\<close> is not refused:
  it collects a snapshot and uploads it.
\<close>

theorem forced_sync_runs_while_running:
  "SyncState (store (startWorld (registeredStore SyncStateRunning ''995''))) = SyncStateRunning
   \<and> fst (runSync demoEnv True False (startWorld (registeredStore SyncStateRunning ''995''))) = None
   \<and> collections (events (snd (runSync demoEnv True False
         (startWorld (registeredStore SyncStateRunning ''995''))))) = 1
   \<and> requests (events (snd (runSync demoEnv True False
         (startWorld (registeredStore SyncStateRunning ''995'')))))
       = [(''POST'', ''/agentv2/sync'')]"
proof -
  have "runSync demoEnv True False (startWorld (registeredStore SyncStateRunning ''995''))
       = syncPipeline demoEnv demoConfig True False (startWorld (registeredStore SyncStateRunning ''995''))"
    by (simp add: runSync_def demoEnv_fields)
  then show ?thesis by (simp add: demo_pipeline_effects)
qed

section \<open>Throttling by the last attempt\<close>

lemma minutes_995: "MinutesSinceLastAttempt demoEnv (registeredStore st ''995'') = 5"
proof -
  have "parseMinutes ''995'' = Some 995" by code_simp
  then show ?thesis
    by (simp add: MinutesSinceLastAttempt_def registeredStore_def demoEnv_fields)
qed

lemma store_startWorld [simp]: "store (startWorld ds) = ds"
  by (simp add: startWorld_def)

lemma registered_fields [simp]:
  "IsRegistered (registeredStore st la)"
  "SyncState (registeredStore st la) = st"
  "LastSyncAttemptedAt (registeredStore st la) = la"
  "LastCheckedAt (registeredStore st la) = []"
  by (simp_all add: registeredStore_def IsRegistered_def)

lemma console_say: "console (say l w) = console w @ [l]"
  by (simp add: say_def)

text \<open>
  Claim C2 (as amended). A sync that is not forced, on a state other than \<open>RUNNING\<close> and
  with a last attempt at least zero and fewer than \<open>MinMinutesBetweenSyncs\<close> minutes ago,
  is skipped without any effect: no write, no request, no collection. The \<open>sync\<close> command
  returns an error whose message contains the minutes still to wait, the minimum less the
  minutes elapsed. The daemon returns no error and logs a line that gives the minutes
  elapsed and the minimum.
\<close>

theorem too_soon_skip:
  "loadConfig env = Inr cfg \<and> SyncState (store w) \<noteq> SyncStateRunning
     \<and> 0 \<le> MinutesSinceLastAttempt env (store w)
     \<and> MinutesSinceLastAttempt env (store w) < MinMinutesBetweenSyncs cfg
   \<longrightarrow>
     snd (runSync env False verboseSync w) = w
     \<and> fst (runSync env False verboseSync w) \<noteq> None
     \<and> (openStore env = None \<and> IsRegistered (store w) \<longrightarrow>
          fst (runSync env False verboseSync w)
            = Some (Error (tooSoonMessage (MinutesSinceLastAttempt env (store w))
                             (MinMinutesBetweenSyncs cfg))))
     \<and> sublist (showInt (MinMinutesBetweenSyncs cfg - MinutesSinceLastAttempt env (store w)))
          (tooSoonMessage (MinutesSinceLastAttempt env (store w)) (MinMinutesBetweenSyncs cfg))
     \<and> performSync env cfg client w
          = (None, say (attemptLogLine (MinutesSinceLastAttempt env (store w))
                          (MinMinutesBetweenSyncs cfg)) w)
     \<and> events (snd (performSync env cfg client w)) = events w
     \<and> store (snd (performSync env cfg client w)) = store w
     \<and> disk (snd (performSync env cfg client w)) = disk w
     \<and> sublist (showInt (MinutesSinceLastAttempt env (store w)))
          (attemptLogLine (MinutesSinceLastAttempt env (store w)) (MinMinutesBetweenSyncs cfg))
     \<and> sublist (showInt (MinMinutesBetweenSyncs cfg))
          (attemptLogLine (MinutesSinceLastAttempt env (store w)) (MinMinutesBetweenSyncs cfg))"
proof -
  have s1: "\<And>m n. sublist (showInt (n - m)) (tooSoonMessage m n)"
    unfolding tooSoonMessage_def sublist_def by (metis append.assoc)
  have s2: "\<And>m n. sublist (showInt m) (attemptLogLine m n)"
    unfolding attemptLogLine_def sublist_def by (metis append.assoc)
  have s3: "\<And>m n. sublist (showInt n) (attemptLogLine m n)"
    unfolding attemptLogLine_def sublist_def by (metis append.assoc)
  show ?thesis
    using s1 s2 s3
    by (auto simp: runSync_def performSync_def split: sum.splits option.splits)
qed

theorem too_soon_skip_witness:
  "SyncState (store (startWorld (registeredStore SyncStateSuccess ''995''))) \<noteq> SyncStateRunning
   \<and> MinutesSinceLastAttempt demoEnv (store (startWorld (registeredStore SyncStateSuccess ''995''))) = 5
   \<and> MinMinutesBetweenSyncs demoConfig = 15
   \<and> runSync demoEnv False False (startWorld (registeredStore SyncStateSuccess ''995''))
       = (Some (Error ''sync was attempted 5 minutes ago. Wait 10 more minutes or use --force''),
          startWorld (registeredStore SyncStateSuccess ''995''))
   \<and> events (snd (performSync demoEnv demoConfig linuxClient
         (startWorld (registeredStore SyncStateSuccess ''995'')))) = []"
proof -
  note t = too_soon_skip [of demoEnv demoConfig "startWorld (registeredStore SyncStateSuccess ''995'')"
      False linuxClient]
  have m: "MinutesSinceLastAttempt demoEnv (store (startWorld (registeredStore SyncStateSuccess ''995''))) = 5"
    by (simp add: minutes_995)
  have c: "MinMinutesBetweenSyncs demoConfig = 15" by (simp add: demoConfig_def)
  have msg: "tooSoonMessage 5 15 = ''sync was attempted 5 minutes ago. Wait 10 more minutes or use --force''"
    by code_simp
  have h: "loadConfig demoEnv = Inr demoConfig" "openStore demoEnv = None"
    by (simp_all add: demoEnv_fields)
  have 1: "runSync demoEnv False False (startWorld (registeredStore SyncStateSuccess ''995''))
       = (Some (Error ''sync was attempted 5 minutes ago. Wait 10 more minutes or use --force''),
          startWorld (registeredStore SyncStateSuccess ''995''))"
    using t h by (simp add: minutes_995 c msg prod_eq_iff)
  have 2: "events (snd (performSync demoEnv demoConfig linuxClient
         (startWorld (registeredStore SyncStateSuccess ''995'')))) = []"
    using t h by (simp add: minutes_995 c)
  from m c 1 2 show ?thesis by simp
qed

text \<open>
  With a minimum of 15 minutes and a last attempt 5 minutes ago, the daemon logs
  \<open>Last sync attempt was 5 minutes ago, skipping (min: 15)\<close>: the 10 minutes still to
  wait do not occur in it.
\<close>

theorem daemon_skip_line_omits_remaining_wait:
  "SyncState (store (startWorld (registeredStore SyncStateSuccess ''995''))) \<noteq> SyncStateRunning
   \<and> MinutesSinceLastAttempt demoEnv (store (startWorld (registeredStore SyncStateSuccess ''995''))) = 5
   \<and> MinMinutesBetweenSyncs demoConfig = 15
   \<and> showInt (15 - 5) = ''10''
   \<and> fst (performSync demoEnv demoConfig linuxClient
        (startWorld (registeredStore SyncStateSuccess ''995''))) = None
   \<and> console (snd (performSync demoEnv demoConfig linuxClient
        (startWorld (registeredStore SyncStateSuccess ''995''))))
       = [''Last sync attempt was 5 minutes ago, skipping (min: 15)'']
   \<and> \<not> sublist ''10'' ''Last sync attempt was 5 minutes ago, skipping (min: 15)''"
proof -
  have m: "MinutesSinceLastAttempt demoEnv (store (startWorld (registeredStore SyncStateSuccess ''995''))) = 5"
    by (simp add: minutes_995)
  have c: "MinMinutesBetweenSyncs demoConfig = 15" by (simp add: demoConfig_def)
  have l: "attemptLogLine 5 15 = ''Last sync attempt was 5 minutes ago, skipping (min: 15)''"
    by code_simp
  have s: "showInt (15 - 5) = ''10''" by code_simp
  have n: "\<not> sublist ''10'' ''Last sync attempt was 5 minutes ago, skipping (min: 15)''"
    by code_simp
  have p: "performSync demoEnv demoConfig linuxClient
        (startWorld (registeredStore SyncStateSuccess ''995''))
      = (None, say ''Last sync attempt was 5 minutes ago, skipping (min: 15)''
           (startWorld (registeredStore SyncStateSuccess ''995'')))"
    by (simp add: performSync_def minutes_995 c l)
  have k: "console (startWorld (registeredStore SyncStateSuccess ''995'')) = []"
    by (simp add: startWorld_def)
  from m c s n show ?thesis
    by (simp add: p console_say k)
qed

section \<open>Missing and corrupt time stamps\<close>



section \<open>A registration whose profile request fails\<close>

lemma profileDownEnv_fields:
  "writeOk profileDownEnv = (\<lambda>n. True)"
  "httpDo profileDownEnv = (\<lambda>req. if reqPath req = ''/users/me''
                               then Inr \<lparr>StatusCode = 500, Body = okBody\<rparr>
                               else Inr \<lparr>StatusCode = 200, Body = okBody\<rparr>)"
  "decodeAuth profileDownEnv = (\<lambda>b. Some ''token-1'')"
  "decodeError profileDownEnv = (\<lambda>b. None)"
  "loadConfig profileDownEnv = Inr demoConfig"
  "openStore profileDownEnv = None"
  "newClient profileDownEnv = Inr linuxClient"
  "newUUID profileDownEnv = ''uuid-1''"
  "ToUpper profileDownEnv = (\<lambda>s. s)"
  by (simp_all add: profileDownEnv_def demoEnv_def)

lemma showNat_500: "showNat 500 = ''500''"
  by code_simp

lemma failed_registration:
  "runRegister profileDownEnv ''magic-1'' ''NA'' [] (startWorld freshStore) =
     (Some (Error ''authentication failed: API error (status 500): {}''),
      \<lparr>store = freshStore\<lparr>Region := ''NA'', UUID := ''uuid-1'', AccessToken := ''token-1''\<rparr>,
       disk = Some (freshStore\<lparr>Region := ''NA'', UUID := ''uuid-1'', AccessToken := ''token-1''\<rparr>),
       events =
         [Wrote (freshStore\<lparr>Region := ''NA''\<rparr>),
          Wrote (freshStore\<lparr>Region := ''NA'', UUID := ''uuid-1''\<rparr>),
          Requested \<lparr>reqMethod = ''POST'', reqPath = ''/auth/magic-link/magic-1'',
                      reqTargetEnv = ''PROD'', reqRegion = ''NA'', reqCorrelationId = ''uuid-1'',
                      reqBearer = [], reqBody = None\<rparr>,
          Wrote (freshStore\<lparr>Region := ''NA'', UUID := ''uuid-1'', AccessToken := ''token-1''\<rparr>),
          Requested \<lparr>reqMethod = ''GET'', reqPath = ''/users/me'',
                      reqTargetEnv = ''PROD'', reqRegion = ''NA'', reqCorrelationId = ''uuid-1'',
                      reqBearer = ''token-1'', reqBody = None\<rparr>],
       console = [''Registering agent with Drata (NA region)...'']\<rparr>)"
  by (simp add: runRegister_def registerHandshake_def ParseRegion_def profileDownEnv_fields
      demoConfig_def startWorld_def freshStore_def IsRegistered_def store_ops api_ops say_def
      handleErrorResponse_def showNat_500 okBody_def wrap_def message_def Let_def
      del: showNat.simps)

text \<open>
  Claim C9 at a registration whose token exchange succeeds and whose profile request
  fails. The command returns the error and never calls the registration endpoint, but the
  access token it has just received stays in the document and in the file: the agent now
  counts as registered, and a second \<open>register\<close> is refused.
\<close>

theorem register_keeps_token_after_profile_failure:
  "fst (runRegister profileDownEnv ''magic-1'' ''NA'' [] (startWorld freshStore))
     = Some (Error ''authentication failed: API error (status 500): {}'')
   \<and> requests (events (snd (runRegister profileDownEnv ''magic-1'' ''NA'' [] (startWorld freshStore))))
     = [(''POST'', ''/auth/magic-link/magic-1''), (''GET'', ''/users/me'')]
   \<and> map_option AccessToken
        (disk (snd (runRegister profileDownEnv ''magic-1'' ''NA'' [] (startWorld freshStore))))
     = Some ''token-1''
   \<and> IsRegistered (store (snd (runRegister profileDownEnv ''magic-1'' ''NA'' [] (startWorld freshStore))))
   \<and> fst (runRegister profileDownEnv ''magic-2'' ''NA'' []
            (snd (runRegister profileDownEnv ''magic-1'' ''NA'' [] (startWorld freshStore))))
     = Some (Error (''agent is already registered. Use 'drata-agent unregister' first''))"
  unfolding failed_registration
  by (simp add: requests_def IsRegistered_def runRegister_def ParseRegion_def
      profileDownEnv_fields)

section \<open>The state \<open>RUNNING\<close> and the first request\<close>

text \<open>
  In both Go pipelines every step only adds effects, and the first effect is the write of
  \<open>RUNNING\<close>: no request and no collection comes before it.
\<close>

lemma save_grows: "save env w = (r, w') \<Longrightarrow> prefix (events w) (events w')"
  by (auto simp: save_def split: if_splits)

lemma setter_grows:
  "SetSyncState env st w = (r, w') \<Longrightarrow> prefix (events w) (events w')"
  "SetLastSyncAttemptedAt env t w = (r, w') \<Longrightarrow> prefix (events w) (events w')"
  "SetWinAvServicesMatchList env l w = (r, w') \<Longrightarrow> prefix (events w) (events w')"
  "SetAccessToken env t w = (r, w') \<Longrightarrow> prefix (events w) (events w')"
  "SetUser env u w = (r, w') \<Longrightarrow> prefix (events w) (events w')"
  "SetLastCheckedAt env t w = (r, w') \<Longrightarrow> prefix (events w) (events w')"
  "SetRegion env t w = (r, w') \<Longrightarrow> prefix (events w) (events w')"
  "SetUUID env t w = (r, w') \<Longrightarrow> prefix (events w) (events w')"
  "SetAppVersion env t w = (r, w') \<Longrightarrow> prefix (events w) (events w')"
  "Update env ups w = (r, w') \<Longrightarrow> prefix (events w) (events w')"
  by (auto simp: store_ops split: if_splits)

lemma doRequest_grows:
  "doRequest env cfg m p b w = (r, w') \<Longrightarrow> prefix (events w) (events w')"
  by (auto simp: doRequest_def Let_def)

lemma GetInitData_grows:
  assumes "GetInitData env cfg w = (r, w')"
  shows "prefix (events w) (events w')"
proof -
  obtain r1 w1 where d: "doRequest env cfg ''GET'' ''/agentv2/init'' None w = (r1, w1)"
    by (cases "doRequest env cfg ''GET'' ''/agentv2/init'' None w")
  then have p1: "prefix (events w) (events w1)" by (rule doRequest_grows)
  have "prefix (events w1) (events w')"
    using assms d
    by (auto simp: GetInitData_def split: sum.splits option.splits prod.splits if_splits
        dest: setter_grows)
  with p1 show ?thesis by (rule prefix_order.trans)
qed

lemma Sync_grows:
  assumes "Sync env cfg q w = (r, w')"
  shows "prefix (events w) (events w')"
proof -
  obtain r1 w1 where d: "doRequest env cfg ''POST'' ''/agentv2/sync'' (Some (Snapshot q)) w = (r1, w1)"
    by (cases "doRequest env cfg ''POST'' ''/agentv2/sync'' (Some (Snapshot q)) w")
  then have p1: "prefix (events w) (events w1)" by (rule doRequest_grows)
  have "prefix (events w1) (events w')"
    using assms d
    by (auto simp: Sync_def split: sum.splits option.splits prod.splits if_splits
        dest: setter_grows)
  with p1 show ?thesis by (rule prefix_order.trans)
qed

lemma abortSync_grows:
  "abortSync env ctx e w = (r, w') \<Longrightarrow> prefix (events w) (events w')"
  by (auto simp: abortSync_def split: prod.splits option.splits dest: setter_grows)

lemma sendSnapshot_grows:
  assumes "sendSnapshot env cfg q w = (r, w')"
  shows "prefix (events w) (events w')"
proof -
  obtain r1 w1 where d: "Sync env cfg q (say ''Sending data to Drata...'' w) = (r1, w1)"
    by (cases "Sync env cfg q (say ''Sending data to Drata...'' w)")
  then have p1: "prefix (events w) (events w1)" using Sync_grows by fastforce
  have "prefix (events w1) (events w')"
    using assms d
    by (auto simp: sendSnapshot_def split: sum.splits option.splits prod.splits if_splits
        dest: setter_grows abortSync_grows)
  with p1 show ?thesis by (rule prefix_order.trans)
qed

lemma collectSnapshot_grows:
  assumes "collectSnapshot env cfg c f w = (r, w')"
  shows "prefix (events w) (events w')"
proof -
  let ?w1 = "(say ''Collecting system information...'' w)\<lparr>events := events w @ [Collected (Version cfg)]\<rparr>"
  have p1: "prefix (events w) (events ?w1)" by simp
  have "prefix (events ?w1) (events w')"
    using assms
    by (auto simp: collectSnapshot_def Let_def split: sum.splits
        dest!: abortSync_grows sendSnapshot_grows)
  with p1 show ?thesis by (rule prefix_order.trans)
qed

lemma ensureInitData_grows:
  assumes "ensureInitData env cfg c f w = (r, w')"
  shows "prefix (events w) (events w')"
proof (cases "IsInitDataReady (store w)")
  case True
  with assms show ?thesis
    by (auto simp: ensureInitData_def dest: collectSnapshot_grows)
next
  case False
  obtain r1 w1 where d: "GetInitData env cfg (say ''Fetching initialization data...'' w) = (r1, w1)"
    by (cases "GetInitData env cfg (say ''Fetching initialization data...'' w)")
  then have p1: "prefix (events w) (events w1)" using GetInitData_grows by fastforce
  have "prefix (events w1) (events w')"
    using assms d False
    by (auto simp: ensureInitData_def split: sum.splits
        dest: abortSync_grows collectSnapshot_grows)
  with p1 show ?thesis by (rule prefix_order.trans)
qed

lemma daemonSend_grows:
  assumes "daemonSend env cfg q w = (r, w')"
  shows "prefix (events w) (events w')"
proof -
  obtain r1 w1 where d: "Sync env cfg q (say ''Sending data to Drata...'' w) = (r1, w1)"
    by (cases "Sync env cfg q (say ''Sending data to Drata...'' w)")
  then have p1: "prefix (events w) (events w1)" using Sync_grows by fastforce
  have e: "\<And>st. prefix (events w1) (events (snd (SetSyncState env st w1)))"
    using setter_grows(1) by (metis prod.collapse)
  have "prefix (events w1) (events w')"
    using assms d e
    by (auto simp: daemonSend_def split: sum.splits option.splits prod.splits if_splits
        dest: setter_grows)
  with p1 show ?thesis by (rule prefix_order.trans)
qed

lemma daemonCollect_grows:
  assumes "daemonCollect env cfg c w = (r, w')"
  shows "prefix (events w) (events w')"
proof -
  let ?w1 = "(say ''Collecting system information...'' w)\<lparr>events := events w @ [Collected (Version cfg)]\<rparr>"
  have p1: "prefix (events w) (events ?w1)" by simp
  have e: "\<And>st. prefix (events ?w1) (events (snd (SetSyncState env st ?w1)))"
    using setter_grows(1) by (metis prod.collapse)
  have "prefix (events ?w1) (events w')"
    using assms e
    by (auto simp: daemonCollect_def Let_def split: sum.splits
        dest!: daemonSend_grows)
  with p1 show ?thesis by (rule prefix_order.trans)
qed

lemma daemonInitData_grows:
  assumes "daemonInitData env cfg c w = (r, w')"
  shows "prefix (events w) (events w')"
proof (cases "IsInitDataReady (store w)")
  case True
  with assms show ?thesis
    by (auto simp: daemonInitData_def dest: daemonCollect_grows)
next
  case False
  obtain r1 w1 where d: "GetInitData env cfg (say ''Fetching initialization data...'' w) = (r1, w1)"
    by (cases "GetInitData env cfg (say ''Fetching initialization data...'' w)")
  then have p1: "prefix (events w) (events w1)" using GetInitData_grows by fastforce
  have e: "\<And>st. prefix (events w1) (events (snd (SetSyncState env st w1)))"
    using setter_grows(1) by (metis prod.collapse)
  have "prefix (events w1) (events w')"
    using assms d False e
    by (auto simp: daemonInitData_def split: sum.splits dest: daemonCollect_grows)
  with p1 show ?thesis by (rule prefix_order.trans)
qed

lemma runningFirst_after_write:
  assumes "prefix (es @ [Wrote ds]) es'" and "SyncState ds = SyncStateRunning"
  shows "\<exists>rest. es' = es @ rest \<and> runningFirst rest"
proof -
  from assms(1) obtain more where "es' = (es @ [Wrote ds]) @ more"
    by (auto simp: prefix_def)
  then have "es' = es @ (Wrote ds # more)" by simp
  moreover have "runningFirst (Wrote ds # more)"
    using assms(2) by (simp add: runningFirst_def)
  ultimately show ?thesis by blast
qed

lemma syncPipeline_running_first:
  "\<exists>rest. events (snd (syncPipeline env cfg forceSync verboseSync w)) = events w @ rest
          \<and> runningFirst rest"
proof (cases "newClient env")
  case (Inl e)
  then have "events (snd (syncPipeline env cfg forceSync verboseSync w)) = events w @ []"
    by (simp add: syncPipeline_def)
  moreover have "runningFirst []" by (simp add: runningFirst_def)
  ultimately show ?thesis by blast
next
  case (Inr client)
  let ?w0 = "if verboseSync
             then say (''Agent version: '' @ Version cfg)
                    (say (''Platform: '' @ platform client) (say ''Verbose mode enabled'' w))
             else w"
  have w0: "events ?w0 = events w" "store ?w0 = store w" by simp_all
  show ?thesis
  proof (cases "writeOk env (length (events w))")
    case False
    then have "events (snd (syncPipeline env cfg forceSync verboseSync w)) = events w @ [WriteFailed]"
      using Inr w0 by (simp add: syncPipeline_def SetSyncState_def save_def)
    moreover have "runningFirst [WriteFailed]" by (simp add: runningFirst_def)
    ultimately show ?thesis by blast
  next
    case True
    let ?ds = "(store w)\<lparr>SyncState := SyncStateRunning\<rparr>"
    let ?w1 = "?w0\<lparr>store := ?ds, disk := Some ?ds, events := events w @ [Wrote ?ds]\<rparr>"
    have s: "SetSyncState env SyncStateRunning ?w0 = (None, ?w1)"
      using True w0 by (simp add: SetSyncState_def save_def)
    obtain r w' where p: "syncPipeline env cfg forceSync verboseSync w = (r, w')"
      by (cases "syncPipeline env cfg forceSync verboseSync w")
    have "prefix (events ?w1) (events w')"
      using p Inr s
      by (auto simp: syncPipeline_def split: prod.splits option.splits
          dest: setter_grows dest!: ensureInitData_grows)
    then have "prefix (events w @ [Wrote ?ds]) (events w')" by simp
    then have "\<exists>rest. events w' = events w @ rest \<and> runningFirst rest"
      by (rule runningFirst_after_write) simp
    with p show ?thesis by simp
  qed
qed

lemma daemonPipeline_running_first:
  "\<exists>rest. events (snd (daemonPipeline env cfg client w)) = events w @ rest \<and> runningFirst rest"
proof (cases "writeOk env (length (events w))")
  case False
  then have "events (snd (daemonPipeline env cfg client w)) = events w @ [WriteFailed]"
    by (simp add: daemonPipeline_def SetSyncState_def save_def)
  moreover have "runningFirst [WriteFailed]" by (simp add: runningFirst_def)
  ultimately show ?thesis by blast
next
  case True
  let ?ds = "(store w)\<lparr>SyncState := SyncStateRunning\<rparr>"
  let ?w1 = "w\<lparr>store := ?ds, disk := Some ?ds, events := events w @ [Wrote ?ds]\<rparr>"
  have s: "SetSyncState env SyncStateRunning w = (None, ?w1)"
    using True by (simp add: SetSyncState_def save_def)
  obtain r w' where p: "daemonPipeline env cfg client w = (r, w')"
    by (cases "daemonPipeline env cfg client w")
  have "prefix (events ?w1) (events w')"
    using p s
    by (auto simp: daemonPipeline_def split: prod.splits option.splits
        dest: setter_grows dest!: daemonInitData_grows)
  then have "prefix (events w @ [Wrote ?ds]) (events w')" by simp
  then have "\<exists>rest. events w' = events w @ rest \<and> runningFirst rest"
    by (rule runningFirst_after_write) simp
  with p show ?thesis by simp
qed

subsection \<open>The first sync of the TypeScript command line\<close>

lemmas ts_config_ops = writeConfig_def set_config_def multiSet_def get_def stringify_def
  truthy_def isNil_def member_def interpolate_def isInitDataReady_def isRegistered_def
  consoleLog_def

lemma backendUp_fields:
  "writeFileOk backendUp = (\<lambda>n. True)"
  "resolveBaseUrl backendUp = (\<lambda>region. Inr ''https://agent.drata.com'')"
  "adapter backendUp = (\<lambda>req.
        if axUrl req = ''/agentv2/init''
        then Inr (JObj [(''winAvServicesMatchList'', JArr [JStr ''av''])])
        else Inr (JObj [(''data'', JObj [(''lastcheckedAt'', JStr ''2026-01-02T00:00:00.000Z'')]),
                        (''winAvServicesMatchList'', JArr [JStr ''av''])]))"
  "toISOString backendUp = ''2026-01-02T00:00:00.000Z''"
  "getSystemInfo backendUp = Inr [(''drataAgentVersion'', JStr ''3.9.0''), (''platform'', JStr ''LINUX''),
                           (''rawQueryResults'', JObj [])]"
  by (simp_all add: backendUp_def)

lemma backendDown_fields:
  "writeFileOk backendDown = (\<lambda>n. True)"
  "resolveBaseUrl backendDown = (\<lambda>region. Inr ''https://agent.drata.com'')"
  "adapter backendDown = (\<lambda>req. Inl (Error ''connect ECONNREFUSED''))"
  by (simp_all add: backendDown_def backendUp_def)

lemma first_sync_steps:
  "fst (sync backendUp False (startProcess configuredAgent)) = Returned"
  "steps (trace (snd (sync backendUp False (startProcess configuredAgent)))) =
     [Request ''GET'' ''/agentv2/init'', Persisted None, Persisted None,
      Persisted (Some SyncState_RUNNING), Collection, Request ''POST'' ''/agentv2/sync'',
      Persisted (Some SyncState_RUNNING), Persisted (Some SyncState_SUCCESS)]"
  by (simp_all add: sync_def syncAttempt_def markRunning_def collectAndSend_def sendAndFinish_def
      initialData_def CliApiService_sync_def axiosRequest_def ts_config_ops backendUp_fields
      configuredAgent_def startProcess_def steps_def SyncState_RUNNING_def SyncState_SUCCESS_def
      Let_def)

lemma first_sync_unreachable_steps:
  "fst (sync backendDown False (startProcess configuredAgent)) = Exited 1"
  "steps (trace (snd (sync backendDown False (startProcess configuredAgent)))) =
     [Request ''GET'' ''/agentv2/init'', Persisted (Some SyncState_ERROR)]"
  "get (config (snd (sync backendDown False (startProcess configuredAgent)))) ''lastSyncAttemptedAt''
     = None"
  by (simp_all add: sync_def syncAttempt_def markRunning_def collectAndSend_def sendAndFinish_def
      initialData_def CliApiService_sync_def axiosRequest_def ts_config_ops backendDown_fields
      configuredAgent_def startProcess_def steps_def SyncState_ERROR_def message_def
      Let_def)

text \<open>
  Claim C3 at the first \<open>sync\<close> of the TypeScript command line after a configuration, when
  no initialization data is cached. The first effect of the run is the request for the
  initialization data; \<open>RUNNING\<close> reaches the file only after that request and two other
  writes. When the backend cannot be reached, the state goes to \<open>ERROR\<close> without ever having
  been \<open>RUNNING\<close>, and the attempt is not stamped.
\<close>

theorem typescript_sync_requests_before_running:
  "isRegistered configuredAgent \<and> \<not> isInitDataReady configuredAgent
   \<and> fst (sync backendUp False (startProcess configuredAgent)) = Returned
   \<and> steps (trace (snd (sync backendUp False (startProcess configuredAgent)))) =
       [Request ''GET'' ''/agentv2/init'', Persisted None, Persisted None,
        Persisted (Some SyncState_RUNNING), Collection, Request ''POST'' ''/agentv2/sync'',
        Persisted (Some SyncState_RUNNING), Persisted (Some SyncState_SUCCESS)]
   \<and> fst (sync backendDown False (startProcess configuredAgent)) = Exited 1
   \<and> steps (trace (snd (sync backendDown False (startProcess configuredAgent)))) =
       [Request ''GET'' ''/agentv2/init'', Persisted (Some SyncState_ERROR)]
   \<and> get (config (snd (sync backendDown False (startProcess configuredAgent))))
         ''lastSyncAttemptedAt'' = None"
  by (simp add: first_sync_steps first_sync_unreachable_steps)
    (simp add: isRegistered_def isInitDataReady_def get_def truthy_def configuredAgent_def)

section \<open>The TypeScript registration after a failed profile request\<close>

text \<open>
  The \<open>configure\<close> command of the TypeScript command line clears all data when the
  registration fails: whenever it exits with a status, the configuration and the file are
  empty. With a backend that exchanges the token and rejects the profile request, the
  token is written and then cleared, and the registration endpoint is never called.
\<close>

lemma writeConfig_file:
  "writeConfig env w = (None, w') \<Longrightarrow> configFile w' = Some (stringify (config w'))"
  by (auto simp: writeConfig_def split: if_splits)

lemma clearData_file:
  "clearData env w = (None, w') \<Longrightarrow> config w' = [] \<and> configFile w' = Some []"
  by (auto simp: clearData_def writeConfig_def stringify_def split: if_splits)

lemma configure_exit_leaves_nothing:
  assumes "configure env t w = (Exited n, w')"
  shows "config w' = [] \<and> configFile w' = Some [] \<and> \<not> isRegistered (config w')"
proof -
  from assms obtain w5 where "clearData env w5 = (None, w')"
    by (auto simp: configure_def split: if_splits prod.splits option.splits)
  then have "config w' = [] \<and> configFile w' = Some []" by (rule clearData_file)
  then show ?thesis by (simp add: isRegistered_def get_def truthy_def)
qed

lemma profileRejected_fields:
  "writeFileOk profileRejected = (\<lambda>n. True)"
  "randomUUID profileRejected = ''uuid-1''"
  "resolveBaseUrl profileRejected = (\<lambda>region. Inr ''https://agent.drata.com'')"
  "adapter profileRejected = (\<lambda>req.
        if axUrl req = ''/users/me'' then Inl (Error ''Request failed with status code 500'')
        else Inr (JObj [(''accessToken'', JStr ''token-1'')]))"
  by (simp_all add: profileRejected_def backendUp_def)

lemma typescript_configure_clears_token:
  "fst (configure profileRejected operator (startProcess [])) = Exited 1"
  "steps (trace (snd (configure profileRejected operator (startProcess [])))) =
     [Persisted None, Persisted None, Persisted None,
      Request ''POST'' ''/auth/magic-link/magic-1'', Persisted None,
      Request ''GET'' ''/users/me'', Persisted None]"
  "configFile (snd (configure profileRejected operator (startProcess []))) = Some []"
  "\<not> isRegistered (config (snd (configure profileRejected operator (startProcess []))))"
  by (simp_all add: configure_def registrationAttempt_def loginWithMagicLink_def
      axiosRequest_def ts_config_ops clearData_def profileRejected_fields operator_def
      startProcess_def steps_def VERSION_def message_def Let_def)

end
